theory Spec2Isabelle
  imports Main
begin

section \<open>Strings\<close>

text \<open>
  Go strings are byte strings; they are modelled as \<^typ>\<open>string\<close>. The functions below
  are the ones of Go's \<^verbatim>\<open>strings\<close> package that the PKI backend calls.
\<close>

fun hasPrefix :: "string \<Rightarrow> string \<Rightarrow> bool" where
  \<comment> \<open>\<^verbatim>\<open>strings.HasPrefix(s, prefix)\<close>\<close>
  "hasPrefix s [] = True"
| "hasPrefix [] (p # ps) = False"
| "hasPrefix (c # cs) (p # ps) = (c = p \<and> hasPrefix cs ps)"

definition hasSuffix :: "string \<Rightarrow> string \<Rightarrow> bool" where
  \<comment> \<open>\<^verbatim>\<open>strings.HasSuffix(s, suffix)\<close>\<close>
  "hasSuffix s suf = hasPrefix (rev s) (rev suf)"

definition trimSuffix :: "string \<Rightarrow> string \<Rightarrow> string" where
  \<comment> \<open>\<^verbatim>\<open>strings.TrimSuffix(s, suffix)\<close>\<close>
  "trimSuffix s suf = (if hasSuffix s suf then take (length s - length suf) s else s)"

fun contains :: "string \<Rightarrow> string \<Rightarrow> bool" where
  \<comment> \<open>\<^verbatim>\<open>strings.Contains(s, substr)\<close>\<close>
  "contains [] sub = (sub = [])"
| "contains (c # cs) sub = (hasPrefix (c # cs) sub \<or> contains cs sub)"

fun split :: "string \<Rightarrow> char \<Rightarrow> string list" where
  \<comment> \<open>\<^verbatim>\<open>strings.Split(s, sep)\<close> for a separator of one byte: the pieces between
      the separators, so one piece more than there are separators.\<close>
  "split [] sep = [[]]"
| "split (c # cs) sep =
     (if c = sep then [] # split cs sep
      else (case split cs sep of
              [] \<Rightarrow> [[c]]
            | w # ws \<Rightarrow> (c # w) # ws))"

section \<open>The hostname pattern\<close>

text \<open>
  \<^verbatim>\<open>validateNames\<close> compiles the pattern
  \<^verbatim>\<open>^(([a-zA-Z0-9]|[a-zA-Z0-9][a-zA-Z0-9\-]*[a-zA-Z0-9])\.)*([A-Za-z0-9]|[A-Za-z0-9][A-Za-z0-9\-]*[A-Za-z0-9])$\<close>.
  A label is one alphanumeric byte, or an alphanumeric byte, any number of alphanumeric
  bytes or hyphens, and an alphanumeric byte. The pattern is anchored at both ends and
  asks for labels separated by single dots, with a last label that no dot follows.
  A label holds no dot, so the text matches exactly when every piece between its dots
  is a label: that is how \<open>hostnameRegex\<close> computes the match. The pattern itself is
  \<open>hostnamePattern\<close>, a regular expression with the usual meaning \<open>matches\<close>; the lemma
  \<open>hostnameRegex_matches\<close> below shows that the two agree on every text.
\<close>

definition alnum :: "char \<Rightarrow> bool" where
  \<comment> \<open>the class \<^verbatim>\<open>[a-zA-Z0-9]\<close>\<close>
  "alnum c = (c \<in> set ''abcdefghijklmnopqrstuvwxyzABCDEFGHIJKLMNOPQRSTUVWXYZ0123456789'')"

definition labelByte :: "char \<Rightarrow> bool" where
  \<comment> \<open>the class \<^verbatim>\<open>[a-zA-Z0-9\-]\<close>\<close>
  "labelByte c = (alnum c \<or> c = CHR ''-'')"

definition isLabel :: "string \<Rightarrow> bool" where
  \<comment> \<open>\<^verbatim>\<open>[a-zA-Z0-9]|[a-zA-Z0-9][a-zA-Z0-9\-]*[a-zA-Z0-9]\<close>\<close>
  "isLabel l = (l \<noteq> [] \<and> alnum (hd l) \<and> alnum (last l) \<and> list_all labelByte l)"

definition hostnameRegex :: "string \<Rightarrow> bool" where
  \<comment> \<open>\<^verbatim>\<open>hostnameRegex.MatchString(s)\<close>\<close>
  "hostnameRegex s = list_all isLabel (split s CHR ''.'')"

datatype regexp =
  Class "char \<Rightarrow> bool"
  | Lit char
  | Alt regexp regexp
  | Cat regexp regexp
  | Star regexp

inductive matches :: "regexp \<Rightarrow> string \<Rightarrow> bool" where
  \<comment> \<open>the whole text is in the language of the expression\<close>
  Class: "P c \<Longrightarrow> matches (Class P) [c]"
| Lit: "matches (Lit c) [c]"
| AltL: "matches r s \<Longrightarrow> matches (Alt r r') s"
| AltR: "matches r' s \<Longrightarrow> matches (Alt r r') s"
| Cat: "matches r u \<Longrightarrow> matches r' v \<Longrightarrow> matches (Cat r r') (u @ v)"
| StarNil: "matches (Star r) []"
| StarCons: "matches r u \<Longrightarrow> matches (Star r) v \<Longrightarrow> matches (Star r) (u @ v)"

definition labelPattern :: regexp where
  \<comment> \<open>\<^verbatim>\<open>[a-zA-Z0-9]|[a-zA-Z0-9][a-zA-Z0-9\-]*[a-zA-Z0-9]\<close>\<close>
  "labelPattern =
     Alt (Class alnum) (Cat (Class alnum) (Cat (Star (Class labelByte)) (Class alnum)))"

definition hostnamePattern :: regexp where
  \<comment> \<open>\<^verbatim>\<open>^((label)\.)*(label)$\<close>\<close>
  "hostnamePattern = Cat (Star (Cat labelPattern (Lit CHR ''.''))) labelPattern"

section \<open>Roles\<close>

text \<open>
  \<^verbatim>\<open>roleEntry\<close>. The struct declaration lists the fields up to \<^verbatim>\<open>KeyBits\<close>;
  \<^verbatim>\<open>generateCreationBundle\<close> also reads \<^verbatim>\<open>role.UseCSRCommonName\<close> and the pointer
  \<^verbatim>\<open>role.MaxPathLength\<close>, which the handlers that build a role leave at their zero
  values (\<open>False\<close> and \<open>None\<close>).
\<close>

record roleEntry =
  LeaseMax :: string
  Lease :: string
  MaxTTL :: string
  TTL :: string
  AllowLocalhost :: bool
  AllowedBaseDomain :: string
  AllowBaseDomain :: bool
  AllowTokenDisplayName :: bool
  AllowSubdomains :: bool
  AllowAnyName :: bool
  EnforceHostnames :: bool
  AllowIPSANs :: bool
  ServerFlag :: bool
  ClientFlag :: bool
  CodeSigningFlag :: bool
  EmailProtectionFlag :: bool
  KeyType :: string
  KeyBits :: int
  UseCSRCommonName :: bool
  MaxPathLength :: "int option"

section \<open>The name validator\<close>

text \<open>
  One round of the loop of \<^verbatim>\<open>validateNames\<close>, in two parts. \<open>nameAllowed\<close> is the
  round: \<open>True\<close> when it reaches a \<^verbatim>\<open>continue\<close> (the name is admitted),
  \<open>False\<close> when it reaches a \<^verbatim>\<open>return name, nil\<close>. It computes the locals
  \<^verbatim>\<open>isEmail\<close>, \<^verbatim>\<open>emailDomain\<close>, \<^verbatim>\<open>isWildcard\<close> and \<^verbatim>\<open>sanitizedName\<close>
  and hands them to \<open>roleAdmits\<close>, the part of the round from the
  \<^verbatim>\<open>EnforceHostnames\<close> test to its end. \<open>displayName\<close> is \<^verbatim>\<open>req.DisplayName\<close>.
\<close>

definition roleAdmits ::
  "string \<Rightarrow> roleEntry \<Rightarrow> string \<Rightarrow> bool \<Rightarrow> string \<Rightarrow> bool \<Rightarrow> string \<Rightarrow> bool" where
  "roleAdmits displayName role name isEmail emailDomain isWildcard sanitizedName =
    (if EnforceHostnames role \<and> \<not> hostnameRegex sanitizedName then False
     else if AllowAnyName role then True
     else if AllowLocalhost role \<and>
             (name = ''localhost'' \<or> (isEmail \<and> emailDomain = ''localhost'')) then True
     else if AllowLocalhost role \<and> AllowSubdomains role \<and>
             hasSuffix sanitizedName (''.'' @ displayName) \<and>
             hostnameRegex (trimSuffix sanitizedName (''.'' @ displayName)) then True
     else if AllowLocalhost role \<and> AllowSubdomains role \<and>
             isWildcard \<and> sanitizedName = AllowedBaseDomain role then True
     else if AllowTokenDisplayName role \<and>
             (name = displayName \<or> (isEmail \<and> emailDomain = displayName)) then True
     else if AllowTokenDisplayName role \<and> AllowSubdomains role \<and>
             hasSuffix sanitizedName (''.'' @ displayName) \<and>
             hostnameRegex (trimSuffix sanitizedName (''.'' @ displayName)) then True
     else if AllowTokenDisplayName role \<and> AllowSubdomains role \<and>
             isWildcard \<and> sanitizedName = AllowedBaseDomain role then True
     else if length (AllowedBaseDomain role) \<noteq> 0 \<and> AllowBaseDomain role \<and>
             (name = AllowedBaseDomain role \<or>
              (isEmail \<and> emailDomain = AllowedBaseDomain role)) then True
     else if length (AllowedBaseDomain role) \<noteq> 0 \<and> AllowSubdomains role \<and>
             hasSuffix sanitizedName (''.'' @ AllowedBaseDomain role) \<and>
             hostnameRegex (trimSuffix sanitizedName (''.'' @ AllowedBaseDomain role)) then True
     else if length (AllowedBaseDomain role) \<noteq> 0 \<and> AllowSubdomains role \<and>
             isWildcard \<and> sanitizedName = AllowedBaseDomain role then True
     else False)"

definition nameAllowed :: "string \<Rightarrow> roleEntry \<Rightarrow> string \<Rightarrow> bool" where
  "nameAllowed displayName role name =
    (let isEmail = contains name ''@'';
         splitEmail = split name CHR ''@''
     in
     if isEmail \<and> \<not> EmailProtectionFlag role \<and> \<not> AllowAnyName role then False
     else if isEmail \<and> length splitEmail \<noteq> 2 then False
     else
       let emailDomain = (if isEmail then splitEmail ! 1 else name);
           isWildcard = hasPrefix emailDomain ''*.'';
           sanitizedName = (if isWildcard then drop 2 emailDomain else emailDomain)
       in roleAdmits displayName role name isEmail emailDomain isWildcard sanitizedName)"

text \<open>
  \<^verbatim>\<open>validateNames(req, names, role)\<close>: the first name whose round returns, or the
  empty string when every round continues. The pattern is a constant that compiles, so
  the error result is always \<^verbatim>\<open>nil\<close> and is left out.
\<close>

fun validateNames :: "string \<Rightarrow> string list \<Rightarrow> roleEntry \<Rightarrow> string" where
  "validateNames displayName [] role = ''''"
| "validateNames displayName (name # names) role =
     (if nameAllowed displayName role name then validateNames displayName names role
      else name)"

section \<open>Errors, time and text\<close>

text \<open>
  The Go functions return an \<^verbatim>\<open>error\<close> next to their result. \<open>UserError\<close> and
  \<open>InternalError\<close> are the two error types of \<^verbatim>\<open>certutil\<close>, \<open>Errorf\<close> is any
  other error value (\<^verbatim>\<open>fmt.Errorf\<close>, an error of the storage), and \<open>GoPanic\<close> is a
  run-time panic (a nil dereference, a slice out of range), which unwinds every caller.
\<close>

datatype err = UserError string | InternalError string | Errorf string | GoPanic

fun Error :: "err \<Rightarrow> string" where
  \<comment> \<open>Modelled from the spec: \<^verbatim>\<open>err.Error()\<close>. The \<^verbatim>\<open>Error\<close> methods of
      \<^verbatim>\<open>certutil.UserError\<close> and \<^verbatim>\<open>certutil.InternalError\<close> are not among the
      source files; the spec has both kinds of error carry a message, which is what
      the method gives here.\<close>
  "Error (UserError m) = m"
| "Error (InternalError m) = m"
| "Error (Errorf m) = m"
| "Error GoPanic = ''''"

type_synonym bytes = string

type_synonym duration = int
  \<comment> \<open>\<^verbatim>\<open>time.Duration\<close>, in nanoseconds\<close>

type_synonym time = int
  \<comment> \<open>\<^verbatim>\<open>time.Time\<close>, in nanoseconds since the epoch\<close>

definition Second :: duration where
  "Second = 1000000000"

fun showNat :: "nat \<Rightarrow> string" where
  "showNat n =
     (if n < 10 then [''0123456789'' ! n]
      else showNat (n div 10) @ [''0123456789'' ! (n mod 10)])"

declare showNat.simps [simp del]

definition showInt :: "int \<Rightarrow> string" where
  \<comment> \<open>the verb \<^verbatim>\<open>%d\<close> of \<^verbatim>\<open>fmt.Sprintf\<close>\<close>
  "showInt i = (if i < 0 then ''-'' @ showNat (nat (- i)) else showNat (nat i))"

definition quot :: "int \<Rightarrow> int \<Rightarrow> int" where
  \<comment> \<open>Go's integer division, which truncates toward zero\<close>
  "quot a b = (if (a < 0) = (b < 0) then \<bar>a\<bar> div \<bar>b\<bar> else - (\<bar>a\<bar> div \<bar>b\<bar>))"

section \<open>Certificates, keys and bundles\<close>

text \<open>
  A key pair is named by a number: \<open>RSAKey n\<close> and \<open>ECKey n\<close> are private keys, and
  \<open>Public\<close> gives the public half, which names the same pair.
\<close>

datatype privateKey = RSAKey nat | ECKey nat

datatype publicKey = RSAPublicKey nat | ECPublicKey nat

fun Public :: "privateKey \<Rightarrow> publicKey" where
  "Public (RSAKey n) = RSAPublicKey n"
| "Public (ECKey n) = ECPublicKey n"

datatype curve = P224 | P256 | P384 | P521

datatype signatureAlgorithm = UnknownSignatureAlgorithm | SHA256WithRSA | ECDSAWithSHA256

datatype extKeyUsage =
  ExtKeyUsageServerAuth | ExtKeyUsageClientAuth | ExtKeyUsageCodeSigning
  | ExtKeyUsageEmailProtection | ExtKeyUsageOCSPSigning

text \<open>The bits of \<^verbatim>\<open>x509.KeyUsage\<close> that the backend sets.\<close>

definition KeyUsageDigitalSignature :: nat where "KeyUsageDigitalSignature = 1"
definition KeyUsageKeyEncipherment :: nat where "KeyUsageKeyEncipherment = 4"
definition KeyUsageKeyAgreement :: nat where "KeyUsageKeyAgreement = 16"
definition KeyUsageCertSign :: nat where "KeyUsageCertSign = 32"
definition KeyUsageCRLSign :: nat where "KeyUsageCRLSign = 64"

text \<open>\<^verbatim>\<open>certUsage\<close>: \<^verbatim>\<open>1 << iota\<close>.\<close>

definition serverUsage :: nat where "serverUsage = 1"
definition clientUsage :: nat where "clientUsage = 2"
definition codeSigningUsage :: nat where "codeSigningUsage = 4"
definition emailProtectionUsage :: nat where "emailProtectionUsage = 8"
definition caUsage :: nat where "caUsage = 16"

record pkixName =
  CommonName :: string
  otherAttributes :: "string list"

text \<open>\<^verbatim>\<open>x509.Certificate\<close>, the fields the backend reads or writes.\<close>

record x509Certificate =
  SerialNumber :: int
  Subject :: pkixName
  NotBefore :: time
  NotAfter :: time
  KeyUsage :: nat
  ExtKeyUsage :: "extKeyUsage list"
  BasicConstraintsValid :: bool
  IsCA :: bool
  MaxPathLen :: int
  MaxPathLenZero :: bool
  SubjectKeyId :: bytes
  DNSNames :: "string list"
  EmailAddresses :: "string list"
  IPAddresses :: "bytes list"
  SignatureAlgorithm :: signatureAlgorithm
  IssuingCertificateURL :: "string list"
  CRLDistributionPoints :: "string list"
  OCSPServer :: "string list"
  ExtraExtensions :: "bytes list"
  PublicKey :: "publicKey option"

text \<open>\<^verbatim>\<open>x509.CertificateRequest\<close>.\<close>

record x509CertificateRequest =
  csr_Subject :: pkixName
  csr_DNSNames :: "string list"
  csr_EmailAddresses :: "string list"
  csr_IPAddresses :: "bytes list"
  csr_Extensions :: "bytes list"
  csr_SignatureAlgorithm :: signatureAlgorithm
  csr_PublicKey :: "publicKey option"

record urlEntries =
  IssuingCertificates :: "string list"
  url_CRLDistributionPoints :: "string list"
  OCSPServers :: "string list"

text \<open>
  The bundle types of \<^verbatim>\<open>helper/certutil\<close>: the parsed forms hold keys and
  certificates, the plain forms hold their PEM text and are what is stored as JSON.
  A nil pointer is \<open>None\<close>; a nil byte slice is the empty one.
\<close>

datatype privateKeyType = UnknownPrivateKey | RSAPrivateKey | ECPrivateKey

record ParsedCertBundle =
  pb_PrivateKeyType :: privateKeyType
  pb_PrivateKeyBytes :: bytes
  pb_PrivateKey :: "privateKey option"
  pb_IssuingCABytes :: bytes
  pb_IssuingCA :: "x509Certificate option"
  pb_CertificateBytes :: bytes
  pb_Certificate :: "x509Certificate option"

record CertBundle =
  cb_PrivateKeyType :: string
  cb_Certificate :: string
  cb_IssuingCA :: string
  cb_PrivateKey :: string
  cb_SerialNumber :: string

record ParsedCSRBundle =
  pcsr_PrivateKeyType :: privateKeyType
  pcsr_PrivateKeyBytes :: bytes
  pcsr_PrivateKey :: "privateKey option"
  pcsr_CSRBytes :: bytes
  pcsr_CSR :: "x509CertificateRequest option"

record CSRBundle =
  csrb_PrivateKeyType :: string
  csrb_CSR :: string
  csrb_PrivateKey :: string

text \<open>\<^verbatim>\<open>caInfoBundle\<close> embeds a \<^verbatim>\<open>ParsedCertBundle\<close> and adds the URLs.\<close>

record caInfoBundle = ParsedCertBundle +
  ca_URLs :: "urlEntries option"

record certCreationBundle =
  ci_CommonName :: string
  ci_DNSNames :: "string list"
  ci_EmailAddresses :: "string list"
  ci_IPAddresses :: "bytes list"
  ci_IsCA :: bool
  ci_KeyType :: string
  ci_KeyBits :: int
  ci_SigningBundle :: "caInfoBundle option"
  ci_TTL :: duration
  ci_Usage :: nat
  ci_UseCSRValues :: bool
  ci_URLs :: "urlEntries option"
  ci_MaxPathLength :: int

section \<open>Storage, requests and the world outside\<close>

text \<open>
  \<^verbatim>\<open>logical.Storage\<close> is a store of byte blobs under string keys. A blob written by
  \<^verbatim>\<open>logical.StorageEntryJSON\<close> is kept as the value that was encoded, and
  \<^verbatim>\<open>DecodeJSON\<close> gives it back; decoding a blob of another kind is an error. A
  \<^verbatim>\<open>Get\<close> or a \<^verbatim>\<open>Put\<close> may fail: \<open>getFailure\<close> and \<open>putFailure\<close> say for which
  keys, and with which error. \<open>written\<close> lists the keys of the successful writes, oldest
  first.
\<close>

datatype storageValue = JSONRole roleEntry | JSONCertBundle CertBundle | RawBytes bytes

record storage =
  entries :: "string \<rightharpoonup> storageValue"
  getFailure :: "string \<Rightarrow> err option"
  putFailure :: "string \<Rightarrow> err option"
  written :: "string list"

definition Storage_Get :: "storage \<Rightarrow> string \<Rightarrow> err + storageValue option" where
  "Storage_Get s key =
     (case getFailure s key of Some e \<Rightarrow> Inl e | None \<Rightarrow> Inr (entries s key))"

definition Storage_Put :: "storage \<Rightarrow> string \<Rightarrow> storageValue \<Rightarrow> err + storage" where
  "Storage_Put s key v =
     (case putFailure s key of
        Some e \<Rightarrow> Inl e
      | None \<Rightarrow> Inr (s\<lparr>entries := (entries s)(key \<mapsto> v), written := written s @ [key]\<rparr>))"

record request =
  DisplayName :: string
  MountPoint :: string
  Storage :: storage

text \<open>
  \<^verbatim>\<open>framework.FieldData\<close> holds the raw values of a request and the schema of the path
  that routed it. The record gives, for each field the handlers read, what
  \<^verbatim>\<open>data.GetOk(k)\<close> returns: \<open>None\<close> when the request did not supply the field or the
  path does not declare it. \<open>Schema\<close> is the set of the names the path declares.
  \<^verbatim>\<open>data.Get(k)\<close> is the value of \<^verbatim>\<open>GetOk\<close> or, when there is none, the default of
  the schema, which is the empty string for the string fields and 2048 for
  \<^verbatim>\<open>key_bits\<close>; on a name the path does not declare it panics.

  The handlers read their own fields with \<^verbatim>\<open>Get\<close>, and \<^verbatim>\<open>signCert\<close> reads
  \<^verbatim>\<open>csr\<close> so; the paths that reach these reads declare the fields, and the reads are
  \<open>GetString\<close> and \<open>GetKeyBits\<close>. \<^verbatim>\<open>generateCreationBundle\<close> reads
  \<^verbatim>\<open>common_name\<close> with \<^verbatim>\<open>Get\<close> and is reached from every path, also from one that
  does not declare \<^verbatim>\<open>common_name\<close>: this read is \<open>Get\<close>, which looks at the schema.
\<close>

record fieldData =
  f_common_name :: "string option"
  f_alt_names :: "string option"
  f_ip_sans :: "string option"
  f_ttl :: "string option"
  f_csr :: "string option"
  f_pki_address :: "string option"
  f_exported :: "string option"
  f_key_bits :: "int option"
  f_pem_bundle :: "string option"
  Schema :: "string set"

definition GetString :: "string option \<Rightarrow> string" where
  "GetString raw = (case raw of None \<Rightarrow> '''' | Some v \<Rightarrow> v)"

definition GetKeyBits :: "int option \<Rightarrow> int" where
  "GetKeyBits raw = (case raw of None \<Rightarrow> 2048 | Some v \<Rightarrow> v)"

definition Get :: "fieldData \<Rightarrow> string \<Rightarrow> string option \<Rightarrow> err + string" where
  \<comment> \<open>Modelled from the spec: \<^verbatim>\<open>framework.FieldData.Get\<close> is not among the source
      files. The spec gives each operation the fields of its path; the model takes from
      the framework that \<^verbatim>\<open>Get\<close> of a string field panics when the path does not
      declare the name. \<open>raw\<close> is the value of \<^verbatim>\<open>GetOk\<close>, which has none for a name
      that is not declared.\<close>
  "Get data k raw =
     (case raw of
        Some v \<Rightarrow> Inr v
      | None \<Rightarrow> if k \<in> Schema data then Inr '''' else Inl GoPanic)"

text \<open>
  The schemas of the paths that generate a CA. \<^verbatim>\<open>pathGenerateRootCA\<close> takes the map
  \<^verbatim>\<open>rootAndSignSchema\<close> and adds \<^verbatim>\<open>pki_address\<close> and the entries of
  \<^verbatim>\<open>generateSchema\<close> to it; \<^verbatim>\<open>pathGenerateIntermediateCA\<close> takes
  \<^verbatim>\<open>generateSchema\<close> as it is. The path that signs an intermediate CA is built on the
  same map \<^verbatim>\<open>rootAndSignSchema\<close> and adds \<^verbatim>\<open>csr\<close>, a name that the handler of the
  root path does not read.
\<close>

definition rootAndSignSchema :: "string set" where
  "rootAndSignSchema = {''common_name'', ''alt_names'', ''ip_sans'', ''ttl''}"

definition generateSchema :: "string set" where
  "generateSchema = {''exported'', ''key_bits''}"

definition pathGenerateRootCA :: "string set" where
  \<comment> \<open>the \<^verbatim>\<open>Fields\<close> of the path \<^verbatim>\<open>config/ca/generate/root/<exported>\<close>\<close>
  "pathGenerateRootCA = rootAndSignSchema \<union> {''pki_address''} \<union> generateSchema"

definition pathGenerateIntermediateCA :: "string set" where
  \<comment> \<open>the \<^verbatim>\<open>Fields\<close> of the path \<^verbatim>\<open>config/ca/generate/intermediate/<exported>\<close>\<close>
  "pathGenerateIntermediateCA = generateSchema"

definition FieldData :: "string set \<Rightarrow> fieldData \<Rightarrow> fieldData" where
  \<comment> \<open>Modelled from the spec: the \<^verbatim>\<open>FieldData\<close> that the framework hands to the
      handler of a path with the schema \<open>schema\<close>, for a request with the values
      \<open>raw\<close>. Its source is not among the files; a value supplied under a name that
      the path does not declare cannot be read.\<close>
  "FieldData schema raw =
     \<lparr>f_common_name = (if ''common_name'' \<in> schema then f_common_name raw else None),
      f_alt_names = (if ''alt_names'' \<in> schema then f_alt_names raw else None),
      f_ip_sans = (if ''ip_sans'' \<in> schema then f_ip_sans raw else None),
      f_ttl = (if ''ttl'' \<in> schema then f_ttl raw else None),
      f_csr = (if ''csr'' \<in> schema then f_csr raw else None),
      f_pki_address = (if ''pki_address'' \<in> schema then f_pki_address raw else None),
      f_exported = (if ''exported'' \<in> schema then f_exported raw else None),
      f_key_bits = (if ''key_bits'' \<in> schema then f_key_bits raw else None),
      f_pem_bundle = (if ''pem_bundle'' \<in> schema then f_pem_bundle raw else None),
      Schema = schema\<rparr>"

text \<open>
  What the backend calls and this repository's three files do not define: the lease
  limits of the system view, the clock, the Go libraries (\<^verbatim>\<open>time\<close>, \<^verbatim>\<open>net\<close>,
  \<^verbatim>\<open>crypto\<close>, \<^verbatim>\<open>x509\<close>, \<^verbatim>\<open>pem\<close>), and the helpers \<^verbatim>\<open>getURLs\<close>,
  \<^verbatim>\<open>certutil.ParsePEMBundle\<close>, \<^verbatim>\<open>GetSubjKeyID\<close> and the conversions between
  bundles. They are parameters of the model. A library function that returns an error
  gives \<open>Inl\<close> of the error's text or \<open>None\<close>. The clock and the random sources are
  read once per request: every \<^verbatim>\<open>time.Now()\<close> of a request gives \<open>time_Now\<close>,
  \<open>rand_Int\<close> is the serial number drawn, and the key generators give the name of the
  key pair drawn. Durations and times are unbounded integers; the model has no overflow
  of \<^verbatim>\<open>int64\<close>.
\<close>

record env =
  DefaultLeaseTTL :: duration
  MaxLeaseTTL :: duration
  time_Now :: time
  time_ParseDuration :: "string \<Rightarrow> string + duration"
  net_ParseIP :: "string \<Rightarrow> bytes option"
  getURLs :: "storage \<Rightarrow> err + urlEntries option"
  rand_Int :: "int option"
  rsa_GenerateKey :: "int \<Rightarrow> nat option"
  ecdsa_GenerateKey :: "curve \<Rightarrow> nat option"
  x509_MarshalPKCS1PrivateKey :: "privateKey \<Rightarrow> bytes"
  x509_MarshalECPrivateKey :: "privateKey \<Rightarrow> bytes option"
  certutil_GetSubjKeyID :: "privateKey \<Rightarrow> string + bytes"
  x509_CreateCertificate ::
    "x509Certificate \<Rightarrow> x509Certificate \<Rightarrow> publicKey option \<Rightarrow> privateKey option
       \<Rightarrow> string + bytes"
  x509_ParseCertificate :: "bytes \<Rightarrow> string + x509Certificate"
  x509_CreateCertificateRequest :: "x509CertificateRequest \<Rightarrow> privateKey \<Rightarrow> string + bytes"
  x509_ParseCertificateRequest :: "bytes \<Rightarrow> string + x509CertificateRequest"
  x509_MarshalPKIXPublicKey :: "publicKey option \<Rightarrow> string + bytes"
  sha1_Sum :: "bytes \<Rightarrow> bytes"
  pem_Decode :: "string \<Rightarrow> bytes option"
  CheckSignature :: "x509CertificateRequest \<Rightarrow> bool"
  ParsePEMBundle :: "string \<Rightarrow> err + ParsedCertBundle"
  ToParsedCertBundle :: "CertBundle \<Rightarrow> err + ParsedCertBundle"
  ToCertBundle :: "ParsedCertBundle \<Rightarrow> err + CertBundle"
  ToCSRBundle :: "ParsedCSRBundle \<Rightarrow> err + CSRBundle"

section \<open>The creation bundle\<close>

text \<open>
  \<^verbatim>\<open>generateCreationBundle\<close> is one long function. Its blocks are modelled one by
  one, in the order of the source, and \<open>generateCreationBundle\<close> puts them together.
\<close>

definition gcb_commonName ::
  "roleEntry \<Rightarrow> x509CertificateRequest option \<Rightarrow> fieldData \<Rightarrow> err + string" where
  \<comment> \<open>``Get the common name(s)''\<close>
  "gcb_commonName role csr data =
     (case Get data ''common_name'' (f_common_name data) of
        Inl er \<Rightarrow> Inl er
      | Inr cn \<Rightarrow>
          if length cn = 0 then
            (case csr of
               Some c \<Rightarrow>
                 if UseCSRCommonName role then Inr (CommonName (csr_Subject c))
                 else Inl (UserError
                   ''the common_name field must be supplied when \"use_csr_common_name\" is not specified in the role'')
             | None \<Rightarrow> Inl (UserError ''the common_name field is required''))
          else Inr cn)"

fun gcb_altNames ::
  "string \<Rightarrow> string list \<Rightarrow> string list \<times> string list \<Rightarrow> string list \<times> string list" where
  \<comment> \<open>the loop over \<^verbatim>\<open>strings.Split(cnAlt, ",")\<close>; the state is
      \<^verbatim>\<open>(dnsNames, emailAddresses)\<close>\<close>
  "gcb_altNames cn [] (dnsNames, emailAddresses) = (dnsNames, emailAddresses)"
| "gcb_altNames cn (v # vs) (dnsNames, emailAddresses) =
     (if contains v ''@'' then gcb_altNames cn vs (dnsNames, emailAddresses @ [cn])
      else gcb_altNames cn vs (dnsNames @ [v], emailAddresses))"

definition gcb_names :: "string \<Rightarrow> fieldData \<Rightarrow> string list \<times> string list" where
  "gcb_names cn data =
     (let names = (if contains cn ''@'' then ([], [cn]) else ([cn], [])) in
      case f_alt_names data of
        Some cnAlt \<Rightarrow>
          if length cnAlt \<noteq> 0 then gcb_altNames cn (split cnAlt CHR '','') names else names
      | None \<Rightarrow> names)"

fun gcb_parseIPs :: "env \<Rightarrow> string list \<Rightarrow> bytes list \<Rightarrow> err + bytes list" where
  "gcb_parseIPs e [] ipAddresses = Inr ipAddresses"
| "gcb_parseIPs e (v # vs) ipAddresses =
     (case net_ParseIP e v of
        None \<Rightarrow> Inl (UserError
          (''the value '' @ [CHR 0x27] @ v @ [CHR 0x27] @ '' is not a valid IP address''))
      | Some parsedIP \<Rightarrow> gcb_parseIPs e vs (ipAddresses @ [parsedIP]))"

definition gcb_ipAddresses :: "env \<Rightarrow> roleEntry \<Rightarrow> fieldData \<Rightarrow> err + bytes list" where
  \<comment> \<open>``Get any IP SANs''\<close>
  "gcb_ipAddresses e role data =
     (case f_ip_sans data of
        Some ipAlt \<Rightarrow>
          if length ipAlt \<noteq> 0 then
            (if \<not> AllowIPSANs role then
               Inl (UserError
                 (''IP Subject Alternative Names are not allowed in this role, but was provided ''
                    @ ipAlt))
             else gcb_parseIPs e (split ipAlt CHR '','') [])
          else Inr []
      | None \<Rightarrow> Inr [])"

definition gcb_ttlField :: "roleEntry \<Rightarrow> fieldData \<Rightarrow> string" where
  "gcb_ttlField role data = (case f_ttl data of None \<Rightarrow> TTL role | Some v \<Rightarrow> v)"

definition gcb_ttl :: "env \<Rightarrow> roleEntry \<Rightarrow> fieldData \<Rightarrow> err + duration" where
  "gcb_ttl e role data =
     (let ttlField = gcb_ttlField role data in
      case (if length ttlField = 0 then Inr (DefaultLeaseTTL e)
            else (case time_ParseDuration e ttlField of
                    Inl msg \<Rightarrow> Inl (UserError (''invalid requested ttl: '' @ msg))
                  | Inr d \<Rightarrow> Inr d)) of
        Inl er \<Rightarrow> Inl er
      | Inr ttl \<Rightarrow>
          (case (if length (MaxTTL role) = 0 then Inr (MaxLeaseTTL e)
                 else (case time_ParseDuration e (MaxTTL role) of
                         Inl msg \<Rightarrow> Inl (UserError (''invalid ttl: '' @ msg))
                       | Inr d \<Rightarrow> Inr d)) of
             Inl er \<Rightarrow> Inl er
           | Inr maxTTL \<Rightarrow>
               if ttl > maxTTL then
                 (if length ttlField = 0 then Inr maxTTL
                  else Inl (UserError
                    (''ttl is larger than maximum allowed ('' @ showInt (quot maxTTL Second)
                       @ '')'')))
               else Inr ttl))"

definition gcb_usage :: "roleEntry \<Rightarrow> nat" where
  "gcb_usage role =
     (let usage = 0;
          usage = (if ServerFlag role then or usage serverUsage else usage);
          usage = (if ClientFlag role then or usage clientUsage else usage);
          usage = (if CodeSigningFlag role then or usage codeSigningUsage else usage);
          usage = (if EmailProtectionFlag role then or usage emailProtectionUsage else usage)
      in usage)"

definition emptyURLs :: urlEntries where
  "emptyURLs = \<lparr>IssuingCertificates = [], url_CRLDistributionPoints = [], OCSPServers = []\<rparr>"

definition gcb_finish ::
  "env \<Rightarrow> roleEntry \<Rightarrow> caInfoBundle option \<Rightarrow> request \<Rightarrow> certCreationBundle
     \<Rightarrow> err + certCreationBundle" where
  \<comment> \<open>from \<^verbatim>\<open>if signingBundle != nil\<close> after the bundle is built, to the end\<close>
  "gcb_finish e role signingBundle req creationBundle =
     (case signingBundle of
        Some sb \<Rightarrow>
          (case pb_Certificate sb of
             None \<Rightarrow> Inl GoPanic
           | Some caCert \<Rightarrow>
               if MaxPathLen caCert = 0 then
                 Inl (UserError ''signing CA has a max path length of zero'')
               else
                 let creationBundle = creationBundle\<lparr>ci_URLs := ca_URLs sb\<rparr> in
                 (case MaxPathLength role of
                    Some n \<Rightarrow> Inr (creationBundle\<lparr>ci_MaxPathLength := n\<rparr>)
                  | None \<Rightarrow>
                      if MaxPathLen caCert < 0 then
                        Inr (creationBundle\<lparr>ci_MaxPathLength := - 1\<rparr>)
                      else if MaxPathLen caCert = 0 then
                        Inl (UserError ''signing CA has a max path length of zero'')
                      else
                        Inr (creationBundle\<lparr>ci_MaxPathLength := MaxPathLen caCert - 1\<rparr>)))
      | None \<Rightarrow>
          (case getURLs e (Storage req) of
             Inl er \<Rightarrow>
               Inl (InternalError (''unable to fetch URL information: '' @ Error er))
           | Inr found \<Rightarrow>
               let urls = (case found of None \<Rightarrow> emptyURLs | Some u \<Rightarrow> u);
                   creationBundle = creationBundle\<lparr>ci_URLs := Some urls\<rparr>
               in (case MaxPathLength role of
                     None \<Rightarrow> Inr (creationBundle\<lparr>ci_MaxPathLength := - 1\<rparr>)
                   | Some n \<Rightarrow> Inr (creationBundle\<lparr>ci_MaxPathLength := n\<rparr>))))"

definition generateCreationBundle ::
  "env \<Rightarrow> roleEntry \<Rightarrow> caInfoBundle option \<Rightarrow> x509CertificateRequest option \<Rightarrow> request
     \<Rightarrow> fieldData \<Rightarrow> err + certCreationBundle" where
  "generateCreationBundle e role signingBundle csr req data =
     (case gcb_commonName role csr data of
        Inl er \<Rightarrow> Inl er
      | Inr cn \<Rightarrow>
     (case gcb_names cn data of (dnsNames, emailAddresses) \<Rightarrow>
     (case gcb_ipAddresses e role data of
        Inl er \<Rightarrow> Inl er
      | Inr ipAddresses \<Rightarrow>
     (case gcb_ttl e role data of
        Inl er \<Rightarrow> Inl er
      | Inr ttl \<Rightarrow>
     (case (case signingBundle of
              None \<Rightarrow> Inr False
            | Some sb \<Rightarrow>
                (case pb_Certificate sb of
                   None \<Rightarrow> Inl GoPanic
                 | Some caCert \<Rightarrow> Inr (time_Now e + ttl > NotAfter caCert))) of
        Inl er \<Rightarrow> Inl er
      | Inr beyond \<Rightarrow>
          if beyond then
            Inl (UserError
              ''cannot satisfy request, as TTL is beyond the expiration of the CA certificate'')
          else
            let badName = validateNames (DisplayName req) dnsNames role in
            if length badName \<noteq> 0 then
              Inl (UserError (''name '' @ badName @ '' not allowed by this role''))
            else
              let badName = validateNames (DisplayName req) emailAddresses role in
              if length badName \<noteq> 0 then
                Inl (UserError (''email '' @ badName @ '' not allowed by this role''))
              else
                gcb_finish e role signingBundle req
                  \<lparr>ci_CommonName = cn, ci_DNSNames = dnsNames,
                   ci_EmailAddresses = emailAddresses, ci_IPAddresses = ipAddresses,
                   ci_IsCA = False, ci_KeyType = KeyType role, ci_KeyBits = KeyBits role,
                   ci_SigningBundle = signingBundle, ci_TTL = ttl,
                   ci_Usage = gcb_usage role, ci_UseCSRValues = False, ci_URLs = None,
                   ci_MaxPathLength = 0\<rparr>)))))"

section \<open>Keys, templates and signing\<close>

definition generateKey ::
  "env \<Rightarrow> string \<Rightarrow> int \<Rightarrow> string \<Rightarrow> err + privateKeyType \<times> privateKey \<times> bytes" where
  \<comment> \<open>the \<^verbatim>\<open>switch creationInfo.KeyType\<close> that opens \<^verbatim>\<open>createCertificate\<close> and
      \<^verbatim>\<open>createCSR\<close>: the key type, the key and its marshalled bytes. The two functions
      differ in the message of the default case only, which is \<open>unknown\<close>.\<close>
  "generateKey e keyType keyBits unknown =
     (if keyType = ''rsa'' then
        (case rsa_GenerateKey e keyBits of
           None \<Rightarrow> Inl (InternalError ''error generating RSA private key'')
         | Some n \<Rightarrow>
             Inr (RSAPrivateKey, RSAKey n, x509_MarshalPKCS1PrivateKey e (RSAKey n)))
      else if keyType = ''ec'' then
        (case (if keyBits = 224 then Some P224
               else if keyBits = 256 then Some P256
               else if keyBits = 384 then Some P384
               else if keyBits = 521 then Some P521
               else None) of
           None \<Rightarrow>
             Inl (UserError (''unsupported bit length for EC key: '' @ showInt keyBits))
         | Some c \<Rightarrow>
             (case ecdsa_GenerateKey e c of
                None \<Rightarrow> Inl (InternalError ''error generating EC private key'')
              | Some n \<Rightarrow>
                  (case x509_MarshalECPrivateKey e (ECKey n) of
                     None \<Rightarrow> Inl (InternalError ''error marshalling EC private key'')
                   | Some bs \<Rightarrow> Inr (ECPrivateKey, ECKey n, bs))))
      else Inl (UserError (unknown @ keyType)))"

definition usageExtKeyUsage :: "nat \<Rightarrow> extKeyUsage list" where
  \<comment> \<open>the four tests of \<^verbatim>\<open>creationInfo.Usage\<close>, each appending to
      \<^verbatim>\<open>certTemplate.ExtKeyUsage\<close>\<close>
  "usageExtKeyUsage usage =
     (if and usage serverUsage \<noteq> 0 then [ExtKeyUsageServerAuth] else []) @
     (if and usage clientUsage \<noteq> 0 then [ExtKeyUsageClientAuth] else []) @
     (if and usage codeSigningUsage \<noteq> 0 then [ExtKeyUsageCodeSigning] else []) @
     (if and usage emailProtectionUsage \<noteq> 0 then [ExtKeyUsageEmailProtection] else [])"

definition defaultKeyUsage :: nat where
  "defaultKeyUsage =
     or (or KeyUsageDigitalSignature KeyUsageKeyEncipherment) KeyUsageKeyAgreement"

definition signerAlgorithm :: "privateKeyType \<Rightarrow> signatureAlgorithm \<Rightarrow> signatureAlgorithm" where
  \<comment> \<open>\<^verbatim>\<open>switch creationInfo.SigningBundle.PrivateKeyType\<close>\<close>
  "signerAlgorithm t old =
     (case t of RSAPrivateKey \<Rightarrow> SHA256WithRSA | ECPrivateKey \<Rightarrow> ECDSAWithSHA256
      | UnknownPrivateKey \<Rightarrow> old)"

definition keyTypeAlgorithm :: "string \<Rightarrow> signatureAlgorithm \<Rightarrow> signatureAlgorithm" where
  \<comment> \<open>\<^verbatim>\<open>switch creationInfo.KeyType\<close> on \<^verbatim>\<open>"rsa"\<close> and \<^verbatim>\<open>"ec"\<close>\<close>
  "keyTypeAlgorithm keyType old =
     (if keyType = ''rsa'' then SHA256WithRSA
      else if keyType = ''ec'' then ECDSAWithSHA256 else old)"

text \<open>
  The template that \<^verbatim>\<open>createCertificate\<close> hands to \<^verbatim>\<open>x509.CreateCertificate\<close>,
  from the serial number, the new key and its identifier. Reading
  \<^verbatim>\<open>creationInfo.URLs\<close> panics when the pointer is nil.
\<close>

definition createCertificate_template ::
  "env \<Rightarrow> certCreationBundle \<Rightarrow> int \<Rightarrow> bytes \<Rightarrow> err + x509Certificate" where
  "createCertificate_template e creationInfo serialNumber subjKeyID =
     (case ci_URLs creationInfo of
        None \<Rightarrow> Inl GoPanic
      | Some urls \<Rightarrow>
          let certTemplate =
                \<lparr>SerialNumber = serialNumber,
                 Subject = \<lparr>CommonName = ci_CommonName creationInfo, otherAttributes = []\<rparr>,
                 NotBefore = time_Now e,
                 NotAfter = time_Now e + ci_TTL creationInfo,
                 KeyUsage = defaultKeyUsage,
                 ExtKeyUsage = usageExtKeyUsage (ci_Usage creationInfo),
                 BasicConstraintsValid = True,
                 IsCA = False,
                 MaxPathLen = 0,
                 MaxPathLenZero = False,
                 SubjectKeyId = subjKeyID,
                 DNSNames = ci_DNSNames creationInfo,
                 EmailAddresses = ci_EmailAddresses creationInfo,
                 IPAddresses = ci_IPAddresses creationInfo,
                 SignatureAlgorithm = UnknownSignatureAlgorithm,
                 IssuingCertificateURL = IssuingCertificates urls,
                 CRLDistributionPoints = url_CRLDistributionPoints urls,
                 OCSPServer = OCSPServers urls,
                 ExtraExtensions = [],
                 PublicKey = None\<rparr>
          in
          (case ci_SigningBundle creationInfo of
             Some sb \<Rightarrow>
               Inr (certTemplate\<lparr>SignatureAlgorithm :=
                      signerAlgorithm (pb_PrivateKeyType sb) (SignatureAlgorithm certTemplate)\<rparr>)
           | None \<Rightarrow>
               \<comment> \<open>``Creating a self-signed root''\<close>
               let certTemplate =
                     (if ci_MaxPathLength creationInfo = 0
                      then certTemplate\<lparr>MaxPathLen := 0, MaxPathLenZero := True\<rparr>
                      else certTemplate\<lparr>MaxPathLen := ci_MaxPathLength creationInfo\<rparr>);
                   certTemplate = certTemplate\<lparr>SignatureAlgorithm :=
                      keyTypeAlgorithm (ci_KeyType creationInfo)
                        (SignatureAlgorithm certTemplate)\<rparr>
               in Inr (certTemplate\<lparr>
                     IsCA := True,
                     KeyUsage := or (or (KeyUsage certTemplate) KeyUsageCertSign) KeyUsageCRLSign,
                     ExtKeyUsage := ExtKeyUsage certTemplate @ [ExtKeyUsageOCSPSigning]\<rparr>)))"

definition createCertificate :: "env \<Rightarrow> certCreationBundle \<Rightarrow> err + ParsedCertBundle" where
  "createCertificate e creationInfo =
     (case rand_Int e of
        None \<Rightarrow> Inl (InternalError ''error getting random serial number'')
      | Some serialNumber \<Rightarrow>
     (case generateKey e (ci_KeyType creationInfo) (ci_KeyBits creationInfo)
             ''unknown key type: '' of
        Inl er \<Rightarrow> Inl er
      | Inr (privateKeyType, clientPrivKey, privateKeyBytes) \<Rightarrow>
     (case certutil_GetSubjKeyID e clientPrivKey of
        Inl msg \<Rightarrow> Inl (InternalError (''error getting subject key ID: '' @ msg))
      | Inr subjKeyID \<Rightarrow>
     (case createCertificate_template e creationInfo serialNumber subjKeyID of
        Inl er \<Rightarrow> Inl er
      | Inr certTemplate \<Rightarrow>
     (case (case ci_SigningBundle creationInfo of
              Some sb \<Rightarrow>
                (case pb_Certificate sb of
                   None \<Rightarrow> Inl GoPanic
                 | Some caCert \<Rightarrow>
                     Inr (x509_CreateCertificate e certTemplate caCert
                            (Some (Public clientPrivKey)) (pb_PrivateKey sb)))
            | None \<Rightarrow>
                Inr (x509_CreateCertificate e certTemplate certTemplate
                       (Some (Public clientPrivKey)) (Some clientPrivKey))) of
        Inl er \<Rightarrow> Inl er
      | Inr (Inl msg) \<Rightarrow> Inl (InternalError (''unable to create certificate: '' @ msg))
      | Inr (Inr certBytes) \<Rightarrow>
     (case x509_ParseCertificate e certBytes of
        Inl msg \<Rightarrow> Inl (InternalError (''unable to parse created certificate: '' @ msg))
      | Inr cert \<Rightarrow>
          Inr \<lparr>pb_PrivateKeyType = privateKeyType,
               pb_PrivateKeyBytes = privateKeyBytes,
               pb_PrivateKey = Some clientPrivKey,
               pb_IssuingCABytes =
                 (case ci_SigningBundle creationInfo of
                    Some sb \<Rightarrow> pb_CertificateBytes sb | None \<Rightarrow> certBytes),
               pb_IssuingCA =
                 (case ci_SigningBundle creationInfo of
                    Some sb \<Rightarrow> pb_Certificate sb | None \<Rightarrow> Some cert),
               pb_CertificateBytes = certBytes,
               pb_Certificate = Some cert\<rparr>))))))"

definition createCSR :: "env \<Rightarrow> certCreationBundle \<Rightarrow> err + ParsedCSRBundle" where
  "createCSR e creationInfo =
     (case generateKey e (ci_KeyType creationInfo) (ci_KeyBits creationInfo)
             ''unsupported key type for CA generation: '' of
        Inl er \<Rightarrow> Inl er
      | Inr (privateKeyType, clientPrivKey, privateKeyBytes) \<Rightarrow>
          let csrTemplate =
                \<lparr>csr_Subject =
                   \<lparr>CommonName = ci_CommonName creationInfo, otherAttributes = []\<rparr>,
                 csr_DNSNames = ci_DNSNames creationInfo,
                 csr_EmailAddresses = ci_EmailAddresses creationInfo,
                 csr_IPAddresses = ci_IPAddresses creationInfo,
                 csr_Extensions = [],
                 csr_SignatureAlgorithm =
                   keyTypeAlgorithm (ci_KeyType creationInfo) UnknownSignatureAlgorithm,
                 csr_PublicKey = None\<rparr>
          in
          (case x509_CreateCertificateRequest e csrTemplate clientPrivKey of
             Inl msg \<Rightarrow> Inl (InternalError (''unable to create certificate: '' @ msg))
           | Inr csrBytes \<Rightarrow>
               (case x509_ParseCertificateRequest e csrBytes of
                  Inl msg \<Rightarrow>
                    Inl (InternalError (''unable to parse created certificate: '' @ msg))
                | Inr parsed \<Rightarrow>
                    Inr \<lparr>pcsr_PrivateKeyType = privateKeyType,
                         pcsr_PrivateKeyBytes = privateKeyBytes,
                         pcsr_PrivateKey = Some clientPrivKey,
                         pcsr_CSRBytes = csrBytes,
                         pcsr_CSR = Some parsed\<rparr>)))"

text \<open>
  \<^verbatim>\<open>signCertificate(creationInfo, csr)\<close>. The creation bundle is never nil where the
  backend calls it, so the model takes it as it is; the request may be nil.
\<close>

definition signCertificate_template ::
  "env \<Rightarrow> certCreationBundle \<Rightarrow> caInfoBundle \<Rightarrow> x509CertificateRequest \<Rightarrow> int \<Rightarrow> bytes
     \<Rightarrow> err + x509Certificate" where
  "signCertificate_template e creationInfo sb csr serialNumber subjKeyID =
     (let certTemplate =
            \<lparr>SerialNumber = serialNumber,
             Subject = \<lparr>CommonName = ci_CommonName creationInfo, otherAttributes = []\<rparr>,
             NotBefore = time_Now e,
             NotAfter = time_Now e + ci_TTL creationInfo,
             KeyUsage = 0,
             ExtKeyUsage = [],
             BasicConstraintsValid = True,
             IsCA = False,
             MaxPathLen = 0,
             MaxPathLenZero = False,
             SubjectKeyId = subjKeyID,
             DNSNames = [],
             EmailAddresses = [],
             IPAddresses = [],
             SignatureAlgorithm =
               signerAlgorithm (pb_PrivateKeyType sb) UnknownSignatureAlgorithm,
             IssuingCertificateURL = [],
             CRLDistributionPoints = [],
             OCSPServer = [],
             ExtraExtensions = [],
             PublicKey = None\<rparr>;
          certTemplate =
            (if ci_UseCSRValues creationInfo then
               certTemplate\<lparr>
                 Subject := csr_Subject csr,
                 DNSNames := csr_DNSNames csr,
                 EmailAddresses := csr_EmailAddresses csr,
                 IPAddresses := csr_IPAddresses csr,
                 ExtraExtensions :=
                   (if ci_IsCA creationInfo then csr_Extensions csr else [])\<rparr>
             else
               certTemplate\<lparr>
                 DNSNames := ci_DNSNames creationInfo,
                 EmailAddresses := ci_EmailAddresses creationInfo,
                 IPAddresses := ci_IPAddresses creationInfo,
                 KeyUsage :=
                   (if ci_IsCA creationInfo
                    then or (or defaultKeyUsage KeyUsageCertSign) KeyUsageCRLSign
                    else defaultKeyUsage),
                 ExtKeyUsage :=
                   usageExtKeyUsage (ci_Usage creationInfo) @
                   (if ci_IsCA creationInfo then [ExtKeyUsageOCSPSigning] else [])\<rparr>)
      in
      case ci_URLs creationInfo of
        None \<Rightarrow> Inl GoPanic
      | Some urls \<Rightarrow>
          (case ca_URLs sb of
             None \<Rightarrow> Inl GoPanic
           | Some signerURLs \<Rightarrow>
               let certTemplate = certTemplate\<lparr>
                     IssuingCertificateURL := IssuingCertificates urls,
                     CRLDistributionPoints := url_CRLDistributionPoints urls,
                     OCSPServer := OCSPServers signerURLs\<rparr>
               in
               if ci_IsCA creationInfo then
                 Inr (certTemplate\<lparr>
                        IsCA := True,
                        MaxPathLen := ci_MaxPathLength creationInfo,
                        MaxPathLenZero := (ci_MaxPathLength creationInfo = 0)\<rparr>)
               else Inr certTemplate))"

definition signCertificate ::
  "env \<Rightarrow> certCreationBundle \<Rightarrow> x509CertificateRequest option \<Rightarrow> err + ParsedCertBundle" where
  "signCertificate e creationInfo csrArg =
     (case ci_SigningBundle creationInfo of
        None \<Rightarrow> Inl (UserError ''nil signing bundle given to signCertificate'')
      | Some sb \<Rightarrow>
     (case csrArg of
        None \<Rightarrow> Inl (UserError ''nil csr given to signCertificate'')
      | Some csr \<Rightarrow>
          if \<not> CheckSignature e csr then Inl (UserError ''request signature invalid'')
          else
     (case rand_Int e of
        None \<Rightarrow> Inl (InternalError ''error getting random serial number'')
      | Some serialNumber \<Rightarrow>
     (case x509_MarshalPKIXPublicKey e (csr_PublicKey csr) of
        Inl msg \<Rightarrow> Inl (InternalError (''error marshalling public key: '' @ msg))
      | Inr marshaledKey \<Rightarrow>
     (case signCertificate_template e creationInfo sb csr serialNumber
             (sha1_Sum e marshaledKey) of
        Inl er \<Rightarrow> Inl er
      | Inr certTemplate \<Rightarrow>
     (case pb_Certificate sb of
        None \<Rightarrow> Inl GoPanic
      | Some caCert \<Rightarrow>
     (case x509_CreateCertificate e certTemplate caCert (csr_PublicKey csr)
             (pb_PrivateKey sb) of
        Inl msg \<Rightarrow> Inl (InternalError (''unable to create certificate: '' @ msg))
      | Inr certBytes \<Rightarrow>
     (case x509_ParseCertificate e certBytes of
        Inl msg \<Rightarrow> Inl (InternalError (''unable to parse created certificate: '' @ msg))
      | Inr cert \<Rightarrow>
          Inr \<lparr>pb_PrivateKeyType = UnknownPrivateKey,
               pb_PrivateKeyBytes = [],
               pb_PrivateKey = None,
               pb_IssuingCABytes = pb_CertificateBytes sb,
               pb_IssuingCA = pb_Certificate sb,
               pb_CertificateBytes = certBytes,
               pb_Certificate = Some cert\<rparr>))))))))"

definition generateCert ::
  "env \<Rightarrow> roleEntry \<Rightarrow> caInfoBundle option \<Rightarrow> bool \<Rightarrow> request \<Rightarrow> fieldData
     \<Rightarrow> err + ParsedCertBundle" where
  "generateCert e role signingBundle isCA req data =
     (case generateCreationBundle e role signingBundle None req data of
        Inl er \<Rightarrow> Inl er
      | Inr creationBundle \<Rightarrow>
          createCertificate e
            (if isCA then creationBundle\<lparr>ci_IsCA := isCA\<rparr> else creationBundle))"

definition generateCSR ::
  "env \<Rightarrow> roleEntry \<Rightarrow> caInfoBundle option \<Rightarrow> request \<Rightarrow> fieldData \<Rightarrow> err + ParsedCSRBundle" where
  "generateCSR e role signingBundle req data =
     (case generateCreationBundle e role signingBundle None req data of
        Inl er \<Rightarrow> Inl er
      | Inr creationBundle \<Rightarrow> createCSR e creationBundle)"

definition signCert ::
  "env \<Rightarrow> roleEntry \<Rightarrow> caInfoBundle option \<Rightarrow> bool \<Rightarrow> bool \<Rightarrow> request \<Rightarrow> fieldData
     \<Rightarrow> err + ParsedCertBundle" where
  "signCert e role signingBundle isCA useCSRValues req data =
     (let csrString = GetString (f_csr data) in
      if csrString = '''' then Inl (UserError ''\"csr\" is empty'')
      else
        (case pem_Decode e csrString of
           None \<Rightarrow> Inl (UserError ''csr contains no data'')
         | Some pemBlockBytes \<Rightarrow>
             (case x509_ParseCertificateRequest e pemBlockBytes of
                Inl msg \<Rightarrow> Inl (UserError ''certificate request could not be parsed'')
              | Inr csr \<Rightarrow>
                  (case generateCreationBundle e role signingBundle (Some csr) req data of
                     Inl er \<Rightarrow> Inl er
                   | Inr creationBundle \<Rightarrow>
                       signCertificate e
                         (if isCA
                          then creationBundle\<lparr>ci_IsCA := isCA, ci_UseCSRValues := useCSRValues\<rparr>
                          else creationBundle)
                         (Some csr)))))"

section \<open>The CA bundle in storage\<close>

definition DecodeCertBundle :: "storageValue \<Rightarrow> err + CertBundle" where
  \<comment> \<open>\<^verbatim>\<open>entry.DecodeJSON(&bundle)\<close>\<close>
  "DecodeCertBundle v =
     (case v of JSONCertBundle cb \<Rightarrow> Inr cb | _ \<Rightarrow> Inl (Errorf ''invalid JSON''))"

definition DecodeRole :: "storageValue \<Rightarrow> err + roleEntry" where
  \<comment> \<open>\<^verbatim>\<open>entry.DecodeJSON(&result)\<close>\<close>
  "DecodeRole v =
     (case v of JSONRole r \<Rightarrow> Inr r | _ \<Rightarrow> Inl (Errorf ''invalid JSON''))"

definition fetchCAInfo :: "env \<Rightarrow> request \<Rightarrow> err + caInfoBundle" where
  "fetchCAInfo e req =
     (case Storage_Get (Storage req) ''config/ca_bundle'' of
        Inl er \<Rightarrow>
          Inl (InternalError (''unable to fetch local CA certificate/key: '' @ Error er))
      | Inr None \<Rightarrow> Inl (UserError ''backend must be configured with a CA certificate/key'')
      | Inr (Some bundleEntry) \<Rightarrow>
     (case DecodeCertBundle bundleEntry of
        Inl er \<Rightarrow>
          Inl (InternalError (''unable to decode local CA certificate/key: '' @ Error er))
      | Inr bundle \<Rightarrow>
     (case ToParsedCertBundle e bundle of
        Inl er \<Rightarrow> Inl (InternalError (Error er))
      | Inr parsedBundle \<Rightarrow>
          if pb_Certificate parsedBundle = None then
            Inl (InternalError ''stored CA information not able to be parsed'')
          else
     (case getURLs e (Storage req) of
        Inl er \<Rightarrow> Inl (InternalError (''unable to fetch URL information: '' @ Error er))
      | Inr found \<Rightarrow>
          Inr \<lparr>pb_PrivateKeyType = pb_PrivateKeyType parsedBundle,
               pb_PrivateKeyBytes = pb_PrivateKeyBytes parsedBundle,
               pb_PrivateKey = pb_PrivateKey parsedBundle,
               pb_IssuingCABytes = pb_IssuingCABytes parsedBundle,
               pb_IssuingCA = pb_IssuingCA parsedBundle,
               pb_CertificateBytes = pb_CertificateBytes parsedBundle,
               pb_Certificate = pb_Certificate parsedBundle,
               ca_URLs = Some (case found of None \<Rightarrow> emptyURLs | Some u \<Rightarrow> u)\<rparr>))))"

section \<open>Roles in storage\<close>

text \<open>
  \<^verbatim>\<open>getRole(s, n)\<close> gives the role, or \<open>None\<close> for the Go \<^verbatim>\<open>nil\<close> when there
  is none, and the storage after the call.
\<close>

definition getRole :: "storage \<Rightarrow> string \<Rightarrow> (err + roleEntry option) \<times> storage" where
  "getRole s n =
     (case Storage_Get s (''role/'' @ n) of
        Inl er \<Rightarrow> (Inl er, s)
      | Inr None \<Rightarrow> (Inr None, s)
      | Inr (Some entry) \<Rightarrow>
          (case DecodeRole entry of
             Inl er \<Rightarrow> (Inl er, s)
           | Inr result \<Rightarrow>
               let modified = False;
                   (result, modified) =
                     (if length (TTL result) = 0 \<and> length (Lease result) \<noteq> 0
                      then (result\<lparr>TTL := Lease result, Lease := ''''\<rparr>, True)
                      else (result, modified));
                   (result, modified) =
                     (if length (MaxTTL result) = 0 \<and> length (LeaseMax result) \<noteq> 0
                      then (result\<lparr>MaxTTL := LeaseMax result, LeaseMax := ''''\<rparr>, True)
                      else (result, modified))
               in
               if modified then
                 (case Storage_Put s (''role/'' @ n) (JSONRole result) of
                    Inl er \<Rightarrow> (Inl er, s)
                  | Inr s' \<Rightarrow> (Inr (Some result), s'))
               else (Inr (Some result), s)))"

section \<open>The handlers of the CA paths\<close>

text \<open>
  A handler returns \<^verbatim>\<open>(*logical.Response, error)\<close>: \<open>Inl\<close> of the error, or
  \<open>Inr\<close> of the response, \<open>None\<close> for a nil one. The model pairs it with the storage
  the handler leaves behind. \<open>ErrorResponse\<close> is \<^verbatim>\<open>logical.ErrorResponse\<close>;
  \<open>Response\<close> holds the \<^verbatim>\<open>Data\<close> map and, for a response made by
  \<^verbatim>\<open>b.Secret(...).Response\<close>, the secret with its internal data and its TTL.
  Where a handler switches on the type of an error, it has cases for
  \<^verbatim>\<open>certutil.UserError\<close> and \<^verbatim>\<open>certutil.InternalError\<close> only: an error of another
  type falls through the switch and the nil bundle is dereferenced next, which is a
  panic.
\<close>

datatype rvalue = VString string | VInt int

datatype secret = Secret "string \<rightharpoonup> rvalue" duration

datatype response = ErrorResponse string | Response "string \<rightharpoonup> rvalue" "secret option"

fun ResponseData :: "response \<Rightarrow> (string \<rightharpoonup> rvalue)" where
  "ResponseData (ErrorResponse msg) = [''error'' \<mapsto> VString msg]"
| "ResponseData (Response d s) = d"

definition CertBundle_Map :: "CertBundle \<Rightarrow> (string \<rightharpoonup> rvalue)" where
  \<comment> \<open>Modelled from the spec: \<^verbatim>\<open>structs.New(cb).Map()\<close> reads the field tags of
      \<^verbatim>\<open>certutil.CertBundle\<close>, whose declaration is not among the source files; the
      keys are those the spec lists for the stored bundle.\<close>
  "CertBundle_Map cb =
     [''private_key_type'' \<mapsto> VString (cb_PrivateKeyType cb),
      ''certificate'' \<mapsto> VString (cb_Certificate cb),
      ''issuing_ca'' \<mapsto> VString (cb_IssuingCA cb),
      ''private_key'' \<mapsto> VString (cb_PrivateKey cb),
      ''serial_number'' \<mapsto> VString (cb_SerialNumber cb)]"

definition toLowerByte :: "char \<Rightarrow> char" where
  "toLowerByte c =
     (case map_of (zip ''ABCDEFGHIJKLMNOPQRSTUVWXYZ'' ''abcdefghijklmnopqrstuvwxyz'') c of
        Some l \<Rightarrow> l
      | None \<Rightarrow> c)"

definition ToLower :: "string \<Rightarrow> string" where
  \<comment> \<open>\<^verbatim>\<open>strings.ToLower\<close> on ASCII text\<close>
  "ToLower s = map toLowerByte s"

definition Unix :: "time \<Rightarrow> int" where
  "Unix t = t div Second"

definition caRole :: "string \<Rightarrow> string \<Rightarrow> int \<Rightarrow> roleEntry" where
  \<comment> \<open>the \<^verbatim>\<open>roleEntry\<close> literals of the handlers: the fields they name, the others
      at their zero values\<close>
  "caRole ttl keyType keyBits =
     \<lparr>LeaseMax = '''', Lease = '''', MaxTTL = '''', TTL = ttl,
      AllowLocalhost = True, AllowedBaseDomain = '''', AllowBaseDomain = False,
      AllowTokenDisplayName = False, AllowSubdomains = False, AllowAnyName = True,
      EnforceHostnames = False, AllowIPSANs = False, ServerFlag = False,
      ClientFlag = False, CodeSigningFlag = False, EmailProtectionFlag = False,
      KeyType = keyType, KeyBits = keyBits, UseCSRCommonName = False,
      MaxPathLength = None\<rparr>"

definition storeCA ::
  "storage \<Rightarrow> CertBundle \<Rightarrow> bytes \<Rightarrow> response option \<Rightarrow> (err + response option) \<times> storage" where
  \<comment> \<open>the three writes that end \<^verbatim>\<open>pathCAGenerateRoot\<close> and \<^verbatim>\<open>pathCASetWrite\<close>:
      the bundle, the certificate under \<^verbatim>\<open>ca\<close> and an empty \<^verbatim>\<open>crl\<close>\<close>
  "storeCA s cb certificateBytes resp =
     (case Storage_Put s ''config/ca_bundle'' (JSONCertBundle cb) of
        Inl er \<Rightarrow> (Inl er, s)
      | Inr s1 \<Rightarrow>
          (case Storage_Put s1 ''ca'' (RawBytes certificateBytes) of
             Inl er \<Rightarrow> (Inl er, s1)
           | Inr s2 \<Rightarrow>
               (case Storage_Put s2 ''crl'' (RawBytes []) of
                  Inl er \<Rightarrow> (Inl er, s2)
                | Inr s3 \<Rightarrow> (Inr resp, s3))))"

text \<open>
  \<^verbatim>\<open>pathCAGenerateRoot\<close>. The call \<^verbatim>\<open>generateCert(b, role, nil, pkiAddress, req, data)\<close>
  passes the address where \<^verbatim>\<open>generateCert\<close> declares its flag \<^verbatim>\<open>isCA\<close>; the model
  takes the flag as the parameter \<open>isCA\<close>.
\<close>

definition pathCAGenerateRoot ::
  "env \<Rightarrow> bool \<Rightarrow> request \<Rightarrow> fieldData \<Rightarrow> (err + response option) \<times> storage" where
  "pathCAGenerateRoot e isCA req data =
     (let s = Storage req;
          exported = GetString (f_exported data);
          pkiAddress = ToLower (GetString (f_pki_address data))
      in
      if exported \<noteq> ''exported'' \<and> exported \<noteq> ''internal'' then
        (Inr (Some (ErrorResponse
           ''The \"exported\" path parameter must be \"internal\" or \"exported\"'')), s)
      else if length pkiAddress = 0 then
        (Inr (Some (ErrorResponse ''\"pki_address\" cannot be empty'')), s)
      else if \<not> hasPrefix pkiAddress ''http'' then
        (Inr (Some (ErrorResponse ''\"pki_address\" must be a URL'')), s)
      else if \<not> contains pkiAddress ''/v1/'' then
        (Inr (Some (ErrorResponse
           ''\"pki_address\" needs to be the path to the PKI mount, not the base Vault path'')), s)
      else if MountPoint req = [] then (Inl GoPanic, s)
      else if \<not> contains pkiAddress (''/v1/'' @ butlast (MountPoint req)) then
        (Inr (Some (ErrorResponse ''\"pki_address\" needs to be the path to this mount'')), s)
      else
        let role = caRole (GetString (f_ttl data)) ''rsa'' (GetKeyBits (f_key_bits data)) in
        if KeyBits role \<noteq> 1024 \<and> KeyBits role \<noteq> 2048 \<and> KeyBits role \<noteq> 4096 then
          (Inr (Some (ErrorResponse ''\"key_bits\" must be 1024, 2048, or 4096'')), s)
        else
          (case generateCert e role None isCA req data of
             Inl (UserError msg) \<Rightarrow> (Inr (Some (ErrorResponse msg)), s)
           | Inl (InternalError msg) \<Rightarrow> (Inl (InternalError msg), s)
           | Inl _ \<Rightarrow> (Inl GoPanic, s)
           | Inr parsedBundle \<Rightarrow>
               (case ToCertBundle e parsedBundle of
                  Inl er \<Rightarrow>
                    (Inl (Errorf (''Error converting raw cert bundle to cert bundle: ''
                            @ Error er)), s)
                | Inr cb \<Rightarrow>
                    (case pb_Certificate parsedBundle of
                       None \<Rightarrow> (Inl GoPanic, s)
                     | Some cert \<Rightarrow>
                         let d = [''serial_number'' \<mapsto> VString (cb_SerialNumber cb),
                                  ''certificate'' \<mapsto> VString (cb_Certificate cb),
                                  ''issuing_ca'' \<mapsto> VString (cb_IssuingCA cb),
                                  ''expiration'' \<mapsto> VInt (Unix (NotAfter cert))];
                             d = (if exported = ''exported''
                                  then d(''private_key'' \<mapsto> VString (cb_PrivateKey cb),
                                         ''private_key_type'' \<mapsto>
                                           VString (cb_PrivateKeyType cb))
                                  else d)
                         in storeCA s cb (pb_CertificateBytes parsedBundle)
                              (Some (Response d None))))))"

text \<open>
  \<^verbatim>\<open>pathCAGenerateIntermediate\<close>, in two parts. \<open>pathCAGenerateIntermediate_role\<close> is
  the handler up to the call of \<^verbatim>\<open>generateCSR\<close>: it gives the error response with
  which the handler returns there, or the role with which it goes on. The path of the
  handler is \<open>pathGenerateIntermediateCA\<close>: it declares \<^verbatim>\<open>exported\<close> and
  \<^verbatim>\<open>key_bits\<close>, the two fields that the handler itself reads.
\<close>

definition pathCAGenerateIntermediate_role :: "fieldData \<Rightarrow> response + roleEntry" where
  "pathCAGenerateIntermediate_role data =
     (let exported = GetString (f_exported data) in
      if exported \<noteq> ''exported'' \<and> exported \<noteq> ''internal'' then
        Inl (ErrorResponse
           ''The \"exported\" path parameter must be \"internal\" or \"exported\"'')
      else
        let role = caRole '''' ''rsa'' (GetKeyBits (f_key_bits data));
            role = (if KeyBits role = 0 then role\<lparr>KeyBits := 2048\<rparr> else role)
        in
        if KeyBits role \<noteq> 1024 \<and> KeyBits role \<noteq> 2048 \<and> KeyBits role \<noteq> 4096 then
          Inl (ErrorResponse ''\"key_bits\" must be 1024, 2048, or 4096'')
        else Inr role)"

definition pathCAGenerateIntermediate ::
  "env \<Rightarrow> request \<Rightarrow> fieldData \<Rightarrow> (err + response option) \<times> storage" where
  "pathCAGenerateIntermediate e req data =
     (let s = Storage req;
          exported = GetString (f_exported data)
      in
      case pathCAGenerateIntermediate_role data of
        Inl resp \<Rightarrow> (Inr (Some resp), s)
      | Inr role \<Rightarrow>
          (case generateCSR e role None req data of
             Inl (UserError msg) \<Rightarrow> (Inr (Some (ErrorResponse msg)), s)
           | Inl (InternalError msg) \<Rightarrow> (Inl (InternalError msg), s)
           | Inl _ \<Rightarrow> (Inl GoPanic, s)
           | Inr parsedBundle \<Rightarrow>
               (case ToCSRBundle e parsedBundle of
                  Inl er \<Rightarrow>
                    (Inl (Errorf (''Error converting raw CSR bundle to CSR bundle: ''
                            @ Error er)), s)
                | Inr csrb \<Rightarrow>
                    let d = [''csr'' \<mapsto> VString (csrb_CSR csrb)];
                        d = (if exported = ''exported''
                             then d(''private_key'' \<mapsto> VString (csrb_PrivateKey csrb),
                                    ''private_key_type'' \<mapsto>
                                      VString (csrb_PrivateKeyType csrb))
                             else d);
                        cb = \<lparr>cb_PrivateKeyType = csrb_PrivateKeyType csrb,
                              cb_Certificate = '''', cb_IssuingCA = '''',
                              cb_PrivateKey = csrb_PrivateKey csrb,
                              cb_SerialNumber = ''''\<rparr>
                    in
                    (case Storage_Put s ''config/ca_bundle'' (JSONCertBundle cb) of
                       Inl er \<Rightarrow> (Inl er, s)
                     | Inr s' \<Rightarrow> (Inr (Some (Response d None)), s')))))"

text \<open>
  \<^verbatim>\<open>pathCASignWrite\<close>. The call \<^verbatim>\<open>signCert(b, role, signingBundle, pkiAddress, req, data)\<close>
  passes the address where \<^verbatim>\<open>signCert\<close> declares its flags \<^verbatim>\<open>isCA\<close> and
  \<^verbatim>\<open>useCSRValues\<close>; the model takes both flags as parameters.
\<close>

definition pathCASignWrite ::
  "env \<Rightarrow> bool \<Rightarrow> bool \<Rightarrow> request \<Rightarrow> fieldData \<Rightarrow> (err + response option) \<times> storage" where
  "pathCASignWrite e isCA useCSRValues req data =
     (let s = Storage req;
          pkiAddress = ToLower (GetString (f_pki_address data))
      in
      if length pkiAddress = 0 then
        (Inr (Some (ErrorResponse ''\"pki_address\" cannot be empty'')), s)
      else if \<not> hasPrefix pkiAddress ''http'' then
        (Inr (Some (ErrorResponse ''\"pki_address\" must be a URL'')), s)
      else if \<not> contains pkiAddress ''/v1/'' then
        (Inr (Some (ErrorResponse
           ''\"pki_address\" needs to be the path to the PKI mount, not the base Vault path'')), s)
      else if contains pkiAddress (''/v1/'' @ MountPoint req) then
        (Inr (Some (ErrorResponse
           ''\"pki_address\" needs to be the path to the destination mount, not the signing mount'')), s)
      else
        let role = caRole (GetString (f_ttl data)) '''' 0 in
        (case fetchCAInfo e req of
           Inl (UserError msg) \<Rightarrow>
             (Inl (UserError (''could not fetch the CA certificate (was one set?): '' @ msg)), s)
         | Inl (InternalError msg) \<Rightarrow>
             (Inl (InternalError (''error fetching CA certificate: '' @ msg)), s)
         | Inl _ \<Rightarrow> (Inl GoPanic, s)
         | Inr signingBundle \<Rightarrow>
        (case signCert e role (Some signingBundle) isCA useCSRValues req data of
           Inl (UserError msg) \<Rightarrow> (Inr (Some (ErrorResponse msg)), s)
         | Inl (InternalError msg) \<Rightarrow> (Inl (InternalError msg), s)
         | Inl _ \<Rightarrow> (Inl GoPanic, s)
         | Inr parsedBundle \<Rightarrow>
        (case ToCertBundle e parsedBundle of
           Inl er \<Rightarrow>
             (Inl (Errorf (''Error converting raw cert bundle to cert bundle: '' @ Error er)), s)
         | Inr cb \<Rightarrow>
        (case pb_Certificate parsedBundle of
           None \<Rightarrow> (Inl GoPanic, s)
         | Some cert \<Rightarrow>
             let resp = Response (CertBundle_Map cb)
                          (Some (Secret [''serial_number'' \<mapsto> VString (cb_SerialNumber cb)]
                                   (NotAfter cert - time_Now e)))
             in
             (case Storage_Put s (''certs/'' @ cb_SerialNumber cb)
                     (RawBytes (pb_CertificateBytes parsedBundle)) of
                Inl er \<Rightarrow> (Inl (Errorf ''Unable to store certificate locally''), s)
              | Inr s' \<Rightarrow> (Inr (Some resp), s')))))))"



section \<open>Examples\<close>

text \<open>
  The role of the spec's scenario ``strict role'': the base domain
  \<^verbatim>\<open>example.com\<close>, subdomains allowed, the base domain itself not allowed, host names
  enforced, and every other field at the default of the role schema.
\<close>

definition web :: roleEntry where
  "web =
     \<lparr>LeaseMax = '''', Lease = '''', MaxTTL = '''', TTL = '''',
      AllowLocalhost = True, AllowedBaseDomain = ''example.com'', AllowBaseDomain = False,
      AllowTokenDisplayName = False, AllowSubdomains = True, AllowAnyName = False,
      EnforceHostnames = True, AllowIPSANs = True, ServerFlag = True, ClientFlag = True,
      CodeSigningFlag = False, EmailProtectionFlag = False, KeyType = ''rsa'',
      KeyBits = 2048, UseCSRCommonName = False, MaxPathLength = None\<rparr>"

text \<open>
  A world for the examples. \<open>exampleParseDuration\<close> is \<^verbatim>\<open>time.ParseDuration\<close> on the
  three texts the examples use; the library functions succeed with fixed results, the
  system's default and maximum lease are thirty days, and the clock stands at zero.
\<close>

definition Hour :: duration where
  "Hour = 3600 * Second"

definition exampleParseDuration :: "string \<Rightarrow> string + duration" where
  "exampleParseDuration t =
     (if t = ''1h'' then Inr (1 * Hour)
      else if t = ''168h'' then Inr (168 * Hour)
      else if t = ''336h'' then Inr (336 * Hour)
      else Inl (''time: invalid duration '' @ t))"

definition exampleCert :: x509Certificate where
  "exampleCert =
     \<lparr>SerialNumber = 7,
      Subject = \<lparr>CommonName = ''example.com'', otherAttributes = []\<rparr>,
      NotBefore = 0, NotAfter = 8760 * Hour,
      KeyUsage = or (or defaultKeyUsage KeyUsageCertSign) KeyUsageCRLSign,
      ExtKeyUsage = [ExtKeyUsageOCSPSigning],
      BasicConstraintsValid = True, IsCA = True, MaxPathLen = - 1, MaxPathLenZero = False,
      SubjectKeyId = ''ski'', DNSNames = [''example.com''], EmailAddresses = [],
      IPAddresses = [], SignatureAlgorithm = SHA256WithRSA, IssuingCertificateURL = [],
      CRLDistributionPoints = [], OCSPServer = [], ExtraExtensions = [],
      PublicKey = Some (RSAPublicKey 1)\<rparr>"

definition exampleCSR :: x509CertificateRequest where
  "exampleCSR =
     \<lparr>csr_Subject = \<lparr>CommonName = ''sub.example.com'', otherAttributes = []\<rparr>,
      csr_DNSNames = [], csr_EmailAddresses = [], csr_IPAddresses = [],
      csr_Extensions = [], csr_SignatureAlgorithm = SHA256WithRSA,
      csr_PublicKey = Some (RSAPublicKey 3)\<rparr>"

definition exampleUpload :: ParsedCertBundle where
  \<comment> \<open>an uploaded bundle that holds a certificate and no private key\<close>
  "exampleUpload =
     \<lparr>pb_PrivateKeyType = UnknownPrivateKey, pb_PrivateKeyBytes = [],
      pb_PrivateKey = None, pb_IssuingCABytes = [], pb_IssuingCA = None,
      pb_CertificateBytes = ''der'', pb_Certificate = Some exampleCert\<rparr>"

definition exampleParsed :: ParsedCertBundle where
  \<comment> \<open>a parsed bundle with the key pair 1 and the example certificate\<close>
  "exampleParsed =
     \<lparr>pb_PrivateKeyType = RSAPrivateKey, pb_PrivateKeyBytes = ''rsa key'',
      pb_PrivateKey = Some (RSAKey 1), pb_IssuingCABytes = ''der'',
      pb_IssuingCA = Some exampleCert, pb_CertificateBytes = ''der'',
      pb_Certificate = Some exampleCert\<rparr>"

definition exampleCertBundle :: CertBundle where
  "exampleCertBundle =
     \<lparr>cb_PrivateKeyType = ''rsa'', cb_Certificate = ''CERTIFICATE'',
      cb_IssuingCA = ''CERTIFICATE'', cb_PrivateKey = ''RSA PRIVATE KEY'',
      cb_SerialNumber = ''07''\<rparr>"

definition exampleCSRBundle :: CSRBundle where
  "exampleCSRBundle =
     \<lparr>csrb_PrivateKeyType = ''rsa'', csrb_CSR = ''CERTIFICATE REQUEST'',
      csrb_PrivateKey = ''RSA PRIVATE KEY''\<rparr>"

definition exampleEnv :: env where
  "exampleEnv =
     \<lparr>DefaultLeaseTTL = 720 * Hour, MaxLeaseTTL = 720 * Hour, time_Now = 0,
      time_ParseDuration = exampleParseDuration,
      net_ParseIP = (\<lambda>v. None),
      getURLs = (\<lambda>s. Inr None),
      rand_Int = Some 7,
      rsa_GenerateKey = (\<lambda>bits. Some 1),
      ecdsa_GenerateKey = (\<lambda>c. Some 2),
      x509_MarshalPKCS1PrivateKey = (\<lambda>k. ''rsa key''),
      x509_MarshalECPrivateKey = (\<lambda>k. Some ''ec key''),
      certutil_GetSubjKeyID = (\<lambda>k. Inr ''ski''),
      x509_CreateCertificate = (\<lambda>template parent pub priv. Inr ''der''),
      x509_ParseCertificate = (\<lambda>der. Inr exampleCert),
      x509_CreateCertificateRequest = (\<lambda>template priv. Inr ''csr der''),
      x509_ParseCertificateRequest = (\<lambda>der. Inr exampleCSR),
      x509_MarshalPKIXPublicKey = (\<lambda>pub. Inr ''spki''),
      sha1_Sum = (\<lambda>bs. ''sha1''),
      pem_Decode = (\<lambda>text. Some text),
      CheckSignature = (\<lambda>c. True),
      ParsePEMBundle = (\<lambda>text. Inr exampleUpload),
      ToParsedCertBundle = (\<lambda>cb. Inr exampleParsed),
      ToCertBundle = (\<lambda>pb. Inr exampleCertBundle),
      ToCSRBundle = (\<lambda>pb. Inr exampleCSRBundle)\<rparr>"

definition emptyStorage :: storage where
  "emptyStorage =
     \<lparr>entries = Map.empty, getFailure = (\<lambda>key. None), putFailure = (\<lambda>key. None),
      written = []\<rparr>"

definition caStorage :: storage where
  \<comment> \<open>a storage that holds a CA bundle\<close>
  "caStorage = emptyStorage\<lparr>entries := [''config/ca_bundle'' \<mapsto> JSONCertBundle exampleCertBundle]\<rparr>"

definition failingStorage :: storage where
  \<comment> \<open>the same, but the write of the certificate with serial 07 fails\<close>
  "failingStorage =
     caStorage\<lparr>putFailure :=
       (\<lambda>key. if key = ''certs/07'' then Some (Errorf ''storage is sealed'') else None)\<rparr>"

definition legacyRole :: roleEntry where
  \<comment> \<open>a role written before \<^verbatim>\<open>lease\<close> and \<^verbatim>\<open>lease_max\<close> were renamed\<close>
  "legacyRole = web\<lparr>Lease := ''1h'', LeaseMax := ''168h''\<rparr>"

definition legacyStorage :: storage where
  "legacyStorage = emptyStorage\<lparr>entries := [''role/web'' \<mapsto> JSONRole legacyRole]\<rparr>"

definition exampleRequest :: "storage \<Rightarrow> request" where
  "exampleRequest s = \<lparr>DisplayName = ''token'', MountPoint = ''pki/'', Storage = s\<rparr>"

definition noFields :: fieldData where
  \<comment> \<open>a request that supplies no field, on a path that declares them all\<close>
  "noFields =
     \<lparr>f_common_name = None, f_alt_names = None, f_ip_sans = None, f_ttl = None,
      f_csr = None, f_pki_address = None, f_exported = None, f_key_bits = None,
      f_pem_bundle = None,
      Schema = {''common_name'', ''alt_names'', ''ip_sans'', ''ttl'', ''csr'',
                ''pki_address'', ''exported'', ''key_bits'', ''pem_bundle''}\<rparr>"

definition exampleSigner :: caInfoBundle where
  \<comment> \<open>the signing bundle that \<open>fetchCAInfo\<close> loads in the example world\<close>
  "exampleSigner =
     \<lparr>pb_PrivateKeyType = RSAPrivateKey, pb_PrivateKeyBytes = ''rsa key'',
      pb_PrivateKey = Some (RSAKey 1), pb_IssuingCABytes = ''der'',
      pb_IssuingCA = Some exampleCert, pb_CertificateBytes = ''der'',
      pb_Certificate = Some exampleCert, ca_URLs = Some emptyURLs\<rparr>"

definition exampleBundle :: certCreationBundle where
  \<comment> \<open>a creation bundle as \<open>generateCreationBundle\<close> makes it without a signing bundle\<close>
  "exampleBundle =
     \<lparr>ci_CommonName = ''foo.example.com'', ci_DNSNames = [''foo.example.com''],
      ci_EmailAddresses = [], ci_IPAddresses = [], ci_IsCA = False, ci_KeyType = ''rsa'',
      ci_KeyBits = 2048, ci_SigningBundle = None, ci_TTL = 720 * Hour, ci_Usage = 3,
      ci_UseCSRValues = False, ci_URLs = Some emptyURLs, ci_MaxPathLength = - 1\<rparr>"

definition signData :: fieldData where
  \<comment> \<open>a request to sign a CSR for another mount\<close>
  "signData = noFields\<lparr>f_common_name := Some ''sub.example.com'',
                         f_csr := Some ''CERTIFICATE REQUEST'',
                         f_pki_address := Some ''https://vault.example.com/v1/intermediate_pki''\<rparr>"

definition rootValues :: fieldData where
  \<comment> \<open>the values of a request to generate a root CA and export its key\<close>
  "rootValues = noFields\<lparr>f_common_name := Some ''example.com'',
                           f_pki_address := Some ''https://vault.example.com/v1/pki'',
                           f_exported := Some ''exported''\<rparr>"

definition intermediateValues :: fieldData where
  \<comment> \<open>the values of a request to generate an intermediate CA and export its key\<close>
  "intermediateValues = noFields\<lparr>f_common_name := Some ''example.com'',
                                   f_exported := Some ''exported'',
                                   f_key_bits := Some 2048\<rparr>"



definition lax :: roleEntry where
  \<comment> \<open>the strict role, with host names not enforced\<close>
  "lax = web\<lparr>EnforceHostnames := False\<rparr>"

definition anonymous :: "storage \<Rightarrow> request" where
  \<comment> \<open>a request of a caller whose token has no display name\<close>
  "anonymous s = \<lparr>DisplayName = '''', MountPoint = ''pki/'', Storage = s\<rparr>"

definition rootData :: fieldData where
  \<comment> \<open>these values, as the path \<^verbatim>\<open>config/ca/generate/root/exported\<close> hands them on\<close>
  "rootData = FieldData pathGenerateRootCA rootValues"

definition intermediateData :: fieldData where
  \<comment> \<open>these values, as the path \<^verbatim>\<open>config/ca/generate/intermediate/exported\<close> hands
      them on\<close>
  "intermediateData = FieldData pathGenerateIntermediateCA intermediateValues"

section \<open>Properties\<close>

subsection \<open>Strings and the hostname pattern\<close>

lemma hasPrefix_iff: "hasPrefix s p \<longleftrightarrow> (\<exists>r. s = p @ r)"
  by (induction s p rule: hasPrefix.induct) auto

lemma hasSuffix_iff: "hasSuffix s suf \<longleftrightarrow> (\<exists>p. s = p @ suf)"
proof -
  have "hasSuffix s suf \<longleftrightarrow> (\<exists>r. rev s = rev suf @ r)"
    by (simp add: hasSuffix_def hasPrefix_iff)
  also have "\<dots> \<longleftrightarrow> (\<exists>p. s = p @ suf)"
  proof
    assume "\<exists>r. rev s = rev suf @ r"
    then obtain r where "rev s = rev suf @ r" ..
    then have "s = rev r @ suf" by (metis rev_append rev_rev_ident)
    then show "\<exists>p. s = p @ suf" ..
  next
    assume "\<exists>p. s = p @ suf"
    then obtain p where "s = p @ suf" ..
    then have "rev s = rev suf @ rev p" by simp
    then show "\<exists>r. rev s = rev suf @ r" ..
  qed
  finally show ?thesis .
qed

lemma example_com_suffix: "hasSuffix ''example.com'' (''.'' @ dn) \<longleftrightarrow> dn = ''com''"
  unfolding hasSuffix_iff by (auto simp: Cons_eq_append_conv)

lemma base_not_suffix: "\<not> hasSuffix ''example.com'' ''.example.com''"
  by (simp add: hasSuffix_def)

lemma hostnameRegex_examples:
  "hostnameRegex ''example.com''" "hostnameRegex ''foo.example.com''"
  "hostnameRegex ''foo''" "\<not> hostnameRegex ''foo..example.com''"
  by (simp_all add: hostnameRegex_def isLabel_def labelByte_def alnum_def)

subsection \<open>The name validator\<close>

lemma roleAdmits_iff:
  "roleAdmits dn role name e d w s =
    ((EnforceHostnames role \<longrightarrow> hostnameRegex s) \<and>
     (AllowAnyName role \<or>
      (AllowLocalhost role \<and> (name = ''localhost'' \<or> (e \<and> d = ''localhost''))) \<or>
      (AllowTokenDisplayName role \<and> (name = dn \<or> (e \<and> d = dn))) \<or>
      ((AllowLocalhost role \<or> AllowTokenDisplayName role) \<and> AllowSubdomains role \<and>
         hasSuffix s (''.'' @ dn) \<and> hostnameRegex (trimSuffix s (''.'' @ dn))) \<or>
      ((AllowLocalhost role \<or> AllowTokenDisplayName role \<or> AllowedBaseDomain role \<noteq> [])
         \<and> AllowSubdomains role \<and> w \<and> s = AllowedBaseDomain role) \<or>
      (AllowedBaseDomain role \<noteq> [] \<and> AllowBaseDomain role \<and>
         (name = AllowedBaseDomain role \<or> (e \<and> d = AllowedBaseDomain role))) \<or>
      (AllowedBaseDomain role \<noteq> [] \<and> AllowSubdomains role \<and>
         hasSuffix s (''.'' @ AllowedBaseDomain role) \<and>
         hostnameRegex (trimSuffix s (''.'' @ AllowedBaseDomain role)))))"
  unfolding roleAdmits_def if_bool_eq_conj length_0_conv by argo

lemma roleAdmits_mono:
  assumes "roleAdmits dn role name e d w s"
  shows "roleAdmits dn (role\<lparr>AllowLocalhost := True\<rparr>) name e d w s"
    and "roleAdmits dn (role\<lparr>AllowBaseDomain := True\<rparr>) name e d w s"
    and "roleAdmits dn (role\<lparr>AllowTokenDisplayName := True\<rparr>) name e d w s"
    and "roleAdmits dn (role\<lparr>AllowSubdomains := True\<rparr>) name e d w s"
    and "roleAdmits dn (role\<lparr>AllowAnyName := True\<rparr>) name e d w s"
    and "roleAdmits dn (role\<lparr>AllowIPSANs := True\<rparr>) name e d w s"
  using assms unfolding roleAdmits_iff by (simp; argo)+

lemma nameAllowed_split:
  "nameAllowed dn role name =
    (\<not> (contains name ''@'' \<and> \<not> EmailProtectionFlag role \<and> \<not> AllowAnyName role) \<and>
     \<not> (contains name ''@'' \<and> length (split name CHR ''@'') \<noteq> 2) \<and>
     roleAdmits dn role name (contains name ''@'')
       (if contains name ''@'' then split name CHR ''@'' ! 1 else name)
       (hasPrefix (if contains name ''@'' then split name CHR ''@'' ! 1 else name) ''*.'')
       (if hasPrefix (if contains name ''@'' then split name CHR ''@'' ! 1 else name) ''*.''
        then drop 2 (if contains name ''@'' then split name CHR ''@'' ! 1 else name)
        else (if contains name ''@'' then split name CHR ''@'' ! 1 else name)))"
  by (cases "contains name ''@''") (simp_all add: nameAllowed_def Let_def)

lemma nameAllowed_mono:
  assumes "nameAllowed dn role name"
  shows "nameAllowed dn (role\<lparr>AllowLocalhost := True\<rparr>) name"
    and "nameAllowed dn (role\<lparr>AllowBaseDomain := True\<rparr>) name"
    and "nameAllowed dn (role\<lparr>AllowTokenDisplayName := True\<rparr>) name"
    and "nameAllowed dn (role\<lparr>AllowSubdomains := True\<rparr>) name"
    and "nameAllowed dn (role\<lparr>AllowAnyName := True\<rparr>) name"
    and "nameAllowed dn (role\<lparr>AllowIPSANs := True\<rparr>) name"
  using assms unfolding nameAllowed_split by (simp_all add: roleAdmits_mono)

lemma validateNames_all:
  "(\<forall>n \<in> set names. nameAllowed dn role n) \<Longrightarrow> validateNames dn names role = ''''"
  by (induction names) simp_all

lemma validateNames_first:
  "\<not> nameAllowed dn role n \<Longrightarrow> validateNames dn (n # names) role = n"
  by simp

lemma validateNames_rejects:
  "validateNames dn names role \<noteq> '''' \<Longrightarrow>
     \<exists>n \<in> set names. \<not> nameAllowed dn role n"
  by (induction names) (auto split: if_splits)

lemma validateNames_no_empty_name:
  assumes "'''' \<notin> set names"
  shows "validateNames dn names role = '''' \<longleftrightarrow>
           (\<forall>n \<in> set names. nameAllowed dn role n)"
  using assms by (induction names) auto

text \<open>
  Raising one of the flags \<^verbatim>\<open>AllowLocalhost\<close>, \<^verbatim>\<open>AllowBaseDomain\<close>,
  \<^verbatim>\<open>AllowTokenDisplayName\<close>, \<^verbatim>\<open>AllowSubdomains\<close>, \<^verbatim>\<open>AllowAnyName\<close> or
  \<^verbatim>\<open>AllowIPSANs\<close> of a role keeps every name admitted that a round of the loop
  admitted before; and a list without the empty name for which \<^verbatim>\<open>validateNames\<close>
  reported no name has none reported afterwards.
\<close>

lemma validateNames_flag_raised:
  assumes "role' \<in> {role\<lparr>AllowLocalhost := True\<rparr>, role\<lparr>AllowBaseDomain := True\<rparr>,
                      role\<lparr>AllowTokenDisplayName := True\<rparr>, role\<lparr>AllowSubdomains := True\<rparr>,
                      role\<lparr>AllowAnyName := True\<rparr>, role\<lparr>AllowIPSANs := True\<rparr>}"
  shows "nameAllowed dn role name \<Longrightarrow> nameAllowed dn role' name"
    and "'''' \<notin> set names \<Longrightarrow> validateNames dn names role = '''' \<Longrightarrow>
           validateNames dn names role' = ''''"
proof -
  show admitted: "nameAllowed dn role' n" if "nameAllowed dn role n" for n
    using nameAllowed_mono [OF that] assms by auto
  assume "'''' \<notin> set names" "validateNames dn names role = ''''"
  then have "\<forall>n \<in> set names. nameAllowed dn role n"
    by (simp add: validateNames_no_empty_name)
  then have "\<forall>n \<in> set names. nameAllowed dn role' n"
    using admitted by blast
  then show "validateNames dn names role' = ''''"
    by (rule validateNames_all)
qed

subsection \<open>The hostname matcher and the pattern agree\<close>

inductive_cases ClassE: "matches (Class P) s"
inductive_cases LitE: "matches (Lit c) s"
inductive_cases AltE: "matches (Alt r r') s"
inductive_cases CatE: "matches (Cat r r') s"

lemma star_class_all:
  assumes "matches r m" and "r = Star (Class P)"
  shows "list_all P m"
  using assms
proof (induction rule: matches.induct)
  case (StarCons r u v)
  then show ?case by (auto elim: ClassE)
qed simp_all

lemma all_star_class: "list_all P m \<Longrightarrow> matches (Star (Class P)) m"
proof (induction m)
  case Nil
  show ?case by (rule matches.StarNil)
next
  case (Cons c m)
  then have "matches (Class P) [c]" "matches (Star (Class P)) m"
    by (auto intro: matches.Class)
  then have "matches (Star (Class P)) ([c] @ m)" by (rule matches.StarCons)
  then show ?case by simp
qed

lemma alnum_labelByte: "alnum c \<Longrightarrow> labelByte c"
  by (simp add: labelByte_def)

lemma labelPattern_iff: "matches labelPattern l \<longleftrightarrow> isLabel l"
proof
  assume "matches labelPattern l"
  then have "matches (Class alnum) l \<or>
             matches (Cat (Class alnum) (Cat (Star (Class labelByte)) (Class alnum))) l"
    unfolding labelPattern_def by (auto elim: AltE)
  then show "isLabel l"
  proof
    assume "matches (Class alnum) l"
    then obtain c where "l = [c]" "alnum c" by (auto elim: ClassE)
    then show ?thesis by (simp add: isLabel_def alnum_labelByte)
  next
    assume "matches (Cat (Class alnum) (Cat (Star (Class labelByte)) (Class alnum))) l"
    then obtain a m b where l: "l = [a] @ m @ [b]" and a: "alnum a" and b: "alnum b"
      and m: "matches (Star (Class labelByte)) m"
      by (auto elim!: CatE ClassE)
    from star_class_all [OF m refl] l a b show ?thesis
      by (simp add: isLabel_def alnum_labelByte)
  qed
next
  assume il: "isLabel l"
  show "matches labelPattern l"
  proof (cases "tl l" rule: rev_cases)
    case Nil
    with il have "l = [hd l]" "alnum (hd l)" by (cases l; simp add: isLabel_def)+
    then have "matches (Class alnum) l" by (metis matches.Class)
    then show ?thesis unfolding labelPattern_def by (rule matches.AltL)
  next
    case (snoc m b)
    with il have l: "l = [hd l] @ m @ [b]" and a: "alnum (hd l)" and b: "alnum b"
      and m: "list_all labelByte m"
      by (cases l; simp add: isLabel_def)+
    have "matches (Cat (Class alnum) (Cat (Star (Class labelByte)) (Class alnum)))
            ([hd l] @ m @ [b])"
      by (intro matches.Cat matches.Class all_star_class a b m)
    with l have "matches (Cat (Class alnum) (Cat (Star (Class labelByte)) (Class alnum))) l"
      by simp
    then show ?thesis unfolding labelPattern_def by (rule matches.AltR)
  qed
qed

lemma labelByte_not_dot: "labelByte c \<Longrightarrow> c \<noteq> CHR ''.''"
  by (auto simp: labelByte_def alnum_def)

lemma isLabel_no_dot: "isLabel l \<Longrightarrow> CHR ''.'' \<notin> set l"
  using labelByte_not_dot by (auto simp: isLabel_def list_all_iff)

lemma split_no_sep: "sep \<notin> set l \<Longrightarrow> split l sep = [l]"
  by (induction l) auto

lemma split_at_sep: "sep \<notin> set l \<Longrightarrow> split (l @ sep # rest) sep = l # split rest sep"
  by (induction l) auto

lemma split_labels:
  assumes "list_all isLabel ls" and "isLabel l"
  shows "split (concat (map (\<lambda>x. x @ ''.'') ls) @ l) CHR ''.'' = ls @ [l]"
  using assms
proof (induction ls)
  case Nil
  then show ?case by (simp add: split_no_sep isLabel_no_dot)
next
  case (Cons x ls)
  then have "CHR ''.'' \<notin> set x" by (simp add: isLabel_no_dot)
  from split_at_sep [OF this, of "concat (map (\<lambda>x. x @ ''.'') ls) @ l"] Cons
  show ?case by simp
qed

lemma star_labels:
  assumes "matches r p" and "r = Star (Cat labelPattern (Lit CHR ''.''))"
  shows "\<exists>ls. list_all isLabel ls \<and> p = concat (map (\<lambda>x. x @ ''.'') ls)"
  using assms
proof (induction rule: matches.induct)
  case (StarNil r)
  have "list_all isLabel [] \<and> [] = concat (map (\<lambda>x. x @ ''.'') [])" by simp
  then show ?case by blast
next
  case (StarCons r u v)
  then obtain ls where ls: "list_all isLabel ls" "v = concat (map (\<lambda>x. x @ ''.'') ls)"
    by auto
  from StarCons obtain x where x: "u = x @ ''.''" "isLabel x"
    by (auto elim!: CatE LitE simp: labelPattern_iff)
  from ls x have "list_all isLabel (x # ls) \<and> u @ v = concat (map (\<lambda>x. x @ ''.'') (x # ls))"
    by simp
  then show ?case by blast
qed simp_all

lemma labels_star:
  "list_all isLabel ls \<Longrightarrow>
   matches (Star (Cat labelPattern (Lit CHR ''.''))) (concat (map (\<lambda>x. x @ ''.'') ls))"
proof (induction ls)
  case Nil
  show ?case by (simp add: matches.StarNil)
next
  case (Cons x ls)
  then have "matches (Cat labelPattern (Lit CHR ''.'')) (x @ ''.'')"
    by (intro matches.Cat matches.Lit) (simp add: labelPattern_iff)
  moreover from Cons have
    "matches (Star (Cat labelPattern (Lit CHR ''.''))) (concat (map (\<lambda>x. x @ ''.'') ls))"
    by simp
  ultimately have "matches (Star (Cat labelPattern (Lit CHR ''.'')))
      ((x @ ''.'') @ concat (map (\<lambda>x. x @ ''.'') ls))"
    by (rule matches.StarCons)
  then show ?case by simp
qed

lemma split_nonempty: "split s sep \<noteq> []"
  by (induction s) (simp_all split: list.split)

lemma join_split:
  "concat (map (\<lambda>x. x @ [sep]) (butlast (split s sep))) @ last (split s sep) = s"
proof (induction s)
  case Nil
  show ?case by simp
next
  case (Cons c s)
  obtain w ws where w: "split s sep = w # ws"
    using split_nonempty [of s sep] by (cases "split s sep") auto
  show ?case
  proof (cases "c = sep")
    case True
    with Cons w show ?thesis by simp
  next
    case False
    show ?thesis
    proof (cases ws)
      case Nil
      with Cons w False show ?thesis by simp
    next
      case (Cons v vs)
      with Cons.IH w False show ?thesis by simp
    qed
  qed
qed

lemma hostnameRegex_matches: "hostnameRegex s \<longleftrightarrow> matches hostnamePattern s"
proof
  assume h: "hostnameRegex s"
  let ?ps = "split s CHR ''.''"
  from h have all: "list_all isLabel ?ps" by (simp add: hostnameRegex_def)
  have ne: "?ps \<noteq> []" by (rule split_nonempty)
  from all ne have "list_all isLabel (butlast ?ps)" "isLabel (last ?ps)"
    by (auto simp: list_all_iff dest: in_set_butlastD)
  then have "matches hostnamePattern
      (concat (map (\<lambda>x. x @ ''.'') (butlast ?ps)) @ last ?ps)"
    unfolding hostnamePattern_def
    by (intro matches.Cat labels_star) (simp_all add: labelPattern_iff)
  with join_split [of "CHR ''.''" s] show "matches hostnamePattern s" by simp
next
  assume "matches hostnamePattern s"
  then obtain p l where s: "s = p @ l"
    and p: "matches (Star (Cat labelPattern (Lit CHR ''.''))) p"
    and l: "matches labelPattern l"
    unfolding hostnamePattern_def by (auto elim!: CatE)
  from star_labels [OF p refl] obtain ls where
    ls: "list_all isLabel ls" "p = concat (map (\<lambda>x. x @ ''.'') ls)" by blast
  from l have "isLabel l" by (simp add: labelPattern_iff)
  from split_labels [OF ls(1) this] ls s \<open>isLabel l\<close> show "hostnameRegex s"
    by (simp add: hostnameRegex_def)
qed

subsection \<open>The strict role\<close>

lemma gcb_altNames_eq:
  "gcb_altNames cn vs (d, m) =
     (d @ filter (\<lambda>v. \<not> contains v ''@'') vs,
      m @ map (\<lambda>v. cn) (filter (\<lambda>v. contains v ''@'') vs))"
  by (induction vs arbitrary: d m) simp_all

lemma gcb_names_cn_first:
  assumes "\<not> contains cn ''@''"
  shows "\<exists>rest. fst (gcb_names cn data) = cn # rest"
proof (cases "f_alt_names data")
  case None
  with assms show ?thesis by (simp add: gcb_names_def)
next
  case (Some cnAlt)
  with assms show ?thesis by (simp add: gcb_names_def gcb_altNames_eq Let_def)
qed

lemma web_admits_subdomain: "nameAllowed dn web ''foo.example.com''"
  by (simp add: nameAllowed_def roleAdmits_def web_def Let_def hostnameRegex_examples
      hasSuffix_def trimSuffix_def)

lemma web_admits_wildcard: "nameAllowed dn web ''*.example.com''"
  by (simp add: nameAllowed_def roleAdmits_def web_def Let_def hostnameRegex_examples)

lemma web_rejects_base: "dn \<noteq> ''com'' \<Longrightarrow> \<not> nameAllowed dn web ''example.com''"
  using example_com_suffix [of dn] base_not_suffix
  by (simp add: nameAllowed_def roleAdmits_def web_def Let_def hostnameRegex_examples)

lemma web_rejects_empty_label: "\<not> nameAllowed dn web ''foo..example.com''"
  by (simp add: nameAllowed_def roleAdmits_def web_def Let_def hostnameRegex_examples)

text \<open>
  C7. The strict role: base domain \<^verbatim>\<open>example.com\<close>, subdomains allowed, the base domain
  itself not allowed, host names enforced, the other flags at their defaults. The
  caller's display name is unrelated to the names: it is not \<^verbatim>\<open>com\<close>, the one display
  name of which \<^verbatim>\<open>example.com\<close> is a subdomain. Then \<^verbatim>\<open>validateNames\<close> admits
  \<^verbatim>\<open>foo.example.com\<close> and \<^verbatim>\<open>*.example.com\<close>, rejects \<^verbatim>\<open>example.com\<close> and
  \<^verbatim>\<open>foo..example.com\<close>, the latter because the pattern for host names does not match,
  and a request for the common name \<^verbatim>\<open>example.com\<close> that is otherwise in order (its
  IP SANs and its TTL resolve, and the TTL ends before the signing CA expires) fails with
  the user error \<^verbatim>\<open>name example.com not allowed by this role\<close>.
\<close>

theorem strict_role_scenario:
  assumes "DisplayName req \<noteq> ''com''"
    and "f_common_name data = Some ''example.com''"
    and "gcb_ipAddresses e web data = Inr ips"
    and "gcb_ttl e web data = Inr ttl"
    and "signingBundle = None \<or>
         (\<exists>sb caCert. signingBundle = Some sb \<and> pb_Certificate sb = Some caCert \<and>
            time_Now e + ttl \<le> NotAfter caCert)"
  shows "validateNames (DisplayName req) [''foo.example.com''] web = '''' \<and>
         validateNames (DisplayName req) [''*.example.com''] web = '''' \<and>
         validateNames (DisplayName req) [''example.com''] web = ''example.com'' \<and>
         validateNames (DisplayName req) [''foo..example.com''] web = ''foo..example.com'' \<and>
         \<not> hostnameRegex ''foo..example.com'' \<and>
         generateCreationBundle e web signingBundle csr req data =
           Inl (UserError ''name example.com not allowed by this role'')"
proof -
  let ?dn = "DisplayName req"
  have v: "validateNames ?dn [''foo.example.com''] web = ''''"
      "validateNames ?dn [''*.example.com''] web = ''''"
      "validateNames ?dn [''example.com''] web = ''example.com''"
      "validateNames ?dn [''foo..example.com''] web = ''foo..example.com''"
    using web_admits_subdomain [of ?dn] web_admits_wildcard [of ?dn]
      web_rejects_base [OF assms(1)] web_rejects_empty_label [of ?dn]
    by simp_all
  have cn: "gcb_commonName web csr data = Inr ''example.com''"
    using assms(2) by (simp add: gcb_commonName_def Get_def)
  obtain rest where dns: "fst (gcb_names ''example.com'' data) = ''example.com'' # rest"
    using gcb_names_cn_first [of "''example.com''" data] by auto
  obtain emails where names: "gcb_names ''example.com'' data = (''example.com'' # rest, emails)"
    using dns by (cases "gcb_names ''example.com'' data") simp
  have bad: "validateNames ?dn (''example.com'' # rest) web = ''example.com''"
    using web_rejects_base [OF assms(1)] by simp
  have "generateCreationBundle e web signingBundle csr req data =
           Inl (UserError ''name example.com not allowed by this role'')"
    using assms(5)
  proof
    assume "signingBundle = None"
    then show ?thesis
      by (simp add: generateCreationBundle_def cn names assms(3,4) bad Let_def
          del: validateNames.simps)
  next
    assume "\<exists>sb caCert. signingBundle = Some sb \<and> pb_Certificate sb = Some caCert \<and>
            time_Now e + ttl \<le> NotAfter caCert"
    then obtain sb caCert where "signingBundle = Some sb" "pb_Certificate sb = Some caCert"
      "time_Now e + ttl \<le> NotAfter caCert" by blast
    then show ?thesis
      by (simp add: generateCreationBundle_def cn names assms(3,4) bad Let_def
          del: validateNames.simps)
  qed
  with v hostnameRegex_examples(4) show ?thesis by simp
qed

theorem strict_role_scenario_witness:
  "validateNames ''token'' [''foo.example.com''] web = '''' \<and>
   validateNames ''token'' [''*.example.com''] web = '''' \<and>
   validateNames ''token'' [''example.com''] web = ''example.com'' \<and>
   validateNames ''token'' [''foo..example.com''] web = ''foo..example.com'' \<and>
   generateCreationBundle exampleEnv web None None (exampleRequest emptyStorage)
       (noFields\<lparr>f_common_name := Some ''example.com''\<rparr>) =
     Inl (UserError ''name example.com not allowed by this role'')"
proof -
  have 1: "DisplayName (exampleRequest emptyStorage) \<noteq> ''com''"
    by (simp add: exampleRequest_def)
  have 2: "f_common_name (noFields\<lparr>f_common_name := Some ''example.com''\<rparr>) = Some ''example.com''"
    by simp
  have 3: "gcb_ipAddresses exampleEnv web (noFields\<lparr>f_common_name := Some ''example.com''\<rparr>) = Inr []"
    by (simp add: gcb_ipAddresses_def noFields_def)
  have 4: "gcb_ttl exampleEnv web (noFields\<lparr>f_common_name := Some ''example.com''\<rparr>) = Inr (720 * Hour)"
    by (simp add: gcb_ttl_def gcb_ttlField_def noFields_def web_def exampleEnv_def)
  have 5: "(None :: caInfoBundle option) = None \<or>
         (\<exists>sb caCert. (None :: caInfoBundle option) = Some sb \<and> pb_Certificate sb = Some caCert \<and>
            time_Now exampleEnv + 720 * Hour \<le> NotAfter caCert)"
    by simp
  from strict_role_scenario [OF 1 2 3 4 5, of None]
  show ?thesis by (simp add: exampleRequest_def)
qed

subsection \<open>The creation bundle\<close>

lemma gcb_finish_fields:
  assumes "gcb_finish e role signingBundle req creationBundle = Inr ci"
  shows "ci_TTL ci = ci_TTL creationBundle"
    and "ci_DNSNames ci = ci_DNSNames creationBundle"
    and "ci_EmailAddresses ci = ci_EmailAddresses creationBundle"
    and "ci_KeyType ci = ci_KeyType creationBundle"
    and "ci_KeyBits ci = ci_KeyBits creationBundle"
    and "ci_SigningBundle ci = ci_SigningBundle creationBundle"
    and "ci_URLs ci \<noteq> None \<or> signingBundle \<noteq> None"
  using assms
  by (auto simp: gcb_finish_def Let_def split: option.splits sum.splits if_splits)

lemma generateCreationBundle_success:
  assumes "generateCreationBundle e role signingBundle csr req data = Inr ci"
  shows "\<exists>cn. gcb_commonName role csr data = Inr cn \<and>
           ci_DNSNames ci = fst (gcb_names cn data) \<and>
           ci_EmailAddresses ci = snd (gcb_names cn data) \<and>
           gcb_ttl e role data = Inr (ci_TTL ci) \<and>
           ci_KeyType ci = KeyType role \<and> ci_KeyBits ci = KeyBits role \<and>
           ci_SigningBundle ci = signingBundle"
proof -
  from assms obtain cn where cn: "gcb_commonName role csr data = Inr cn"
    by (auto simp: generateCreationBundle_def split: sum.splits)
  obtain dns emails where names: "gcb_names cn data = (dns, emails)"
    by (cases "gcb_names cn data")
  from assms cn names obtain ips where ips: "gcb_ipAddresses e role data = Inr ips"
    by (auto simp: generateCreationBundle_def split: sum.splits)
  from assms cn names ips obtain ttl where ttl: "gcb_ttl e role data = Inr ttl"
    by (auto simp: generateCreationBundle_def split: sum.splits)
  from assms cn names ips ttl have
    "gcb_finish e role signingBundle req
       \<lparr>ci_CommonName = cn, ci_DNSNames = dns, ci_EmailAddresses = emails,
        ci_IPAddresses = ips, ci_IsCA = False, ci_KeyType = KeyType role,
        ci_KeyBits = KeyBits role, ci_SigningBundle = signingBundle, ci_TTL = ttl,
        ci_Usage = gcb_usage role, ci_UseCSRValues = False, ci_URLs = None,
        ci_MaxPathLength = 0\<rparr> = Inr ci"
    by (simp add: generateCreationBundle_def Let_def split: sum.splits if_splits)
  from gcb_finish_fields [OF this] cn names ttl show ?thesis by simp
qed

lemma gcb_names_eq:
  "gcb_names cn data =
     (let alts = (case f_alt_names data of
                    None \<Rightarrow> []
                  | Some cnAlt \<Rightarrow> if cnAlt = '''' then [] else split cnAlt CHR '','')
      in ((if contains cn ''@'' then [] else [cn]) @ filter (\<lambda>v. \<not> contains v ''@'') alts,
          (if contains cn ''@'' then [cn] else []) @
            map (\<lambda>v. cn) (filter (\<lambda>v. contains v ''@'') alts)))"
  by (simp add: gcb_names_def gcb_altNames_eq Let_def split: option.splits)

lemma showNat_digit: "n < 10 \<Longrightarrow> showNat n = [''0123456789'' ! n]"
  by (subst showNat.simps) simp

lemma showNat_more:
  "\<not> n < 10 \<Longrightarrow> showNat n = showNat (n div 10) @ [''0123456789'' ! (n mod 10)]"
  by (subst showNat.simps) simp

text \<open>
  C1 at a failing input. The request asks for the common name \<^verbatim>\<open>foo.example.com\<close> and
  the alternative name \<^verbatim>\<open>admin@example.org\<close> under the strict role. The entry with
  \<^verbatim>\<open>@\<close> is not appended to \<^verbatim>\<open>EmailAddresses\<close>: the common name is appended in its
  place, so the bundle lists \<^verbatim>\<open>foo.example.com\<close> as an e-mail address and the entry is
  in neither list.
\<close>

theorem alt_names_email_entry_replaced_by_cn:
  "generateCreationBundle exampleEnv web None None (exampleRequest emptyStorage)
     (noFields\<lparr>f_common_name := Some ''foo.example.com'',
               f_alt_names := Some ''admin@example.org''\<rparr>) =
   Inr \<lparr>ci_CommonName = ''foo.example.com'', ci_DNSNames = [''foo.example.com''],
        ci_EmailAddresses = [''foo.example.com''], ci_IPAddresses = [], ci_IsCA = False,
        ci_KeyType = ''rsa'', ci_KeyBits = 2048, ci_SigningBundle = None,
        ci_TTL = 720 * Hour, ci_Usage = 3, ci_UseCSRValues = False,
        ci_URLs = Some emptyURLs, ci_MaxPathLength = - 1\<rparr>"
proof -
  let ?d = "noFields\<lparr>f_common_name := Some ''foo.example.com'',
                      f_alt_names := Some ''admin@example.org''\<rparr>"
  let ?req = "exampleRequest emptyStorage"
  have cn: "gcb_commonName web None ?d = Inr ''foo.example.com''"
    by (simp add: gcb_commonName_def Get_def)
  have names: "gcb_names ''foo.example.com'' ?d = ([''foo.example.com''], [''foo.example.com''])"
    by (simp add: gcb_names_def)
  have ips: "gcb_ipAddresses exampleEnv web ?d = Inr []"
    by (simp add: gcb_ipAddresses_def noFields_def)
  have ttl: "gcb_ttl exampleEnv web ?d = Inr (720 * Hour)"
    by (simp add: gcb_ttl_def gcb_ttlField_def noFields_def web_def exampleEnv_def)
  have usage: "gcb_usage web = 3"
    by (simp add: gcb_usage_def web_def serverUsage_def clientUsage_def)
  have ok: "validateNames (DisplayName ?req) [''foo.example.com''] web = ''''"
    using web_admits_subdomain [of "DisplayName ?req"] by simp
  have fin: "gcb_finish exampleEnv web None ?req cb =
      Inr (cb\<lparr>ci_URLs := Some emptyURLs, ci_MaxPathLength := - 1\<rparr>)" for cb
    by (simp add: gcb_finish_def exampleEnv_def web_def)
  show ?thesis
    by (simp add: generateCreationBundle_def cn names ips ttl usage ok fin
        del: validateNames.simps)
      (simp add: web_def)
qed

subsection \<open>The TTL of a request\<close>

lemma gcb_ttl_eq:
  assumes "ttlField = (case f_ttl data of Some v \<Rightarrow> v | None \<Rightarrow> TTL role)"
    and "if ttlField = '''' then ttl = DefaultLeaseTTL e
         else time_ParseDuration e ttlField = Inr ttl"
    and "if MaxTTL role = '''' then maxTTL = MaxLeaseTTL e
         else time_ParseDuration e (MaxTTL role) = Inr maxTTL"
  shows "gcb_ttl e role data =
           (if ttl \<le> maxTTL then Inr ttl
            else if ttlField = '''' then Inr maxTTL
            else Inl (UserError (''ttl is larger than maximum allowed (''
                   @ showInt (quot maxTTL Second) @ '')'')))"
proof -
  have f: "gcb_ttlField role data = ttlField"
    using assms(1) by (simp add: gcb_ttlField_def)
  show ?thesis
  proof (cases "ttlField = ''''")
    case True
    with assms(2,3) show ?thesis
      by (cases "MaxTTL role = ''''") (simp_all add: gcb_ttl_def f)
  next
    case False
    with assms(2,3) show ?thesis
      by (cases "MaxTTL role = ''''") (simp_all add: gcb_ttl_def f)
  qed
qed

text \<open>
  C2, as the code has it. The text of the TTL is the request's \<^verbatim>\<open>ttl\<close> if the request
  supplied one, else \<^verbatim>\<open>role.TTL\<close>; an empty text stands for the system default, any
  other text is parsed. The maximum is \<^verbatim>\<open>role.MaxTTL\<close> if set, else the system
  maximum. A TTL above the maximum is capped to the maximum only when the text is empty,
  that is when the system default is in use; when the text is not empty the operation
  fails with a user error, whether the text came from the request or from
  \<^verbatim>\<open>role.TTL\<close>. A bundle that \<^verbatim>\<open>generateCreationBundle\<close> returns carries the TTL so
  resolved.
\<close>

theorem ttl_capped_only_for_system_default:
  assumes "ttlField = (case f_ttl data of Some v \<Rightarrow> v | None \<Rightarrow> TTL role)"
    and "if ttlField = '''' then ttl = DefaultLeaseTTL e
         else time_ParseDuration e ttlField = Inr ttl"
    and "if MaxTTL role = '''' then maxTTL = MaxLeaseTTL e
         else time_ParseDuration e (MaxTTL role) = Inr maxTTL"
  shows "gcb_ttl e role data =
           (if ttl \<le> maxTTL then Inr ttl
            else if ttlField = '''' then Inr maxTTL
            else Inl (UserError (''ttl is larger than maximum allowed (''
                   @ showInt (quot maxTTL Second) @ '')''))) \<and>
         (maxTTL < ttl \<and> ttlField \<noteq> '''' \<longrightarrow>
            generateCreationBundle e role signingBundle csr req data \<noteq> Inr ci) \<and>
         (generateCreationBundle e role signingBundle csr req data = Inr ci \<longrightarrow>
            ci_TTL ci = min ttl maxTTL)"
proof -
  note eq = gcb_ttl_eq [OF assms]
  have "gcb_ttl e role data = Inr (ci_TTL ci)"
    if "generateCreationBundle e role signingBundle csr req data = Inr ci"
    using generateCreationBundle_success [OF that] by blast
  with eq show ?thesis by (auto split: if_splits)
qed

theorem ttl_capped_only_for_system_default_witness:
  "gcb_ttl exampleEnv (web\<lparr>MaxTTL := ''168h''\<rparr>) noFields = Inr (168 * Hour) \<and>
   gcb_ttl exampleEnv (web\<lparr>MaxTTL := ''168h''\<rparr>) (noFields\<lparr>f_ttl := Some ''1h''\<rparr>)
     = Inr (1 * Hour) \<and>
   gcb_ttl exampleEnv (web\<lparr>MaxTTL := ''168h''\<rparr>) (noFields\<lparr>f_ttl := Some ''336h''\<rparr>)
     = Inl (UserError ''ttl is larger than maximum allowed (604800)'') \<and>
   gcb_ttl exampleEnv (web\<lparr>TTL := ''336h'', MaxTTL := ''168h''\<rparr>) noFields
     = Inl (UserError ''ttl is larger than maximum allowed (604800)'')"
proof -
  let ?capped = "web\<lparr>MaxTTL := ''168h''\<rparr>"
  let ?long = "web\<lparr>TTL := ''336h'', MaxTTL := ''168h''\<rparr>"
  have msg: "showInt (quot (168 * Hour) Second) = ''604800''"
    by (simp add: showInt_def quot_def Hour_def Second_def showNat_digit showNat_more)
  have max: "if MaxTTL ?capped = '''' then 168 * Hour = MaxLeaseTTL exampleEnv
             else time_ParseDuration exampleEnv (MaxTTL ?capped) = Inr (168 * Hour)"
    by (simp add: exampleEnv_def exampleParseDuration_def)
  have max': "if MaxTTL ?long = '''' then 168 * Hour = MaxLeaseTTL exampleEnv
             else time_ParseDuration exampleEnv (MaxTTL ?long) = Inr (168 * Hour)"
    by (simp add: exampleEnv_def exampleParseDuration_def)
  have a1: "'''' = (case f_ttl noFields of Some v \<Rightarrow> v | None \<Rightarrow> TTL ?capped)"
    by (simp add: noFields_def web_def)
  have a2: "if '''' = '''' then 720 * Hour = DefaultLeaseTTL exampleEnv
            else time_ParseDuration exampleEnv '''' = Inr (720 * Hour)"
    by (simp add: exampleEnv_def)
  have b1: "''1h'' = (case f_ttl (noFields\<lparr>f_ttl := Some ''1h''\<rparr>) of Some v \<Rightarrow> v
                     | None \<Rightarrow> TTL ?capped)"
    by simp
  have b2: "if ''1h'' = '''' then 1 * Hour = DefaultLeaseTTL exampleEnv
            else time_ParseDuration exampleEnv ''1h'' = Inr (1 * Hour)"
    by (simp add: exampleEnv_def exampleParseDuration_def)
  have c1: "''336h'' = (case f_ttl (noFields\<lparr>f_ttl := Some ''336h''\<rparr>) of Some v \<Rightarrow> v
                       | None \<Rightarrow> TTL ?capped)"
    by simp
  have c2: "if ''336h'' = '''' then 336 * Hour = DefaultLeaseTTL exampleEnv
            else time_ParseDuration exampleEnv ''336h'' = Inr (336 * Hour)"
    by (simp add: exampleEnv_def exampleParseDuration_def)
  have d1: "''336h'' = (case f_ttl noFields of Some v \<Rightarrow> v | None \<Rightarrow> TTL ?long)"
    by (simp add: noFields_def)
  from ttl_capped_only_for_system_default [OF a1 a2 max]
       ttl_capped_only_for_system_default [OF b1 b2 max]
       ttl_capped_only_for_system_default [OF c1 c2 max]
       ttl_capped_only_for_system_default [OF d1 c2 max'] msg
  show ?thesis by (simp add: Hour_def Second_def)
qed

text \<open>
  C2 as stated fails: with no \<^verbatim>\<open>ttl\<close> in the request, a role TTL of 336 hours and a
  role maximum of 168 hours, the TTL is derived from the role and exceeds the maximum,
  and the request is refused instead of being capped.
\<close>

theorem role_ttl_above_max_counterexample:
  "f_ttl (noFields\<lparr>f_common_name := Some ''foo.example.com''\<rparr>) = None \<and>
   generateCreationBundle exampleEnv (web\<lparr>TTL := ''336h'', MaxTTL := ''168h''\<rparr>) None None
     (exampleRequest emptyStorage) (noFields\<lparr>f_common_name := Some ''foo.example.com''\<rparr>)
   = Inl (UserError ''ttl is larger than maximum allowed (604800)'')"
proof -
  let ?d = "noFields\<lparr>f_common_name := Some ''foo.example.com''\<rparr>"
  let ?role = "web\<lparr>TTL := ''336h'', MaxTTL := ''168h''\<rparr>"
  have cn: "gcb_commonName ?role None ?d = Inr ''foo.example.com''"
    by (simp add: gcb_commonName_def Get_def)
  have ips: "gcb_ipAddresses exampleEnv ?role ?d = Inr []"
    by (simp add: gcb_ipAddresses_def noFields_def)
  have msg: "showInt (quot (168 * Hour) Second) = ''604800''"
    by (simp add: showInt_def quot_def Hour_def Second_def showNat_digit showNat_more)
  have ttl: "gcb_ttl exampleEnv ?role ?d =
      Inl (UserError ''ttl is larger than maximum allowed (604800)'')"
    using msg
    by (simp add: gcb_ttl_def gcb_ttlField_def noFields_def exampleEnv_def
        exampleParseDuration_def Hour_def Second_def)
  show ?thesis
    by (simp add: generateCreationBundle_def cn ips ttl split: prod.splits) (simp add: noFields_def)
qed

subsection \<open>The validator and the empty name\<close>

text \<open>
  \<^verbatim>\<open>validateNames\<close> reports a rejected name by returning it, and its callers read
  the empty string as ``no name rejected''. A rejected empty name is therefore taken for
  success, and the names after it are not looked at.
\<close>

lemma validateNames_empty_name:
  "validateNames dn ('''' # names) role =
     (if nameAllowed dn role '''' then validateNames dn names role else '''')"
  by simp

lemma lax_rejects_empty_name: "\<not> nameAllowed '''' lax ''''"
  by (simp add: nameAllowed_def roleAdmits_def lax_def web_def Let_def hasSuffix_def)

lemma lax_rejects_stranger:
  "\<not> nameAllowed '''' lax ''evil.org''"
  "\<not> nameAllowed '''' (lax\<lparr>AllowTokenDisplayName := True\<rparr>) ''evil.org''"
  by (simp_all add: nameAllowed_def roleAdmits_def lax_def web_def Let_def hasSuffix_def)

lemma lax_admits_display_name:
  "nameAllowed '''' (lax\<lparr>AllowTokenDisplayName := True\<rparr>) ''''"
  by (simp add: nameAllowed_def roleAdmits_def lax_def web_def Let_def)

lemma lax_admits_subdomain:
  "nameAllowed '''' lax ''foo.example.com''"
  "nameAllowed '''' (lax\<lparr>AllowTokenDisplayName := True\<rparr>) ''foo.example.com''"
  by (simp_all add: nameAllowed_def roleAdmits_def lax_def web_def Let_def hasSuffix_def
      trimSuffix_def hostnameRegex_def isLabel_def labelByte_def alnum_def)

text \<open>
  C3 at a failing input. The role is the strict role with host names not enforced, the
  caller's token has no display name, and the request asks for the common name
  \<^verbatim>\<open>foo.example.com\<close> with the alternative names \<^verbatim>\<open>,evil.org\<close>, that is the empty
  name and \<^verbatim>\<open>evil.org\<close>. No round of the loop admits \<^verbatim>\<open>evil.org\<close>, before or after
  \<^verbatim>\<open>AllowTokenDisplayName\<close> is raised. Before, \<^verbatim>\<open>validateNames\<close> stops at the empty
  name and returns it: the lists pass for accepted and the bundle names \<^verbatim>\<open>evil.org\<close>.
  After, the empty name is the display name and is admitted, \<^verbatim>\<open>evil.org\<close> is reached
  and reported, and the request fails. Raising the flag turned an accepted list into a
  rejected one.
\<close>

theorem validateNames_empty_name_not_monotone:
  "validateNames '''' ['''', ''evil.org''] lax = '''' \<and>
   validateNames '''' ['''', ''evil.org''] (lax\<lparr>AllowTokenDisplayName := True\<rparr>) = ''evil.org'' \<and>
   validateNames '''' [''foo.example.com'', '''', ''evil.org''] lax = '''' \<and>
   validateNames '''' [''foo.example.com'', '''', ''evil.org'']
     (lax\<lparr>AllowTokenDisplayName := True\<rparr>) = ''evil.org'' \<and>
   generateCreationBundle exampleEnv lax None None (anonymous emptyStorage)
     (noFields\<lparr>f_common_name := Some ''foo.example.com'',
               f_alt_names := Some '',evil.org''\<rparr>) =
     Inr \<lparr>ci_CommonName = ''foo.example.com'',
          ci_DNSNames = [''foo.example.com'', '''', ''evil.org''],
          ci_EmailAddresses = [], ci_IPAddresses = [], ci_IsCA = False,
          ci_KeyType = ''rsa'', ci_KeyBits = 2048, ci_SigningBundle = None,
          ci_TTL = 720 * Hour, ci_Usage = 3, ci_UseCSRValues = False,
          ci_URLs = Some emptyURLs, ci_MaxPathLength = - 1\<rparr> \<and>
   generateCreationBundle exampleEnv (lax\<lparr>AllowTokenDisplayName := True\<rparr>) None None
     (anonymous emptyStorage)
     (noFields\<lparr>f_common_name := Some ''foo.example.com'',
               f_alt_names := Some '',evil.org''\<rparr>) =
     Inl (UserError ''name evil.org not allowed by this role'')"
proof -
  let ?d = "noFields\<lparr>f_common_name := Some ''foo.example.com'',
                      f_alt_names := Some '',evil.org''\<rparr>"
  let ?req = "anonymous emptyStorage"
  let ?lax' = "lax\<lparr>AllowTokenDisplayName := True\<rparr>"
  have v1: "validateNames '''' ['''', ''evil.org''] lax = ''''"
    using lax_rejects_empty_name by simp
  have v2: "validateNames '''' ['''', ''evil.org''] ?lax' = ''evil.org''"
    using lax_admits_display_name lax_rejects_stranger(2) by simp
  have v3: "validateNames '''' [''foo.example.com'', '''', ''evil.org''] lax = ''''"
    using lax_admits_subdomain(1) lax_rejects_empty_name by simp
  have v4: "validateNames '''' [''foo.example.com'', '''', ''evil.org''] ?lax' = ''evil.org''"
    using lax_admits_subdomain(2) lax_admits_display_name lax_rejects_stranger(2) by simp
  have dn: "DisplayName ?req = ''''" by (simp add: anonymous_def)
  have none: "validateNames '''' [] role = ''''" for role by simp
  have cn: "gcb_commonName role None ?d = Inr ''foo.example.com''" for role
    by (simp add: gcb_commonName_def Get_def)
  have names: "gcb_names ''foo.example.com'' ?d = ([''foo.example.com'', '''', ''evil.org''], [])"
    by (simp add: gcb_names_def)
  have ips: "gcb_ipAddresses exampleEnv role ?d = Inr []" for role
    by (simp add: gcb_ipAddresses_def noFields_def)
  have ttl: "gcb_ttl exampleEnv lax ?d = Inr (720 * Hour)"
      "gcb_ttl exampleEnv ?lax' ?d = Inr (720 * Hour)"
    by (simp_all add: gcb_ttl_def gcb_ttlField_def noFields_def lax_def web_def exampleEnv_def)
  have usage: "gcb_usage lax = 3"
    by (simp add: gcb_usage_def lax_def web_def serverUsage_def clientUsage_def)
  have fin: "gcb_finish exampleEnv lax None ?req cb =
      Inr (cb\<lparr>ci_URLs := Some emptyURLs, ci_MaxPathLength := - 1\<rparr>)" for cb
    by (simp add: gcb_finish_def exampleEnv_def lax_def web_def)
  have before: "generateCreationBundle exampleEnv lax None None ?req ?d =
     Inr \<lparr>ci_CommonName = ''foo.example.com'',
          ci_DNSNames = [''foo.example.com'', '''', ''evil.org''],
          ci_EmailAddresses = [], ci_IPAddresses = [], ci_IsCA = False,
          ci_KeyType = ''rsa'', ci_KeyBits = 2048, ci_SigningBundle = None,
          ci_TTL = 720 * Hour, ci_Usage = 3, ci_UseCSRValues = False,
          ci_URLs = Some emptyURLs, ci_MaxPathLength = - 1\<rparr>"
    by (simp add: generateCreationBundle_def cn names ips ttl usage dn v3 none fin
        del: validateNames.simps)
      (simp add: lax_def web_def)
  have after: "generateCreationBundle exampleEnv ?lax' None None ?req ?d =
     Inl (UserError ''name evil.org not allowed by this role'')"
    by (simp add: generateCreationBundle_def cn names ips ttl dn v4
        del: validateNames.simps)
  from v1 v2 v3 v4 before after show ?thesis by simp
qed

subsection \<open>The template of \<^verbatim>\<open>createCertificate\<close>\<close>

lemma createCertificate_template_constraints:
  assumes "createCertificate_template e creationInfo serialNumber subjKeyID = Inr certTemplate"
  shows "BasicConstraintsValid certTemplate"
    and "IsCA certTemplate \<longleftrightarrow> ci_SigningBundle creationInfo = None"
    and "MaxPathLenZero certTemplate \<longleftrightarrow>
           ci_SigningBundle creationInfo = None \<and> ci_MaxPathLength creationInfo = 0"
  using assms
  by (auto simp: createCertificate_template_def Let_def split: option.splits if_splits)

lemma createCertificate_success:
  assumes "createCertificate e creationInfo = Inr result"
  shows "\<exists>serialNumber subjKeyID certTemplate parent signer.
           createCertificate_template e creationInfo serialNumber subjKeyID = Inr certTemplate \<and>
           x509_CreateCertificate e certTemplate parent
             (map_option Public (pb_PrivateKey result)) signer
             = Inr (pb_CertificateBytes result)"
proof -
  from assms obtain serialNumber where s: "rand_Int e = Some serialNumber"
    by (auto simp: createCertificate_def split: option.splits)
  from assms s obtain t k bs where
    g: "generateKey e (ci_KeyType creationInfo) (ci_KeyBits creationInfo)
          ''unknown key type: '' = Inr (t, k, bs)"
    by (auto simp: createCertificate_def split: sum.splits)
  from assms s g obtain subjKeyID where i: "certutil_GetSubjKeyID e k = Inr subjKeyID"
    by (auto simp: createCertificate_def split: sum.splits)
  from assms s g i obtain certTemplate where
    c: "createCertificate_template e creationInfo serialNumber subjKeyID = Inr certTemplate"
    by (auto simp: createCertificate_def split: sum.splits)
  from assms s g i c obtain parent signer where
    x: "x509_CreateCertificate e certTemplate parent (Some (Public k)) signer
          = Inr (pb_CertificateBytes result)"
    and k: "pb_PrivateKey result = Some k"
    by (auto simp: createCertificate_def split: sum.splits option.splits)
  from c x k show ?thesis
    by (intro exI [of _ serialNumber] exI [of _ subjKeyID] exI [of _ certTemplate]
        exI [of _ parent] exI [of _ signer]) simp
qed

text \<open>
  C4, as the code has it. The template that \<^verbatim>\<open>createCertificate\<close> hands to
  \<^verbatim>\<open>x509.CreateCertificate\<close>, whose result is the certificate it returns, has Basic
  Constraints valid. Its \<^verbatim>\<open>IsCA\<close> flag does not come from the bundle's \<^verbatim>\<open>IsCA\<close>: it
  is set exactly in the self-signed path (no signing bundle) and cleared in the
  CA-signed-from-template path. The explicit zero path length (\<^verbatim>\<open>MaxPathLenZero\<close>) is
  emitted exactly in the self-signed path with \<^verbatim>\<open>MaxPathLength == 0\<close>.
\<close>

theorem createCertificate_basic_constraints:
  assumes "createCertificate e creationInfo = Inr result"
  shows "\<exists>serialNumber subjKeyID certTemplate parent signer.
           createCertificate_template e creationInfo serialNumber subjKeyID = Inr certTemplate \<and>
           x509_CreateCertificate e certTemplate parent
             (map_option Public (pb_PrivateKey result)) signer
             = Inr (pb_CertificateBytes result) \<and>
           BasicConstraintsValid certTemplate \<and>
           (IsCA certTemplate \<longleftrightarrow> ci_SigningBundle creationInfo = None) \<and>
           (MaxPathLenZero certTemplate \<longleftrightarrow>
              ci_SigningBundle creationInfo = None \<and> ci_MaxPathLength creationInfo = 0)"
proof -
  from createCertificate_success [OF assms] obtain serialNumber subjKeyID certTemplate
      parent signer where
    t: "createCertificate_template e creationInfo serialNumber subjKeyID = Inr certTemplate"
    and x: "x509_CreateCertificate e certTemplate parent
             (map_option Public (pb_PrivateKey result)) signer
             = Inr (pb_CertificateBytes result)"
    by blast
  from createCertificate_template_constraints [OF t] t x show ?thesis
    by (intro exI [of _ serialNumber] exI [of _ subjKeyID] exI [of _ certTemplate]
        exI [of _ parent] exI [of _ signer]) simp
qed

lemma exampleEnv_sel:
  "DefaultLeaseTTL exampleEnv = 720 * Hour"
  "MaxLeaseTTL exampleEnv = 720 * Hour"
  "time_Now exampleEnv = 0"
  "time_ParseDuration exampleEnv = exampleParseDuration"
  "net_ParseIP exampleEnv v = None"
  "getURLs exampleEnv s = Inr None"
  "rand_Int exampleEnv = Some 7"
  "rsa_GenerateKey exampleEnv bits = Some 1"
  "ecdsa_GenerateKey exampleEnv c = Some 2"
  "x509_MarshalPKCS1PrivateKey exampleEnv k = ''rsa key''"
  "x509_MarshalECPrivateKey exampleEnv k = Some ''ec key''"
  "certutil_GetSubjKeyID exampleEnv k = Inr ''ski''"
  "x509_CreateCertificate exampleEnv template parent pub priv = Inr ''der''"
  "x509_ParseCertificate exampleEnv der = Inr exampleCert"
  "x509_CreateCertificateRequest exampleEnv csrTemplate k = Inr ''csr der''"
  "x509_ParseCertificateRequest exampleEnv der = Inr exampleCSR"
  "x509_MarshalPKIXPublicKey exampleEnv pub' = Inr ''spki''"
  "sha1_Sum exampleEnv bs = ''sha1''"
  "pem_Decode exampleEnv text = Some text"
  "CheckSignature exampleEnv csr"
  "ParsePEMBundle exampleEnv text = Inr exampleUpload"
  "ToParsedCertBundle exampleEnv cb = Inr exampleParsed"
  "ToCertBundle exampleEnv pb = Inr exampleCertBundle"
  "ToCSRBundle exampleEnv pcsr = Inr exampleCSRBundle"
  by (simp_all add: exampleEnv_def)

lemma generateKey_example:
  "generateKey exampleEnv ''rsa'' bits msg = Inr (RSAPrivateKey, RSAKey 1, ''rsa key'')"
  by (simp add: generateKey_def exampleEnv_sel)

lemma createCertificate_example:
  "createCertificate exampleEnv exampleBundle =
     Inr \<lparr>pb_PrivateKeyType = RSAPrivateKey, pb_PrivateKeyBytes = ''rsa key'',
          pb_PrivateKey = Some (RSAKey 1), pb_IssuingCABytes = ''der'',
          pb_IssuingCA = Some exampleCert, pb_CertificateBytes = ''der'',
          pb_Certificate = Some exampleCert\<rparr>"
proof -
  have b: "ci_KeyType exampleBundle = ''rsa''" "ci_SigningBundle exampleBundle = None"
    by (simp_all add: exampleBundle_def)
  have "\<exists>t. createCertificate_template exampleEnv exampleBundle 7 ''ski'' = Inr t"
    by (simp add: createCertificate_template_def exampleBundle_def Let_def)
  then obtain t where "createCertificate_template exampleEnv exampleBundle 7 ''ski'' = Inr t" ..
  then show ?thesis
    by (simp add: createCertificate_def b generateKey_example exampleEnv_sel)
qed

theorem createCertificate_basic_constraints_witness:
  "\<exists>serialNumber subjKeyID certTemplate parent signer.
      createCertificate_template exampleEnv exampleBundle serialNumber subjKeyID
        = Inr certTemplate \<and>
      x509_CreateCertificate exampleEnv certTemplate parent (Some (RSAPublicKey 1)) signer
        = Inr ''der'' \<and>
      BasicConstraintsValid certTemplate \<and> IsCA certTemplate \<and>
      \<not> MaxPathLenZero certTemplate"
  using createCertificate_basic_constraints [OF createCertificate_example]
  by (simp add: exampleBundle_def)

text \<open>
  C4 as stated fails in both paths. A bundle with \<^verbatim>\<open>IsCA\<close> set, a signing bundle and
  \<^verbatim>\<open>MaxPathLength == 0\<close> gives a template with \<^verbatim>\<open>IsCA\<close> cleared and no explicit zero
  path length; a bundle with \<^verbatim>\<open>IsCA\<close> cleared and no signing bundle gives a template
  with \<^verbatim>\<open>IsCA\<close> set.
\<close>

theorem createCertificate_IsCA_counterexample:
  "map_sum id (\<lambda>t. (BasicConstraintsValid t, IsCA t, MaxPathLenZero t))
     (createCertificate_template exampleEnv
        (exampleBundle\<lparr>ci_IsCA := True, ci_SigningBundle := Some exampleSigner,
                        ci_MaxPathLength := 0\<rparr>) 7 ''ski'')
     = Inr (True, False, False) \<and>
   map_sum id (\<lambda>t. (BasicConstraintsValid t, IsCA t, MaxPathLenZero t))
     (createCertificate_template exampleEnv (exampleBundle\<lparr>ci_IsCA := False\<rparr>) 7 ''ski'')
     = Inr (True, True, False)"
  by (simp add: createCertificate_template_def exampleBundle_def Let_def)

subsection \<open>Setting the CA\<close>















subsection \<open>Signing a CSR and storing the certificate\<close>

lemma signCertificate_certificate:
  assumes "signCertificate e creationInfo csr = Inr parsedBundle"
  shows "pb_Certificate parsedBundle \<noteq> None"
  using assms
  by (auto simp: signCertificate_def split: option.splits sum.splits if_splits)

lemma signCert_certificate:
  assumes "signCert e role signingBundle isCA useCSRValues req data = Inr parsedBundle"
  shows "pb_Certificate parsedBundle \<noteq> None"
  using assms signCertificate_certificate
  by (auto simp: signCert_def Let_def split: option.splits sum.splits if_splits)

text \<open>
  C6, as the code has it. When the address checks pass, the CA is loaded, signing
  succeeds and the bundle converts, but the write of \<^verbatim>\<open>certs/<serial>\<close> fails, the
  handler returns a nil response and the error \<^verbatim>\<open>Unable to store certificate locally\<close>,
  and the storage is as it was: the signed certificate is neither stored nor returned
  to the client.
\<close>

theorem pathCASignWrite_storage_failure:
  assumes "pkiAddress = ToLower (GetString (f_pki_address data))"
    and "pkiAddress \<noteq> []" "hasPrefix pkiAddress ''http''" "contains pkiAddress ''/v1/''"
    and "\<not> contains pkiAddress (''/v1/'' @ MountPoint req)"
    and "fetchCAInfo e req = Inr signingBundle"
    and "signCert e (caRole (GetString (f_ttl data)) '''' 0) (Some signingBundle)
           isCA useCSRValues req data = Inr parsedBundle"
    and "ToCertBundle e parsedBundle = Inr cb"
    and "putFailure (Storage req) (''certs/'' @ cb_SerialNumber cb) = Some er"
  shows "pathCASignWrite e isCA useCSRValues req data =
           (Inl (Errorf ''Unable to store certificate locally''), Storage req)"
proof -
  from signCert_certificate [OF assms(7)] obtain cert where
    "pb_Certificate parsedBundle = Some cert" by auto
  with assms show ?thesis
    by (simp add: pathCASignWrite_def Let_def Storage_Put_def)
qed

lemma ToLower_example:
  "ToLower ''https://vault.example.com/v1/intermediate_pki''
     = ''https://vault.example.com/v1/intermediate_pki''"
  by (simp add: ToLower_def toLowerByte_def)

lemma fetchCAInfo_example:
  "fetchCAInfo exampleEnv (exampleRequest failingStorage) = Inr exampleSigner"
  by (simp add: fetchCAInfo_def Storage_Get_def exampleRequest_def failingStorage_def
      caStorage_def emptyStorage_def DecodeCertBundle_def exampleEnv_sel exampleParsed_def
      exampleSigner_def)

lemma generateCreationBundle_sign_example:
  "generateCreationBundle exampleEnv (caRole '''' '''' 0) (Some exampleSigner) (Some exampleCSR)
     (exampleRequest failingStorage) signData =
   Inr \<lparr>ci_CommonName = ''sub.example.com'', ci_DNSNames = [''sub.example.com''],
        ci_EmailAddresses = [], ci_IPAddresses = [], ci_IsCA = False, ci_KeyType = '''',
        ci_KeyBits = 0, ci_SigningBundle = Some exampleSigner, ci_TTL = 720 * Hour,
        ci_Usage = 0, ci_UseCSRValues = False, ci_URLs = Some emptyURLs,
        ci_MaxPathLength = - 1\<rparr>"
proof -
  let ?role = "caRole '''' '''' 0"
  have cn: "gcb_commonName ?role (Some exampleCSR) signData = Inr ''sub.example.com''"
    by (simp add: gcb_commonName_def Get_def signData_def)
  have names: "gcb_names ''sub.example.com'' signData = ([''sub.example.com''], [])"
    by (simp add: gcb_names_def signData_def noFields_def)
  have ips: "gcb_ipAddresses exampleEnv ?role signData = Inr []"
    by (simp add: gcb_ipAddresses_def signData_def noFields_def)
  have ttl: "gcb_ttl exampleEnv ?role signData = Inr (720 * Hour)"
    by (simp add: gcb_ttl_def gcb_ttlField_def signData_def noFields_def caRole_def
        exampleEnv_sel)
  have usage: "gcb_usage ?role = 0"
    by (simp add: gcb_usage_def caRole_def)
  have ok: "validateNames dn [''sub.example.com''] ?role = ''''"
      "validateNames dn [] ?role = ''''" for dn
    by (simp_all add: nameAllowed_def roleAdmits_def caRole_def Let_def)
  have signer: "pb_Certificate exampleSigner = Some exampleCert"
      "ca_URLs exampleSigner = Some emptyURLs"
    by (simp_all add: exampleSigner_def)
  have cert: "NotAfter exampleCert = 8760 * Hour" "MaxPathLen exampleCert = - 1"
    by (simp_all add: exampleCert_def)
  have fin: "gcb_finish exampleEnv ?role (Some exampleSigner) req cb =
      Inr (cb\<lparr>ci_URLs := Some emptyURLs, ci_MaxPathLength := - 1\<rparr>)" for cb req
    by (simp add: gcb_finish_def signer cert caRole_def)
  show ?thesis
    by (simp add: generateCreationBundle_def cn names ips ttl usage ok fin signer cert
        exampleEnv_sel Hour_def Second_def del: validateNames.simps)
      (simp add: caRole_def)
qed

lemma signCert_example:
  "signCert exampleEnv (caRole '''' '''' 0) (Some exampleSigner) True False
     (exampleRequest failingStorage) signData =
   Inr \<lparr>pb_PrivateKeyType = UnknownPrivateKey, pb_PrivateKeyBytes = [],
        pb_PrivateKey = None, pb_IssuingCABytes = ''der'',
        pb_IssuingCA = Some exampleCert, pb_CertificateBytes = ''der'',
        pb_Certificate = Some exampleCert\<rparr>"
proof -
  have signer: "pb_Certificate exampleSigner = Some exampleCert"
      "ca_URLs exampleSigner = Some emptyURLs" "pb_CertificateBytes exampleSigner = ''der''"
    by (simp_all add: exampleSigner_def)
  have "\<exists>t. signCertificate_template exampleEnv
      \<lparr>ci_CommonName = ''sub.example.com'', ci_DNSNames = [''sub.example.com''],
        ci_EmailAddresses = [], ci_IPAddresses = [], ci_IsCA = True, ci_KeyType = '''',
        ci_KeyBits = 0, ci_SigningBundle = Some exampleSigner, ci_TTL = 720 * Hour,
        ci_Usage = 0, ci_UseCSRValues = False, ci_URLs = Some emptyURLs,
        ci_MaxPathLength = - 1\<rparr> exampleSigner exampleCSR 7 ''sha1'' = Inr t"
    by (simp add: signCertificate_template_def signer Let_def)
  then obtain t where t: "signCertificate_template exampleEnv
      \<lparr>ci_CommonName = ''sub.example.com'', ci_DNSNames = [''sub.example.com''],
        ci_EmailAddresses = [], ci_IPAddresses = [], ci_IsCA = True, ci_KeyType = '''',
        ci_KeyBits = 0, ci_SigningBundle = Some exampleSigner, ci_TTL = 720 * Hour,
        ci_Usage = 0, ci_UseCSRValues = False, ci_URLs = Some emptyURLs,
        ci_MaxPathLength = - 1\<rparr> exampleSigner exampleCSR 7 ''sha1'' = Inr t" ..
  have csr: "GetString (f_csr signData) = ''CERTIFICATE REQUEST''"
    by (simp add: signData_def GetString_def)
  show ?thesis
    by (simp add: signCert_def csr exampleEnv_sel generateCreationBundle_sign_example
        signCertificate_def t signer Let_def)
qed

text \<open>
  C6 as stated fails. In the example world the CA is loaded, the request is signed and
  the bundle converts to serial \<^verbatim>\<open>07\<close>, and the write of \<^verbatim>\<open>certs/07\<close> fails: the
  client receives the error and no response, so it holds no copy of the certificate.
\<close>

theorem pathCASignWrite_storage_failure_counterexample:
  "signCert exampleEnv (caRole '''' '''' 0) (Some exampleSigner) True False
     (exampleRequest failingStorage) signData =
     Inr \<lparr>pb_PrivateKeyType = UnknownPrivateKey, pb_PrivateKeyBytes = [],
          pb_PrivateKey = None, pb_IssuingCABytes = ''der'',
          pb_IssuingCA = Some exampleCert, pb_CertificateBytes = ''der'',
          pb_Certificate = Some exampleCert\<rparr> \<and>
   Storage_Put failingStorage ''certs/07'' (RawBytes ''der'') = Inl (Errorf ''storage is sealed'') \<and>
   pathCASignWrite exampleEnv True False (exampleRequest failingStorage) signData =
     (Inl (Errorf ''Unable to store certificate locally''), failingStorage)"
proof -
  have addr: "ToLower (GetString (f_pki_address signData))
      = ''https://vault.example.com/v1/intermediate_pki''"
    using ToLower_example by (simp add: signData_def GetString_def)
  have mp: "MountPoint (exampleRequest failingStorage) = ''pki/''"
      "Storage (exampleRequest failingStorage) = failingStorage"
    by (simp_all add: exampleRequest_def)
  have ttl: "GetString (f_ttl signData) = ''''"
    by (simp add: signData_def noFields_def GetString_def)
  have put: "Storage_Put failingStorage ''certs/07'' v = Inl (Errorf ''storage is sealed'')" for v
    by (simp add: Storage_Put_def failingStorage_def)
  have "pathCASignWrite exampleEnv True False (exampleRequest failingStorage) signData =
     (Inl (Errorf ''Unable to store certificate locally''), failingStorage)"
    by (simp add: pathCASignWrite_def addr mp ttl fetchCAInfo_example signCert_example
        exampleEnv_sel put exampleCertBundle_def Let_def)
  with signCert_example put show ?thesis by simp
qed

theorem pathCASignWrite_storage_failure_witness:
  "pathCASignWrite exampleEnv True False (exampleRequest failingStorage) signData =
     (Inl (Errorf ''Unable to store certificate locally''),
      Storage (exampleRequest failingStorage))"
proof -
  have addr: "''https://vault.example.com/v1/intermediate_pki''
      = ToLower (GetString (f_pki_address signData))"
    using ToLower_example by (simp add: signData_def GetString_def)
  have 1: "''https://vault.example.com/v1/intermediate_pki'' \<noteq> []" by simp
  have 2: "hasPrefix ''https://vault.example.com/v1/intermediate_pki'' ''http''" by simp
  have 3: "contains ''https://vault.example.com/v1/intermediate_pki'' ''/v1/''" by simp
  have 4: "\<not> contains ''https://vault.example.com/v1/intermediate_pki''
             (''/v1/'' @ MountPoint (exampleRequest failingStorage))"
    by (simp add: exampleRequest_def)
  have 5: "signCert exampleEnv (caRole (GetString (f_ttl signData)) '''' 0)
      (Some exampleSigner) True False (exampleRequest failingStorage) signData =
     Inr \<lparr>pb_PrivateKeyType = UnknownPrivateKey, pb_PrivateKeyBytes = [],
          pb_PrivateKey = None, pb_IssuingCABytes = ''der'',
          pb_IssuingCA = Some exampleCert, pb_CertificateBytes = ''der'',
          pb_Certificate = Some exampleCert\<rparr>"
    using signCert_example by (simp add: signData_def noFields_def GetString_def)
  have 6: "ToCertBundle exampleEnv pb = Inr exampleCertBundle" for pb
    by (simp add: exampleEnv_sel)
  have 7: "putFailure (Storage (exampleRequest failingStorage))
      (''certs/'' @ cb_SerialNumber exampleCertBundle) = Some (Errorf ''storage is sealed'')"
    by (simp add: exampleRequest_def failingStorage_def exampleCertBundle_def)
  from pathCASignWrite_storage_failure [OF addr 1 2 3 4 fetchCAInfo_example 5 6 7]
  show ?thesis .
qed

subsection \<open>Reading a role\<close>

lemma getRole_reread:
  assumes "getRole s n = (Inr (Some role), s')"
  shows "getRole s' n = (Inr (Some role), s')"
proof -
  let ?key = "''role/'' @ n"
  from assms obtain stored where get: "Storage_Get s ?key = Inr (Some (JSONRole stored))"
    by (auto simp: getRole_def DecodeRole_def split: sum.splits option.splits storageValue.splits)
  then have nofail: "getFailure s ?key = None" and entry: "entries s ?key = Some (JSONRole stored)"
    by (auto simp: Storage_Get_def split: option.splits)
  show ?thesis
  proof (cases "(TTL stored = '''' \<and> Lease stored \<noteq> '''') \<or>
                (MaxTTL stored = '''' \<and> LeaseMax stored \<noteq> '''')")
    case False
    with assms get have "s' = s"
      by (auto simp: getRole_def DecodeRole_def Let_def split: if_splits)
    with assms show ?thesis by simp
  next
    case True
    with assms get have s': "s' = s\<lparr>entries := (entries s)(?key \<mapsto> JSONRole role),
                                     written := written s @ [?key]\<rparr>"
      and role: "role =
        (let r1 = (if TTL stored = '''' \<and> Lease stored \<noteq> ''''
                   then stored\<lparr>TTL := Lease stored, Lease := ''''\<rparr> else stored)
         in if MaxTTL r1 = '''' \<and> LeaseMax r1 \<noteq> ''''
            then r1\<lparr>MaxTTL := LeaseMax r1, LeaseMax := ''''\<rparr> else r1)"
      by (auto simp: getRole_def DecodeRole_def Let_def Storage_Put_def
          split: if_splits option.splits)
    have get': "Storage_Get s' ?key = Inr (Some (JSONRole role))"
      using nofail by (simp add: s' Storage_Get_def)
    have stable: "\<not> (TTL role = '''' \<and> Lease role \<noteq> '''')"
        "\<not> (MaxTTL role = '''' \<and> LeaseMax role \<noteq> '''')"
      by (auto simp: role Let_def)
    show ?thesis
      using stable get' by (auto simp: getRole_def DecodeRole_def Let_def)
  qed
qed

lemma getRole_rereads:
  assumes "getRole s n = (Inr (Some role), s')"
  shows "((\<lambda>st. snd (getRole st n)) ^^ k) s' = s'"
  using getRole_reread [OF assms] by (induction k) simp_all

text \<open>
  C8. The migration of a legacy role is idempotent. A stored role with \<^verbatim>\<open>lease\<close> and
  \<^verbatim>\<open>lease_max\<close> populated and \<^verbatim>\<open>ttl\<close> and \<^verbatim>\<open>max_ttl\<close> empty is read, where the
  write back succeeds, as a role with TTL and MaxTTL set to the legacy values and Lease
  and LeaseMax empty, and the stored entry is rewritten to that role. Every later read,
  after any number of reads, gives the same role and leaves the storage, and so its
  list of writes, as it is.
\<close>

theorem getRole_migration_idempotent:
  assumes "Storage_Get s (''role/'' @ n) = Inr (Some (JSONRole legacy))"
    and "TTL legacy = ''''" "MaxTTL legacy = ''''"
    and "Lease legacy \<noteq> ''''" "LeaseMax legacy \<noteq> ''''"
    and "putFailure s (''role/'' @ n) = None"
    and "migrated = legacy\<lparr>TTL := Lease legacy, Lease := '''',
                           MaxTTL := LeaseMax legacy, LeaseMax := ''''\<rparr>"
    and "s' = s\<lparr>entries := (entries s)(''role/'' @ n \<mapsto> JSONRole migrated),
                 written := written s @ [''role/'' @ n]\<rparr>"
    and "later = ((\<lambda>st. snd (getRole st n)) ^^ k) s'"
  shows "getRole s n = (Inr (Some migrated), s') \<and>
         TTL migrated = Lease legacy \<and> MaxTTL migrated = LeaseMax legacy \<and>
         Lease migrated = '''' \<and> LeaseMax migrated = '''' \<and>
         later = s' \<and> getRole later n = (Inr (Some migrated), later) \<and>
         written later = written s @ [''role/'' @ n]"
proof -
  have first: "getRole s n = (Inr (Some migrated), s')"
    using assms(1-8) by (simp add: getRole_def DecodeRole_def Storage_Put_def Let_def)
  from getRole_rereads [OF first] assms(9) have later: "later = s'" by simp
  from getRole_reread [OF first] later first assms(7,8) show ?thesis by simp
qed

theorem getRole_migration_idempotent_witness:
  "getRole legacyStorage ''web'' =
     (Inr (Some (legacyRole\<lparr>TTL := ''1h'', Lease := '''', MaxTTL := ''168h'', LeaseMax := ''''\<rparr>)),
      legacyStorage\<lparr>entries := (entries legacyStorage)(''role/web'' \<mapsto> JSONRole
          (legacyRole\<lparr>TTL := ''1h'', Lease := '''', MaxTTL := ''168h'', LeaseMax := ''''\<rparr>)),
        written := [''role/web'']\<rparr>) \<and>
   getRole (legacyStorage\<lparr>entries := (entries legacyStorage)(''role/web'' \<mapsto> JSONRole
          (legacyRole\<lparr>TTL := ''1h'', Lease := '''', MaxTTL := ''168h'', LeaseMax := ''''\<rparr>)),
        written := [''role/web'']\<rparr>) ''web'' =
     (Inr (Some (legacyRole\<lparr>TTL := ''1h'', Lease := '''', MaxTTL := ''168h'', LeaseMax := ''''\<rparr>)),
      legacyStorage\<lparr>entries := (entries legacyStorage)(''role/web'' \<mapsto> JSONRole
          (legacyRole\<lparr>TTL := ''1h'', Lease := '''', MaxTTL := ''168h'', LeaseMax := ''''\<rparr>)),
        written := [''role/web'']\<rparr>)"
proof -
  have 1: "Storage_Get legacyStorage (''role/'' @ ''web'') = Inr (Some (JSONRole legacyRole))"
    by (simp add: Storage_Get_def legacyStorage_def emptyStorage_def)
  have 2: "TTL legacyRole = ''''" "MaxTTL legacyRole = ''''"
    "Lease legacyRole \<noteq> ''''" "LeaseMax legacyRole \<noteq> ''''"
    by (simp_all add: legacyRole_def web_def)
  have 3: "putFailure legacyStorage (''role/'' @ ''web'') = None"
    by (simp add: legacyStorage_def emptyStorage_def)
  have l: "Lease legacyRole = ''1h''" "LeaseMax legacyRole = ''168h''"
    "written legacyStorage = []"
    by (simp_all add: legacyRole_def legacyStorage_def emptyStorage_def)
  from getRole_migration_idempotent [OF 1 2 3 refl refl refl, of 0]
  show ?thesis by (simp add: l)
qed

subsection \<open>Generating a root or an intermediate CA\<close>

lemma storeCA_response:
  assumes "storeCA s cb certificateBytes resp = (Inr r, s')"
  shows "r = resp"
    and "entries s' ''config/ca_bundle'' = Some (JSONCertBundle cb)"
  using assms
  by (auto simp: storeCA_def Storage_Put_def split: sum.splits option.splits)

lemma pathCAGenerateRoot_success:
  assumes "pathCAGenerateRoot e isCA req data = (Inr (Some (Response d sec)), s')"
  shows "\<exists>parsedBundle cb cert.
           GetKeyBits (f_key_bits data) \<in> {1024, 2048, 4096} \<and>
           generateCert e (caRole (GetString (f_ttl data)) ''rsa'' (GetKeyBits (f_key_bits data)))
             None isCA req data = Inr parsedBundle \<and>
           ToCertBundle e parsedBundle = Inr cb \<and>
           pb_Certificate parsedBundle = Some cert \<and>
           entries s' ''config/ca_bundle'' = Some (JSONCertBundle cb) \<and>
           sec = None \<and>
           d = (let base = [''serial_number'' \<mapsto> VString (cb_SerialNumber cb),
                            ''certificate'' \<mapsto> VString (cb_Certificate cb),
                            ''issuing_ca'' \<mapsto> VString (cb_IssuingCA cb),
                            ''expiration'' \<mapsto> VInt (Unix (NotAfter cert))]
                in if GetString (f_exported data) = ''exported''
                   then base(''private_key'' \<mapsto> VString (cb_PrivateKey cb),
                             ''private_key_type'' \<mapsto> VString (cb_PrivateKeyType cb))
                   else base)"
proof -
  let ?role = "caRole (GetString (f_ttl data)) ''rsa'' (GetKeyBits (f_key_bits data))"
  have kb: "KeyBits ?role = GetKeyBits (f_key_bits data)" by (simp add: caRole_def)
  from assms have bits: "GetKeyBits (f_key_bits data) \<in> {1024, 2048, 4096}"
    by (auto simp: pathCAGenerateRoot_def Let_def kb split: if_splits)
  from assms obtain parsedBundle where
    g: "generateCert e ?role None isCA req data = Inr parsedBundle"
    by (auto simp: pathCAGenerateRoot_def Let_def kb
        split: if_splits sum.splits err.splits)
  from assms g obtain cb where c: "ToCertBundle e parsedBundle = Inr cb"
    by (auto simp: pathCAGenerateRoot_def Let_def kb split: if_splits sum.splits)
  from assms g c obtain cert where t: "pb_Certificate parsedBundle = Some cert"
    by (auto simp: pathCAGenerateRoot_def Let_def kb split: if_splits option.splits)
  let ?base = "[''serial_number'' \<mapsto> VString (cb_SerialNumber cb),
                ''certificate'' \<mapsto> VString (cb_Certificate cb),
                ''issuing_ca'' \<mapsto> VString (cb_IssuingCA cb),
                ''expiration'' \<mapsto> VInt (Unix (NotAfter cert))]"
  let ?d = "if GetString (f_exported data) = ''exported''
            then ?base(''private_key'' \<mapsto> VString (cb_PrivateKey cb),
                       ''private_key_type'' \<mapsto> VString (cb_PrivateKeyType cb))
            else ?base"
  from assms g c t have
    st: "storeCA (Storage req) cb (pb_CertificateBytes parsedBundle) (Some (Response ?d None))
         = (Inr (Some (Response d sec)), s')"
    by (simp add: pathCAGenerateRoot_def Let_def kb split: if_splits)
  from storeCA_response [OF st] have "Response d sec = Response ?d None"
    and "entries s' ''config/ca_bundle'' = Some (JSONCertBundle cb)" by simp_all
  with bits g c t show ?thesis
    by (intro exI [of _ parsedBundle] exI [of _ cb] exI [of _ cert]) (simp add: Let_def)
qed

lemma pathCAGenerateIntermediate_role_eq:
  "pathCAGenerateIntermediate_role data =
     (if GetString (f_exported data) \<noteq> ''exported'' \<and>
         GetString (f_exported data) \<noteq> ''internal'' then
        Inl (ErrorResponse
           ''The \"exported\" path parameter must be \"internal\" or \"exported\"'')
      else if GetKeyBits (f_key_bits data) \<notin> {0, 1024, 2048, 4096} then
        Inl (ErrorResponse ''\"key_bits\" must be 1024, 2048, or 4096'')
      else
        Inr (caRole '''' ''rsa''
               (if GetKeyBits (f_key_bits data) = 0 then 2048
                else GetKeyBits (f_key_bits data))))"
  by (simp add: pathCAGenerateIntermediate_role_def Let_def caRole_def)

lemma pathCAGenerateIntermediate_role_rsa:
  assumes "pathCAGenerateIntermediate_role data = Inr role"
  shows "role = caRole '''' ''rsa''
                  (if GetKeyBits (f_key_bits data) = 0 then 2048
                   else GetKeyBits (f_key_bits data))"
    and "KeyType role = ''rsa''" and "KeyBits role \<in> {1024, 2048, 4096}"
    and "GetKeyBits (f_key_bits data) \<in> {0, 1024, 2048, 4096}"
  using assms
  by (auto simp: pathCAGenerateIntermediate_role_eq caRole_def split: if_splits)

lemma pathCAGenerateIntermediate_success:
  assumes "pathCAGenerateIntermediate e req data = (Inr (Some (Response d sec)), s')"
  shows "\<exists>parsedBundle csrb.
           GetKeyBits (f_key_bits data) \<in> {0, 1024, 2048, 4096} \<and>
           generateCSR e
             (caRole '''' ''rsa''
                (if GetKeyBits (f_key_bits data) = 0 then 2048 else GetKeyBits (f_key_bits data)))
             None req data = Inr parsedBundle \<and>
           ToCSRBundle e parsedBundle = Inr csrb \<and>
           entries s' ''config/ca_bundle'' =
             Some (JSONCertBundle
               \<lparr>cb_PrivateKeyType = csrb_PrivateKeyType csrb, cb_Certificate = '''',
                cb_IssuingCA = '''', cb_PrivateKey = csrb_PrivateKey csrb,
                cb_SerialNumber = ''''\<rparr>) \<and>
           sec = None \<and>
           d = (let base = [''csr'' \<mapsto> VString (csrb_CSR csrb)]
                in if GetString (f_exported data) = ''exported''
                   then base(''private_key'' \<mapsto> VString (csrb_PrivateKey csrb),
                             ''private_key_type'' \<mapsto> VString (csrb_PrivateKeyType csrb))
                   else base)"
proof -
  let ?bits = "GetKeyBits (f_key_bits data)"
  from assms obtain role where r: "pathCAGenerateIntermediate_role data = Inr role"
    by (cases "pathCAGenerateIntermediate_role data")
      (auto simp: pathCAGenerateIntermediate_def Let_def pathCAGenerateIntermediate_role_eq
        split: if_splits)
  note role = pathCAGenerateIntermediate_role_rsa [OF r]
  from assms r obtain parsedBundle where
    g: "generateCSR e role None req data = Inr parsedBundle"
    by (auto simp: pathCAGenerateIntermediate_def Let_def split: sum.splits err.splits)
  from assms r g obtain csrb where c: "ToCSRBundle e parsedBundle = Inr csrb"
    by (auto simp: pathCAGenerateIntermediate_def Let_def split: sum.splits)
  from assms r g c have
    "entries s' ''config/ca_bundle'' =
             Some (JSONCertBundle
               \<lparr>cb_PrivateKeyType = csrb_PrivateKeyType csrb, cb_Certificate = '''',
                cb_IssuingCA = '''', cb_PrivateKey = csrb_PrivateKey csrb,
                cb_SerialNumber = ''''\<rparr>) \<and>
           sec = None \<and>
           d = (let base = [''csr'' \<mapsto> VString (csrb_CSR csrb)]
                in if GetString (f_exported data) = ''exported''
                   then base(''private_key'' \<mapsto> VString (csrb_PrivateKey csrb),
                             ''private_key_type'' \<mapsto> VString (csrb_PrivateKeyType csrb))
                   else base)"
    by (auto simp: pathCAGenerateIntermediate_def Let_def Storage_Put_def
        split: if_splits option.splits)
  with role(4) g [unfolded role(1)] c show ?thesis
    by (intro exI [of _ parsedBundle] exI [of _ csrb]) simp
qed

lemma pathCAGenerateRoot_keys:
  assumes "pathCAGenerateRoot e isCA req data = (Inr (Some (Response d sec)), s')"
  shows "''private_key'' \<in> dom d \<longleftrightarrow> GetString (f_exported data) = ''exported''"
    and "''private_key_type'' \<in> dom d \<longleftrightarrow> GetString (f_exported data) = ''exported''"
proof -
  from pathCAGenerateRoot_success [OF assms]
  have "dom d = {''serial_number'', ''certificate'', ''issuing_ca'', ''expiration''} \<union>
          (if GetString (f_exported data) = ''exported''
           then {''private_key'', ''private_key_type''} else {})"
    by (elim exE conjE) (simp add: Let_def insert_commute)
  then show "''private_key'' \<in> dom d \<longleftrightarrow> GetString (f_exported data) = ''exported''"
    and "''private_key_type'' \<in> dom d \<longleftrightarrow> GetString (f_exported data) = ''exported''"
    by simp_all
qed

lemma pathCAGenerateIntermediate_keys:
  assumes "pathCAGenerateIntermediate e req data = (Inr (Some (Response d sec)), s')"
  shows "''private_key'' \<in> dom d \<longleftrightarrow> GetString (f_exported data) = ''exported''"
    and "''private_key_type'' \<in> dom d \<longleftrightarrow> GetString (f_exported data) = ''exported''"
proof -
  from pathCAGenerateIntermediate_success [OF assms]
  have "dom d = {''csr''} \<union>
          (if GetString (f_exported data) = ''exported''
           then {''private_key'', ''private_key_type''} else {})"
    by (elim exE conjE) (simp add: Let_def insert_commute)
  then show "''private_key'' \<in> dom d \<longleftrightarrow> GetString (f_exported data) = ''exported''"
    and "''private_key_type'' \<in> dom d \<longleftrightarrow> GetString (f_exported data) = ''exported''"
    by simp_all
qed

subsection \<open>The path of the intermediate CA does not declare the common name\<close>

lemma FieldData_pathGenerateIntermediateCA:
  "f_common_name (FieldData pathGenerateIntermediateCA raw) = None"
  "f_exported (FieldData pathGenerateIntermediateCA raw) = f_exported raw"
  "f_key_bits (FieldData pathGenerateIntermediateCA raw) = f_key_bits raw"
  "''common_name'' \<notin> Schema (FieldData pathGenerateIntermediateCA raw)"
  by (simp_all add: FieldData_def pathGenerateIntermediateCA_def generateSchema_def)

lemma FieldData_pathGenerateRootCA:
  "f_common_name (FieldData pathGenerateRootCA raw) = f_common_name raw"
  "f_alt_names (FieldData pathGenerateRootCA raw) = f_alt_names raw"
  "f_ip_sans (FieldData pathGenerateRootCA raw) = f_ip_sans raw"
  "f_ttl (FieldData pathGenerateRootCA raw) = f_ttl raw"
  "f_pki_address (FieldData pathGenerateRootCA raw) = f_pki_address raw"
  "f_exported (FieldData pathGenerateRootCA raw) = f_exported raw"
  "f_key_bits (FieldData pathGenerateRootCA raw) = f_key_bits raw"
  "''common_name'' \<in> Schema (FieldData pathGenerateRootCA raw)"
  by (simp_all add: FieldData_def pathGenerateRootCA_def rootAndSignSchema_def
      generateSchema_def)

lemma generateCreationBundle_undeclared:
  assumes "f_common_name data = None" "''common_name'' \<notin> Schema data"
  shows "generateCreationBundle e role signingBundle csr req data = Inl GoPanic"
  using assms by (simp add: generateCreationBundle_def gcb_commonName_def Get_def)

lemma generateCSR_undeclared:
  "generateCSR e role signingBundle req (FieldData pathGenerateIntermediateCA raw) =
     Inl GoPanic"
  by (simp add: generateCSR_def generateCreationBundle_undeclared
      FieldData_pathGenerateIntermediateCA)

lemma pathCAGenerateIntermediate_routed:
  "pathCAGenerateIntermediate e req (FieldData pathGenerateIntermediateCA raw) =
     (if GetString (f_exported raw) \<noteq> ''exported'' \<and>
         GetString (f_exported raw) \<noteq> ''internal'' then
        (Inr (Some (ErrorResponse
           ''The \"exported\" path parameter must be \"internal\" or \"exported\"'')),
         Storage req)
      else if GetKeyBits (f_key_bits raw) \<notin> {0, 1024, 2048, 4096} then
        (Inr (Some (ErrorResponse ''\"key_bits\" must be 1024, 2048, or 4096'')),
         Storage req)
      else (Inl GoPanic, Storage req))"
  by (simp add: pathCAGenerateIntermediate_def pathCAGenerateIntermediate_role_eq
      generateCSR_undeclared FieldData_pathGenerateIntermediateCA Let_def)

subsection \<open>The key pairs of the generated CAs\<close>

lemma generateKey_rsa:
  assumes "generateKey e ''rsa'' keyBits unknown = Inr (t, k, bs)"
  shows "t = RSAPrivateKey" and "\<exists>n. k = RSAKey n"
  using assms by (auto simp: generateKey_def split: option.splits)

lemma createCertificate_rsa:
  assumes "createCertificate e creationInfo = Inr result" and "ci_KeyType creationInfo = ''rsa''"
  shows "pb_PrivateKeyType result = RSAPrivateKey \<and> (\<exists>n. pb_PrivateKey result = Some (RSAKey n))"
proof -
  from assms obtain t k bs where
    g: "generateKey e ''rsa'' (ci_KeyBits creationInfo) ''unknown key type: '' = Inr (t, k, bs)"
    and r: "pb_PrivateKeyType result = t" "pb_PrivateKey result = Some k"
    by (auto simp: createCertificate_def split: option.splits sum.splits)
  from generateKey_rsa [OF g] r show ?thesis by auto
qed

lemma createCSR_rsa:
  assumes "createCSR e creationInfo = Inr result" and "ci_KeyType creationInfo = ''rsa''"
  shows "pcsr_PrivateKeyType result = RSAPrivateKey \<and>
         (\<exists>n. pcsr_PrivateKey result = Some (RSAKey n))"
proof -
  from assms obtain t k bs where
    g: "generateKey e ''rsa'' (ci_KeyBits creationInfo)
          ''unsupported key type for CA generation: '' = Inr (t, k, bs)"
    and r: "pcsr_PrivateKeyType result = t" "pcsr_PrivateKey result = Some k"
    by (auto simp: createCSR_def Let_def split: option.splits sum.splits)
  from generateKey_rsa [OF g] r show ?thesis by auto
qed

lemma generateCert_rsa:
  assumes "generateCert e role signingBundle isCA req data = Inr result"
    and "KeyType role = ''rsa''"
  shows "pb_PrivateKeyType result = RSAPrivateKey \<and> (\<exists>n. pb_PrivateKey result = Some (RSAKey n))"
proof -
  from assms(1) obtain ci where
    c: "generateCreationBundle e role signingBundle None req data = Inr ci"
    and r: "createCertificate e (if isCA then ci\<lparr>ci_IsCA := isCA\<rparr> else ci) = Inr result"
    by (auto simp: generateCert_def split: sum.splits)
  from generateCreationBundle_success [OF c] assms(2)
  have "ci_KeyType (if isCA then ci\<lparr>ci_IsCA := isCA\<rparr> else ci) = ''rsa''" by auto
  from createCertificate_rsa [OF r this] show ?thesis .
qed

lemma generateCSR_rsa:
  assumes "generateCSR e role signingBundle req data = Inr result"
    and "KeyType role = ''rsa''"
  shows "pcsr_PrivateKeyType result = RSAPrivateKey \<and>
         (\<exists>n. pcsr_PrivateKey result = Some (RSAKey n))"
proof -
  from assms(1) obtain ci where
    c: "generateCreationBundle e role signingBundle None req data = Inr ci"
    and r: "createCSR e ci = Inr result"
    by (auto simp: generateCSR_def split: sum.splits)
  from generateCreationBundle_success [OF c] assms(2) have "ci_KeyType ci = ''rsa''" by auto
  from createCSR_rsa [OF r this] show ?thesis .
qed

lemma pathCAGenerateRoot_rejects_bits:
  assumes "GetKeyBits (f_key_bits data) \<notin> {1024, 2048, 4096}"
  shows "(\<exists>msg. pathCAGenerateRoot e isCA req data
            = (Inr (Some (ErrorResponse msg)), Storage req)) \<or>
         pathCAGenerateRoot e isCA req data = (Inl GoPanic, Storage req)"
  using assms by (simp add: pathCAGenerateRoot_def Let_def caRole_def)

lemma pathCAGenerateIntermediate_rejects_bits:
  assumes "GetKeyBits (f_key_bits data) \<notin> {0, 1024, 2048, 4096}"
  shows "\<exists>msg. pathCAGenerateIntermediate e req data
            = (Inr (Some (ErrorResponse msg)), Storage req)"
  using assms
  by (simp add: pathCAGenerateIntermediate_def pathCAGenerateIntermediate_role_eq Let_def)

text \<open>
  C10, as the code has it. Both handlers build a role with the key type \<^verbatim>\<open>"rsa"\<close>.
  \<^verbatim>\<open>pathCAGenerateRoot\<close> accepts \<^verbatim>\<open>key_bits\<close> 1024, 2048 and 4096 only;
  \<^verbatim>\<open>pathCAGenerateIntermediate\<close> accepts these and 0, which it replaces by 2048: with
  a valid \<^verbatim>\<open>exported\<close> and one of these four values it goes on to \<^verbatim>\<open>generateCSR\<close>
  with the role \<open>caRole '''' ''rsa'' bits\<close>, and every key pair that \<^verbatim>\<open>generateCSR\<close>
  makes for this role is an RSA key pair. Any other value, so 8192 and the curve
  selectors 224, 256, 384 and 521, is refused and nothing is written. Whenever one of
  the handlers succeeds, the key pair it generated is an RSA key pair, and the bundle
  stored under \<^verbatim>\<open>config/ca_bundle\<close> is made from it: neither operation produces an EC
  key.
\<close>

theorem ca_key_pairs_are_rsa:
  assumes "bits = GetKeyBits (f_key_bits data)"
  shows
    "(pathCAGenerateRoot e isCA req data = (Inr (Some (Response d sec)), s') \<longrightarrow>
        bits \<in> {1024, 2048, 4096} \<and>
        (\<exists>parsedBundle n cb.
           generateCert e (caRole (GetString (f_ttl data)) ''rsa'' bits) None isCA req data
             = Inr parsedBundle \<and>
           pb_PrivateKeyType parsedBundle = RSAPrivateKey \<and>
           pb_PrivateKey parsedBundle = Some (RSAKey n) \<and>
           ToCertBundle e parsedBundle = Inr cb \<and>
           entries s' ''config/ca_bundle'' = Some (JSONCertBundle cb))) \<and>
     (pathCAGenerateIntermediate e req data = (Inr (Some (Response d sec)), s') \<longrightarrow>
        bits \<in> {0, 1024, 2048, 4096} \<and>
        (\<exists>parsedBundle n csrb.
           generateCSR e (caRole '''' ''rsa'' (if bits = 0 then 2048 else bits)) None req data
             = Inr parsedBundle \<and>
           pcsr_PrivateKeyType parsedBundle = RSAPrivateKey \<and>
           pcsr_PrivateKey parsedBundle = Some (RSAKey n) \<and>
           ToCSRBundle e parsedBundle = Inr csrb \<and>
           entries s' ''config/ca_bundle'' =
             Some (JSONCertBundle
               \<lparr>cb_PrivateKeyType = csrb_PrivateKeyType csrb, cb_Certificate = '''',
                cb_IssuingCA = '''', cb_PrivateKey = csrb_PrivateKey csrb,
                cb_SerialNumber = ''''\<rparr>))) \<and>
     (bits \<notin> {1024, 2048, 4096} \<longrightarrow>
        (\<exists>msg. pathCAGenerateRoot e isCA req data
            = (Inr (Some (ErrorResponse msg)), Storage req)) \<or>
        pathCAGenerateRoot e isCA req data = (Inl GoPanic, Storage req)) \<and>
     (bits \<notin> {0, 1024, 2048, 4096} \<longrightarrow>
        (\<exists>msg. pathCAGenerateIntermediate e req data
            = (Inr (Some (ErrorResponse msg)), Storage req))) \<and>
     ((GetString (f_exported data) = ''exported'' \<or> GetString (f_exported data) = ''internal'') \<and>
      bits \<in> {0, 1024, 2048, 4096} \<longrightarrow>
        pathCAGenerateIntermediate_role data =
          Inr (caRole '''' ''rsa'' (if bits = 0 then 2048 else bits))) \<and>
     (pathCAGenerateIntermediate_role data = Inr role \<longrightarrow>
        role = caRole '''' ''rsa'' (if bits = 0 then 2048 else bits) \<and>
        KeyType role = ''rsa'' \<and> KeyBits role \<in> {1024, 2048, 4096} \<and>
        bits \<in> {0, 1024, 2048, 4096} \<and>
        (generateCSR e role None req data = Inr csrBundle \<longrightarrow>
           pcsr_PrivateKeyType csrBundle = RSAPrivateKey \<and>
           (\<exists>n. pcsr_PrivateKey csrBundle = Some (RSAKey n))))"
    (is "?root \<and> ?intermediate \<and> ?root_rejects \<and> ?intermediate_rejects \<and>
         ?accepts \<and> ?role")
proof -
  have ?root
  proof
    assume a: "pathCAGenerateRoot e isCA req data = (Inr (Some (Response d sec)), s')"
    from pathCAGenerateRoot_success [OF a] obtain parsedBundle cb where
      b: "GetKeyBits (f_key_bits data) \<in> {1024, 2048, 4096}"
      and g: "generateCert e (caRole (GetString (f_ttl data)) ''rsa''
                (GetKeyBits (f_key_bits data))) None isCA req data = Inr parsedBundle"
      and c: "ToCertBundle e parsedBundle = Inr cb"
      and s: "entries s' ''config/ca_bundle'' = Some (JSONCertBundle cb)"
      by (elim exE conjE)
    have "KeyType (caRole (GetString (f_ttl data)) ''rsa'' (GetKeyBits (f_key_bits data)))
        = ''rsa''"
      by (simp add: caRole_def)
    from generateCert_rsa [OF g this] obtain n where
      "pb_PrivateKeyType parsedBundle = RSAPrivateKey"
      "pb_PrivateKey parsedBundle = Some (RSAKey n)"
      by auto
    with g c s assms have "\<exists>parsedBundle n cb.
           generateCert e (caRole (GetString (f_ttl data)) ''rsa'' bits) None isCA req data
             = Inr parsedBundle \<and>
           pb_PrivateKeyType parsedBundle = RSAPrivateKey \<and>
           pb_PrivateKey parsedBundle = Some (RSAKey n) \<and>
           ToCertBundle e parsedBundle = Inr cb \<and>
           entries s' ''config/ca_bundle'' = Some (JSONCertBundle cb)"
      by (intro exI [of _ parsedBundle] exI [of _ n] exI [of _ cb]) simp
    with b assms show "bits \<in> {1024, 2048, 4096} \<and>
        (\<exists>parsedBundle n cb.
           generateCert e (caRole (GetString (f_ttl data)) ''rsa'' bits) None isCA req data
             = Inr parsedBundle \<and>
           pb_PrivateKeyType parsedBundle = RSAPrivateKey \<and>
           pb_PrivateKey parsedBundle = Some (RSAKey n) \<and>
           ToCertBundle e parsedBundle = Inr cb \<and>
           entries s' ''config/ca_bundle'' = Some (JSONCertBundle cb))"
      by simp
  qed
  moreover have ?intermediate
  proof
    assume a: "pathCAGenerateIntermediate e req data = (Inr (Some (Response d sec)), s')"
    let ?role = "caRole '''' ''rsa''
        (if GetKeyBits (f_key_bits data) = 0 then 2048 else GetKeyBits (f_key_bits data))"
    from pathCAGenerateIntermediate_success [OF a] obtain parsedBundle csrb where
      b: "GetKeyBits (f_key_bits data) \<in> {0, 1024, 2048, 4096}"
      and g: "generateCSR e ?role None req data = Inr parsedBundle"
      and c: "ToCSRBundle e parsedBundle = Inr csrb"
      and s: "entries s' ''config/ca_bundle'' =
               Some (JSONCertBundle
                 \<lparr>cb_PrivateKeyType = csrb_PrivateKeyType csrb, cb_Certificate = '''',
                  cb_IssuingCA = '''', cb_PrivateKey = csrb_PrivateKey csrb,
                  cb_SerialNumber = ''''\<rparr>)"
      by (elim exE conjE)
    have "KeyType ?role = ''rsa''" by (simp add: caRole_def)
    from generateCSR_rsa [OF g this] obtain n where
      "pcsr_PrivateKeyType parsedBundle = RSAPrivateKey"
      "pcsr_PrivateKey parsedBundle = Some (RSAKey n)"
      by auto
    with g c s assms have "\<exists>parsedBundle n csrb.
           generateCSR e (caRole '''' ''rsa'' (if bits = 0 then 2048 else bits)) None req data
             = Inr parsedBundle \<and>
           pcsr_PrivateKeyType parsedBundle = RSAPrivateKey \<and>
           pcsr_PrivateKey parsedBundle = Some (RSAKey n) \<and>
           ToCSRBundle e parsedBundle = Inr csrb \<and>
           entries s' ''config/ca_bundle'' =
             Some (JSONCertBundle
               \<lparr>cb_PrivateKeyType = csrb_PrivateKeyType csrb, cb_Certificate = '''',
                cb_IssuingCA = '''', cb_PrivateKey = csrb_PrivateKey csrb,
                cb_SerialNumber = ''''\<rparr>)"
      by (intro exI [of _ parsedBundle] exI [of _ n] exI [of _ csrb]) (simp split: if_splits)
    with b assms show "bits \<in> {0, 1024, 2048, 4096} \<and>
        (\<exists>parsedBundle n csrb.
           generateCSR e (caRole '''' ''rsa'' (if bits = 0 then 2048 else bits)) None req data
             = Inr parsedBundle \<and>
           pcsr_PrivateKeyType parsedBundle = RSAPrivateKey \<and>
           pcsr_PrivateKey parsedBundle = Some (RSAKey n) \<and>
           ToCSRBundle e parsedBundle = Inr csrb \<and>
           entries s' ''config/ca_bundle'' =
             Some (JSONCertBundle
               \<lparr>cb_PrivateKeyType = csrb_PrivateKeyType csrb, cb_Certificate = '''',
                cb_IssuingCA = '''', cb_PrivateKey = csrb_PrivateKey csrb,
                cb_SerialNumber = ''''\<rparr>))"
      by simp
  qed
  moreover have ?root_rejects
    using assms pathCAGenerateRoot_rejects_bits [of data e isCA req] by simp
  moreover have ?intermediate_rejects
    using assms pathCAGenerateIntermediate_rejects_bits [of data e req] by simp
  moreover have ?accepts
    using assms by (auto simp: pathCAGenerateIntermediate_role_eq)
  moreover have ?role
  proof
    assume r: "pathCAGenerateIntermediate_role data = Inr role"
    note role = pathCAGenerateIntermediate_role_rsa [OF r]
    have "pcsr_PrivateKeyType csrBundle = RSAPrivateKey \<and>
          (\<exists>n. pcsr_PrivateKey csrBundle = Some (RSAKey n))"
      if "generateCSR e role None req data = Inr csrBundle"
      using generateCSR_rsa [OF that role(2)] .
    with role assms show "role = caRole '''' ''rsa'' (if bits = 0 then 2048 else bits) \<and>
        KeyType role = ''rsa'' \<and> KeyBits role \<in> {1024, 2048, 4096} \<and>
        bits \<in> {0, 1024, 2048, 4096} \<and>
        (generateCSR e role None req data = Inr csrBundle \<longrightarrow>
           pcsr_PrivateKeyType csrBundle = RSAPrivateKey \<and>
           (\<exists>n. pcsr_PrivateKey csrBundle = Some (RSAKey n)))"
      by simp
  qed
  ultimately show ?thesis by (intro conjI)
qed

subsection \<open>The two generations in the example world\<close>

lemma generateCreationBundle_ca_example:
  assumes "f_common_name data = Some ''example.com''" "f_alt_names data = None"
    "f_ip_sans data = None" "f_ttl data = None"
  shows "generateCreationBundle exampleEnv (caRole '''' ''rsa'' 2048) None None
           (exampleRequest emptyStorage) data =
         Inr \<lparr>ci_CommonName = ''example.com'', ci_DNSNames = [''example.com''],
              ci_EmailAddresses = [], ci_IPAddresses = [], ci_IsCA = False,
              ci_KeyType = ''rsa'', ci_KeyBits = 2048, ci_SigningBundle = None,
              ci_TTL = 720 * Hour, ci_Usage = 0, ci_UseCSRValues = False,
              ci_URLs = Some emptyURLs, ci_MaxPathLength = - 1\<rparr>"
proof -
  let ?role = "caRole '''' ''rsa'' 2048"
  have cn: "gcb_commonName ?role None data = Inr ''example.com''"
    using assms by (simp add: gcb_commonName_def Get_def)
  have names: "gcb_names ''example.com'' data = ([''example.com''], [])"
    using assms by (simp add: gcb_names_def)
  have ips: "gcb_ipAddresses exampleEnv ?role data = Inr []"
    using assms by (simp add: gcb_ipAddresses_def)
  have ttl: "gcb_ttl exampleEnv ?role data = Inr (720 * Hour)"
    using assms by (simp add: gcb_ttl_def gcb_ttlField_def caRole_def exampleEnv_sel)
  have usage: "gcb_usage ?role = 0"
    by (simp add: gcb_usage_def caRole_def)
  have ok: "validateNames dn [''example.com''] ?role = ''''"
      "validateNames dn [] ?role = ''''" for dn
    by (simp_all add: nameAllowed_def roleAdmits_def caRole_def Let_def)
  have fin: "gcb_finish exampleEnv ?role None req cb =
      Inr (cb\<lparr>ci_URLs := Some emptyURLs, ci_MaxPathLength := - 1\<rparr>)" for cb req
    by (simp add: gcb_finish_def exampleEnv_sel caRole_def)
  show ?thesis
    by (simp add: generateCreationBundle_def cn names ips ttl usage ok fin
        del: validateNames.simps)
      (simp add: caRole_def)
qed

lemma pathCAGenerateRoot_example:
  assumes "f_common_name data = Some ''example.com''" "f_alt_names data = None"
    "f_ip_sans data = None" "f_ttl data = None" "f_key_bits data = None"
    "f_pki_address data = Some ''https://vault.example.com/v1/pki''"
    "f_exported data = Some exported" "exported = ''exported'' \<or> exported = ''internal''"
  shows "pathCAGenerateRoot exampleEnv True (exampleRequest emptyStorage) data =
     (Inr (Some (Response
        (if exported = ''exported''
         then [''serial_number'' \<mapsto> VString ''07'',
               ''certificate'' \<mapsto> VString ''CERTIFICATE'',
               ''issuing_ca'' \<mapsto> VString ''CERTIFICATE'',
               ''expiration'' \<mapsto> VInt 31536000,
               ''private_key'' \<mapsto> VString ''RSA PRIVATE KEY'',
               ''private_key_type'' \<mapsto> VString ''rsa'']
         else [''serial_number'' \<mapsto> VString ''07'',
               ''certificate'' \<mapsto> VString ''CERTIFICATE'',
               ''issuing_ca'' \<mapsto> VString ''CERTIFICATE'',
               ''expiration'' \<mapsto> VInt 31536000]) None)),
      emptyStorage\<lparr>entries :=
          [''config/ca_bundle'' \<mapsto> JSONCertBundle exampleCertBundle,
           ''ca'' \<mapsto> RawBytes ''der'', ''crl'' \<mapsto> RawBytes []],
        written := [''config/ca_bundle'', ''ca'', ''crl'']\<rparr>)"
proof -
  have d: "GetString (f_exported data) = exported"
      "GetString (f_ttl data) = ''''" "GetKeyBits (f_key_bits data) = 2048"
      "ToLower (GetString (f_pki_address data)) = ''https://vault.example.com/v1/pki''"
    using assms
    by (simp_all add: GetString_def GetKeyBits_def ToLower_def toLowerByte_def)
  have r: "MountPoint (exampleRequest emptyStorage) = ''pki/''"
      "Storage (exampleRequest emptyStorage) = emptyStorage"
    by (simp_all add: exampleRequest_def)
  have b: "\<lparr>ci_CommonName = ''example.com'', ci_DNSNames = [''example.com''],
              ci_EmailAddresses = [], ci_IPAddresses = [], ci_IsCA = True,
              ci_KeyType = ''rsa'', ci_KeyBits = 2048, ci_SigningBundle = None,
              ci_TTL = 720 * Hour, ci_Usage = 0, ci_UseCSRValues = False,
              ci_URLs = Some emptyURLs, ci_MaxPathLength = - 1\<rparr>
        = exampleBundle\<lparr>ci_CommonName := ''example.com'', ci_DNSNames := [''example.com''],
              ci_IsCA := True, ci_Usage := 0\<rparr>"
    by (simp add: exampleBundle_def)
  have "\<exists>t. createCertificate_template exampleEnv
      (exampleBundle\<lparr>ci_CommonName := ''example.com'', ci_DNSNames := [''example.com''],
              ci_IsCA := True, ci_Usage := 0\<rparr>) 7 ''ski'' = Inr t"
    by (simp add: createCertificate_template_def exampleBundle_def Let_def)
  then obtain t where t: "createCertificate_template exampleEnv
      (exampleBundle\<lparr>ci_CommonName := ''example.com'', ci_DNSNames := [''example.com''],
              ci_IsCA := True, ci_Usage := 0\<rparr>) 7 ''ski'' = Inr t" ..
  have k: "ci_KeyType (exampleBundle\<lparr>ci_CommonName := ''example.com'',
              ci_DNSNames := [''example.com''], ci_IsCA := True, ci_Usage := 0\<rparr>) = ''rsa''"
      "ci_SigningBundle (exampleBundle\<lparr>ci_CommonName := ''example.com'',
              ci_DNSNames := [''example.com''], ci_IsCA := True, ci_Usage := 0\<rparr>) = None"
    by (simp_all add: exampleBundle_def)
  have c: "createCertificate exampleEnv
      (exampleBundle\<lparr>ci_CommonName := ''example.com'', ci_DNSNames := [''example.com''],
              ci_IsCA := True, ci_Usage := 0\<rparr>) = Inr exampleParsed"
    using t
    by (simp add: createCertificate_def k generateKey_example exampleEnv_sel exampleParsed_def)
  have g: "generateCert exampleEnv (caRole '''' ''rsa'' 2048) None True
      (exampleRequest emptyStorage) data = Inr exampleParsed"
    by (simp add: generateCert_def generateCreationBundle_ca_example [OF assms(1-4)] b c)
  have st: "storeCA emptyStorage exampleCertBundle ''der'' resp =
     (Inr resp,
      emptyStorage\<lparr>entries :=
          [''config/ca_bundle'' \<mapsto> JSONCertBundle exampleCertBundle,
           ''ca'' \<mapsto> RawBytes ''der'', ''crl'' \<mapsto> RawBytes []],
        written := [''config/ca_bundle'', ''ca'', ''crl'']\<rparr>)" for resp
    by (simp add: storeCA_def Storage_Put_def emptyStorage_def)
  have p: "pb_Certificate exampleParsed = Some exampleCert"
      "pb_CertificateBytes exampleParsed = ''der''"
    by (simp_all add: exampleParsed_def)
  have u: "Unix (NotAfter exampleCert) = 31536000"
    by (simp add: Unix_def exampleCert_def Hour_def Second_def)
  from assms(8) show ?thesis
    by (simp add: pathCAGenerateRoot_def d r caRole_def [symmetric] g exampleEnv_sel p u st
        Let_def)
      (auto simp: caRole_def exampleCertBundle_def)
qed

lemma rootData_fields:
  "f_common_name rootData = Some ''example.com''" "f_alt_names rootData = None"
  "f_ip_sans rootData = None" "f_ttl rootData = None" "f_key_bits rootData = None"
  "f_pki_address rootData = Some ''https://vault.example.com/v1/pki''"
  "f_exported rootData = Some ''exported''"
  by (simp_all add: rootData_def FieldData_pathGenerateRootCA rootValues_def noFields_def)

lemma rootData_internal_fields:
  fixes data
  defines "data \<equiv> FieldData pathGenerateRootCA (rootValues\<lparr>f_exported := Some ''internal''\<rparr>)"
  shows "f_common_name data = Some ''example.com''" "f_alt_names data = None"
    "f_ip_sans data = None" "f_ttl data = None" "f_key_bits data = None"
    "f_pki_address data = Some ''https://vault.example.com/v1/pki''"
    "f_exported data = Some ''internal''"
  by (simp_all add: data_def FieldData_pathGenerateRootCA rootValues_def noFields_def)

text \<open>
  C9 at a failing input, with the sibling path beside it. The path of
  \<^verbatim>\<open>pathCAGenerateIntermediate\<close> declares \<^verbatim>\<open>exported\<close> and \<^verbatim>\<open>key_bits\<close> only. For
  every request that it routes, whatever the values the request supplies, the handler
  returns an error response for a bad \<^verbatim>\<open>exported\<close> or a bad \<^verbatim>\<open>key_bits\<close>, and
  otherwise panics where \<^verbatim>\<open>generateCreationBundle\<close> reads \<^verbatim>\<open>common_name\<close>, with the
  storage as it was: it returns no response that holds a private key, and none that
  holds a CSR. So it is for the request with \<^verbatim>\<open>exported\<close> set to \<^verbatim>\<open>exported\<close> and
  \<^verbatim>\<open>key_bits\<close> 2048. In the same world \<^verbatim>\<open>pathCAGenerateRoot\<close>, whose path declares
  the fields of \<^verbatim>\<open>rootAndSignSchema\<close> too, returns the private key and its type when
  \<^verbatim>\<open>exported\<close> is \<^verbatim>\<open>exported\<close>, and neither when it is \<^verbatim>\<open>internal\<close>.
\<close>

theorem pathCAGenerateIntermediate_panics_at_common_name:
  "pathCAGenerateIntermediate e req (FieldData pathGenerateIntermediateCA raw) =
     (if GetString (f_exported raw) \<noteq> ''exported'' \<and>
         GetString (f_exported raw) \<noteq> ''internal'' then
        (Inr (Some (ErrorResponse
           ''The \"exported\" path parameter must be \"internal\" or \"exported\"'')),
         Storage req)
      else if GetKeyBits (f_key_bits raw) \<notin> {0, 1024, 2048, 4096} then
        (Inr (Some (ErrorResponse ''\"key_bits\" must be 1024, 2048, or 4096'')),
         Storage req)
      else (Inl GoPanic, Storage req)) \<and>
   f_exported intermediateData = Some ''exported'' \<and>
   f_key_bits intermediateData = Some 2048 \<and>
   pathCAGenerateIntermediate exampleEnv (exampleRequest emptyStorage) intermediateData =
     (Inl GoPanic, emptyStorage) \<and>
   pathCAGenerateRoot exampleEnv True (exampleRequest emptyStorage) rootData =
     (Inr (Some (Response
        [''serial_number'' \<mapsto> VString ''07'',
         ''certificate'' \<mapsto> VString ''CERTIFICATE'',
         ''issuing_ca'' \<mapsto> VString ''CERTIFICATE'',
         ''expiration'' \<mapsto> VInt 31536000,
         ''private_key'' \<mapsto> VString ''RSA PRIVATE KEY'',
         ''private_key_type'' \<mapsto> VString ''rsa''] None)),
      emptyStorage\<lparr>entries :=
          [''config/ca_bundle'' \<mapsto> JSONCertBundle exampleCertBundle,
           ''ca'' \<mapsto> RawBytes ''der'', ''crl'' \<mapsto> RawBytes []],
        written := [''config/ca_bundle'', ''ca'', ''crl'']\<rparr>) \<and>
   pathCAGenerateRoot exampleEnv True (exampleRequest emptyStorage)
       (FieldData pathGenerateRootCA (rootValues\<lparr>f_exported := Some ''internal''\<rparr>)) =
     (Inr (Some (Response
        [''serial_number'' \<mapsto> VString ''07'',
         ''certificate'' \<mapsto> VString ''CERTIFICATE'',
         ''issuing_ca'' \<mapsto> VString ''CERTIFICATE'',
         ''expiration'' \<mapsto> VInt 31536000] None)),
      emptyStorage\<lparr>entries :=
          [''config/ca_bundle'' \<mapsto> JSONCertBundle exampleCertBundle,
           ''ca'' \<mapsto> RawBytes ''der'', ''crl'' \<mapsto> RawBytes []],
        written := [''config/ca_bundle'', ''ca'', ''crl'']\<rparr>)"
proof -
  have x: "f_exported intermediateData = Some ''exported''"
      "f_key_bits intermediateData = Some 2048"
    by (simp_all add: intermediateData_def FieldData_pathGenerateIntermediateCA
        intermediateValues_def)
  have i: "pathCAGenerateIntermediate exampleEnv (exampleRequest emptyStorage)
      intermediateData = (Inl GoPanic, emptyStorage)"
    unfolding intermediateData_def pathCAGenerateIntermediate_routed
    by (simp add: intermediateValues_def GetString_def GetKeyBits_def exampleRequest_def)
  have "''exported'' = ''exported'' \<or> ''exported'' = ''internal''"
      "''internal'' = ''exported'' \<or> ''internal'' = ''internal''"
    by simp_all
  from pathCAGenerateRoot_example [OF rootData_fields this(1)]
       pathCAGenerateRoot_example [OF rootData_internal_fields this(2)]
       pathCAGenerateIntermediate_routed [of e req raw] x i
  show ?thesis by simp
qed

text \<open>
  C10 as stated fails for \<^verbatim>\<open>key_bits\<close> 0 on the path of the intermediate CA:
  \<^verbatim>\<open>pathCAGenerateIntermediate\<close> does not refuse it as it refuses 8192, it goes on
  with a role of 2048 bits, so 1024, 2048 and 4096 are not the only values it accepts.
  (The request then ends as every accepted request on this path ends, in the panic at
  \<^verbatim>\<open>common_name\<close>.)
\<close>

theorem key_bits_zero_accepted_counterexample:
  "GetKeyBits (f_key_bits
     (FieldData pathGenerateIntermediateCA (intermediateValues\<lparr>f_key_bits := Some 0\<rparr>))) = 0 \<and>
   pathCAGenerateIntermediate_role
     (FieldData pathGenerateIntermediateCA (intermediateValues\<lparr>f_key_bits := Some 0\<rparr>)) =
     Inr (caRole '''' ''rsa'' 2048) \<and>
   pathCAGenerateIntermediate exampleEnv (exampleRequest emptyStorage)
     (FieldData pathGenerateIntermediateCA (intermediateValues\<lparr>f_key_bits := Some 0\<rparr>)) =
     (Inl GoPanic, emptyStorage) \<and>
   pathCAGenerateIntermediate_role
     (FieldData pathGenerateIntermediateCA (intermediateValues\<lparr>f_key_bits := Some 8192\<rparr>)) =
     Inl (ErrorResponse ''\"key_bits\" must be 1024, 2048, or 4096'') \<and>
   pathCAGenerateIntermediate exampleEnv (exampleRequest emptyStorage)
     (FieldData pathGenerateIntermediateCA (intermediateValues\<lparr>f_key_bits := Some 8192\<rparr>)) =
     (Inr (Some (ErrorResponse ''\"key_bits\" must be 1024, 2048, or 4096'')), emptyStorage)"
  by (simp add: pathCAGenerateIntermediate_routed pathCAGenerateIntermediate_role_eq
      FieldData_pathGenerateIntermediateCA intermediateValues_def GetString_def
      GetKeyBits_def exampleRequest_def)

theorem ca_key_pairs_are_rsa_witness:
  "(\<exists>parsedBundle n cb.
      generateCert exampleEnv (caRole (GetString (f_ttl rootData)) ''rsa'' 2048) None True
        (exampleRequest emptyStorage) rootData = Inr parsedBundle \<and>
      pb_PrivateKeyType parsedBundle = RSAPrivateKey \<and>
      pb_PrivateKey parsedBundle = Some (RSAKey n) \<and>
      ToCertBundle exampleEnv parsedBundle = Inr cb \<and>
      entries (emptyStorage\<lparr>entries :=
          [''config/ca_bundle'' \<mapsto> JSONCertBundle exampleCertBundle,
           ''ca'' \<mapsto> RawBytes ''der'', ''crl'' \<mapsto> RawBytes []],
        written := [''config/ca_bundle'', ''ca'', ''crl'']\<rparr>) ''config/ca_bundle''
        = Some (JSONCertBundle cb)) \<and>
   (\<exists>msg. pathCAGenerateRoot exampleEnv True (exampleRequest emptyStorage)
           (FieldData pathGenerateRootCA (rootValues\<lparr>f_key_bits := Some 8192\<rparr>)) =
         (Inr (Some (ErrorResponse msg)), emptyStorage)) \<and>
   (\<exists>msg. pathCAGenerateIntermediate exampleEnv (exampleRequest emptyStorage)
           (FieldData pathGenerateIntermediateCA (intermediateValues\<lparr>f_key_bits := Some 256\<rparr>)) =
         (Inr (Some (ErrorResponse msg)), emptyStorage)) \<and>
   pathCAGenerateIntermediate_role intermediateData = Inr (caRole '''' ''rsa'' 2048) \<and>
   KeyType (caRole '''' ''rsa'' 2048) = ''rsa''"
proof -
  let ?big = "FieldData pathGenerateRootCA (rootValues\<lparr>f_key_bits := Some 8192\<rparr>)"
  let ?curve = "FieldData pathGenerateIntermediateCA (intermediateValues\<lparr>f_key_bits := Some 256\<rparr>)"
  have b: "2048 = GetKeyBits (f_key_bits rootData)"
    "8192 = GetKeyBits (f_key_bits ?big)"
    "256 = GetKeyBits (f_key_bits ?curve)"
    "2048 = GetKeyBits (f_key_bits intermediateData)"
    by (simp_all add: rootData_fields FieldData_pathGenerateRootCA
        FieldData_pathGenerateIntermediateCA intermediateData_def intermediateValues_def
        GetKeyBits_def)
  have s: "Storage (exampleRequest emptyStorage) = emptyStorage"
    by (simp add: exampleRequest_def)
  have x: "''exported'' = ''exported'' \<or> ''exported'' = ''internal''" by simp
  have ok: "pathCAGenerateRoot exampleEnv True (exampleRequest emptyStorage) rootData =
     (Inr (Some (Response
        [''serial_number'' \<mapsto> VString ''07'',
         ''certificate'' \<mapsto> VString ''CERTIFICATE'',
         ''issuing_ca'' \<mapsto> VString ''CERTIFICATE'',
         ''expiration'' \<mapsto> VInt 31536000,
         ''private_key'' \<mapsto> VString ''RSA PRIVATE KEY'',
         ''private_key_type'' \<mapsto> VString ''rsa''] None)),
      emptyStorage\<lparr>entries :=
          [''config/ca_bundle'' \<mapsto> JSONCertBundle exampleCertBundle,
           ''ca'' \<mapsto> RawBytes ''der'', ''crl'' \<mapsto> RawBytes []],
        written := [''config/ca_bundle'', ''ca'', ''crl'']\<rparr>)"
    using pathCAGenerateRoot_example [OF rootData_fields x] by simp
  note root = ca_key_pairs_are_rsa [OF b(1), THEN conjunct1, THEN mp, OF ok, THEN conjunct2]
  have nopanic: "pathCAGenerateRoot exampleEnv True (exampleRequest emptyStorage) ?big
      \<noteq> (Inl GoPanic, emptyStorage)"
    by (simp add: pathCAGenerateRoot_def Let_def FieldData_pathGenerateRootCA rootValues_def
        noFields_def GetString_def GetKeyBits_def ToLower_def toLowerByte_def
        exampleRequest_def caRole_def)
  have big: "(8192 :: int) \<notin> {1024, 2048, 4096}" by simp
  from ca_key_pairs_are_rsa [OF b(2), of exampleEnv True "exampleRequest emptyStorage",
      THEN conjunct2, THEN conjunct2, THEN conjunct1, THEN mp, OF big] nopanic
  have 3: "\<exists>msg. pathCAGenerateRoot exampleEnv True (exampleRequest emptyStorage) ?big =
         (Inr (Some (ErrorResponse msg)), emptyStorage)"
    by (simp add: s)
  have curve: "(256 :: int) \<notin> {0, 1024, 2048, 4096}" by simp
  from ca_key_pairs_are_rsa [OF b(3), of exampleEnv True "exampleRequest emptyStorage",
      THEN conjunct2, THEN conjunct2, THEN conjunct2, THEN conjunct1, THEN mp, OF curve]
  have 4: "\<exists>msg. pathCAGenerateIntermediate exampleEnv (exampleRequest emptyStorage) ?curve =
         (Inr (Some (ErrorResponse msg)), emptyStorage)"
    by (simp add: s)
  have e: "(GetString (f_exported intermediateData) = ''exported'' \<or>
            GetString (f_exported intermediateData) = ''internal'') \<and>
           (2048 :: int) \<in> {0, 1024, 2048, 4096}"
    by (simp add: intermediateData_def FieldData_pathGenerateIntermediateCA
        intermediateValues_def GetString_def)
  from ca_key_pairs_are_rsa [OF b(4), of exampleEnv True "exampleRequest emptyStorage",
      THEN conjunct2, THEN conjunct2, THEN conjunct2, THEN conjunct2, THEN conjunct1,
      THEN mp, OF e]
  have 5: "pathCAGenerateIntermediate_role intermediateData = Inr (caRole '''' ''rsa'' 2048)"
    by simp
  from ca_key_pairs_are_rsa [OF b(4), of exampleEnv True "exampleRequest emptyStorage",
      THEN conjunct2, THEN conjunct2, THEN conjunct2, THEN conjunct2, THEN conjunct2,
      THEN mp, OF 5, THEN conjunct2, THEN conjunct1]
  have 6: "KeyType (caRole '''' ''rsa'' 2048) = ''rsa''" .
  from root 3 4 5 6 show ?thesis by (intro conjI)
qed

end
